theory Spec2Isabelle
  imports Main "HOL-Library.AList"
begin

section \<open>JavaScript values\<close>

text \<open>
  The portal is a TypeScript/JavaScript program whose data arrives untyped: the server
  payload is \<^verbatim>\<open>any\<close>, the cache is whatever \<^verbatim>\<open>JSON.parse\<close> returns, the form data of the
  handlers is \<^verbatim>\<open>any\<close>. The values are therefore modelled as they are at run time. Numbers
  are the integers and NaN (fractions and infinities behave like non-zero integers in
  every test made here); strings are lists of characters, compared as they are, and
  what depends on the letters of Unicode (lower-casing) is left to the platform as a
  parameter. An object is the list of its own
  properties in insertion order. An array is its elements together with the named
  properties that were assigned to it, which are none for every array that comes from a
  literal or from \<^verbatim>\<open>JSON.parse\<close>. Built-in members (\<^verbatim>\<open>length\<close>, methods, whatever
  \<^verbatim>\<open>Object.prototype\<close> provides) are not properties of the model: where a key comes
  from the data, the statements say that it does not reach one (\<open>inheritedKey\<close> below).
\<close>

datatype jv =
    JUndefined
  | JNull
  | JBool bool
  | JNum int
  | JNaN
  | JStr string
  | JArray "jv list" "(string \<times> jv) list"
  | JObj "(string \<times> jv) list"

abbreviation JArr :: "jv list \<Rightarrow> jv" where
  "JArr xs \<equiv> JArray xs []"

datatype js_error = TypeError string | SyntaxError string | Error string

text \<open>ToBoolean: what \<^verbatim>\<open>!x\<close>, \<^verbatim>\<open>x && y\<close>, \<^verbatim>\<open>x || y\<close> and \<^verbatim>\<open>x ? a : b\<close> test.\<close>

fun truthy :: "jv \<Rightarrow> bool" where
  "truthy JUndefined = False"
| "truthy JNull = False"
| "truthy (JBool b) = b"
| "truthy (JNum n) = (n \<noteq> 0)"
| "truthy JNaN = False"
| "truthy (JStr s) = (s \<noteq> [])"
| "truthy (JArray xs ps) = True"
| "truthy (JObj kvs) = True"

text \<open>\<^verbatim>\<open>a || b\<close> on values.\<close>

definition js_or :: "jv \<Rightarrow> jv \<Rightarrow> jv" where
  "js_or a b = (if truthy a then a else b)"

fun show_nat :: "nat \<Rightarrow> string" where
  "show_nat n =
     (if n < 10 then [char_of (48 + n)] else show_nat (n div 10) @ [char_of (48 + n mod 10)])"

text \<open>The equation of \<open>show_nat\<close> is used by evaluation only: as a rewrite rule it would not stop.\<close>

declare show_nat.simps [simp del]

definition show_int :: "int \<Rightarrow> string" where
  "show_int i = (if i < 0 then CHR ''-'' # show_nat (nat (- i)) else show_nat (nat i))"

fun join :: "string \<Rightarrow> string list \<Rightarrow> string" where
  "join sep [] = []"
| "join sep [x] = x"
| "join sep (x # y # ys) = x @ sep @ join sep (y # ys)"

text \<open>
  \<^verbatim>\<open>String(x)\<close>, which is also how a value becomes a property key and what a template
  literal inserts. An array is the comma-joined strings of its elements, with
  \<^verbatim>\<open>null\<close> and \<^verbatim>\<open>undefined\<close> elements rendered empty.
\<close>

fun js_String :: "jv \<Rightarrow> string" where
  "js_String JUndefined = ''undefined''"
| "js_String JNull = ''null''"
| "js_String (JBool b) = (if b then ''true'' else ''false'')"
| "js_String (JNum n) = show_int n"
| "js_String JNaN = ''NaN''"
| "js_String (JStr s) = s"
| "js_String (JArray xs ps) =
     join '','' (map (\<lambda>x. if x = JUndefined \<or> x = JNull then [] else js_String x) xs)"
| "js_String (JObj kvs) = ''[object Object]''"


subsection \<open>Sequencing of computations that may throw\<close>

definition thenE :: "'e + 'a \<Rightarrow> ('a \<Rightarrow> 'e + 'b) \<Rightarrow> 'e + 'b" where
  "thenE m f = (case m of Inl e \<Rightarrow> Inl e | Inr x \<Rightarrow> f x)"

fun mapE :: "('a \<Rightarrow> 'e + 'b) \<Rightarrow> 'a list \<Rightarrow> 'e + 'b list" where
  "mapE f [] = Inr []"
| "mapE f (x # xs) = thenE (f x) (\<lambda>y. thenE (mapE f xs) (\<lambda>ys. Inr (y # ys)))"

text \<open>\<^verbatim>\<open>xs.find(p)\<close> with a callback that may throw; \<open>None\<close> is the \<^verbatim>\<open>undefined\<close> of no match.\<close>

fun findE :: "('a \<Rightarrow> 'e + bool) \<Rightarrow> 'a list \<Rightarrow> 'e + 'a option" where
  "findE p [] = Inr None"
| "findE p (x # xs) = thenE (p x) (\<lambda>b. if b then Inr (Some x) else findE p xs)"

subsection \<open>Property access\<close>

definition orUndefined :: "jv option \<Rightarrow> jv" where
  "orUndefined r = (case r of None \<Rightarrow> JUndefined | Some v \<Rightarrow> v)"

definition is_digit :: "char \<Rightarrow> bool" where
  "is_digit c = (48 \<le> (of_char c :: nat) \<and> (of_char c :: nat) \<le> 57)"

text \<open>A key that is a canonical array index (\<^verbatim>\<open>"0"\<close>, \<^verbatim>\<open>"17"\<close>, not \<^verbatim>\<open>"017"\<close>).\<close>

definition array_index :: "string \<Rightarrow> nat option" where
  "array_index k =
     (if k \<noteq> [] \<and> list_all is_digit k \<and> (length k = 1 \<or> hd k \<noteq> CHR ''0'')
      then Some (foldl (\<lambda>n c. 10 * n + (of_char c - 48)) 0 k) else None)"

definition elem :: "jv list \<Rightarrow> nat \<Rightarrow> jv" where
  "elem xs i = (if i < length xs then xs ! i else JUndefined)"

text \<open>
  The prototype chain is not modelled: a value is its own properties. Every object
  inherits the members of \<^verbatim>\<open>Object.prototype\<close>, whose names are these; a read under one of
  them finds the inherited member when the object has no property of its own under it.
\<close>

definition inheritedKey :: "string \<Rightarrow> bool" where
  "inheritedKey k =
     (k \<in> set [''constructor'', ''__defineGetter__'', ''__defineSetter__'', ''hasOwnProperty'',
                ''__lookupGetter__'', ''__lookupSetter__'', ''isPrototypeOf'',
                ''propertyIsEnumerable'', ''toString'', ''valueOf'', ''__proto__'',
                ''toLocaleString''])"

text \<open>
  \<^verbatim>\<open>o[k]\<close> and \<^verbatim>\<open>o.k\<close>, for a key that is an own property or is not inherited: a
  TypeError on \<^verbatim>\<open>undefined\<close> and \<^verbatim>\<open>null\<close>, \<^verbatim>\<open>undefined\<close> for a property that is not
  there, also on a number or a boolean. The keys read in the source are fixed field names
  (\<^verbatim>\<open>id\<close>, \<^verbatim>\<open>name\<close>, \<^verbatim>\<open>branches\<close>, ...), which no prototype has, the keys of the seed, and
  the branch identifiers of a department; the statements about the latter say that an
  identifier which is an inherited key is a key of the branch map.
\<close>

fun get :: "jv \<Rightarrow> string \<Rightarrow> js_error + jv" where
  "get JUndefined k = Inl (TypeError ''Cannot read properties of undefined'')"
| "get JNull k = Inl (TypeError ''Cannot read properties of null'')"
| "get (JObj kvs) k = Inr (orUndefined (map_of kvs k))"
| "get (JArray xs ps) k =
     Inr (case array_index k of Some i \<Rightarrow> elem xs i | None \<Rightarrow> orUndefined (map_of ps k))"
| "get (JStr s) k =
     Inr (case array_index k of
            Some i \<Rightarrow> if i < length s then JStr [s ! i] else JUndefined
          | None \<Rightarrow> JUndefined)"
| "get (JBool b) k = Inr JUndefined"
| "get (JNum n) k = Inr JUndefined"
| "get JNaN k = Inr JUndefined"

text \<open>Writing at an index of an array: in range it replaces, beyond it the array grows.\<close>

definition put_elem :: "jv list \<Rightarrow> nat \<Rightarrow> jv \<Rightarrow> jv list" where
  "put_elem xs i v =
     (if i < length xs then xs[i := v] else xs @ replicate (i - length xs) JUndefined @ [v])"

text \<open>
  \<^verbatim>\<open>o[k] = v\<close> on the properties of an object: an existing property keeps its place, a
  new one goes last. Under \<^verbatim>\<open>__proto__\<close>, when the object has no property of its own with
  that name, the assignment runs the inherited setter, which changes the prototype or
  does nothing: no property is added.
\<close>

definition setOwn :: "string \<Rightarrow> jv \<Rightarrow> (string \<times> jv) list \<Rightarrow> (string \<times> jv) list" where
  "setOwn k v kvs =
     (if k = ''__proto__'' \<and> map_of kvs k = None then kvs else AList.update k v kvs)"

text \<open>
  \<^verbatim>\<open>o[k] = v\<close> in a module, which is strict code: a TypeError on \<^verbatim>\<open>undefined\<close> and
  \<^verbatim>\<open>null\<close>, and also on a primitive, which cannot take a property; on a primitive the
  setter of \<^verbatim>\<open>__proto__\<close> returns without effect.
\<close>

fun assign :: "jv \<Rightarrow> string \<Rightarrow> jv \<Rightarrow> js_error + jv" where
  "assign (JObj kvs) k v = Inr (JObj (setOwn k v kvs))"
| "assign (JArray xs ps) k v =
     Inr (case array_index k of
            Some i \<Rightarrow> JArray (put_elem xs i v) ps
          | None \<Rightarrow> JArray xs (setOwn k v ps))"
| "assign JUndefined k v = Inl (TypeError ''Cannot set properties of undefined'')"
| "assign JNull k v = Inl (TypeError ''Cannot set properties of null'')"
| "assign (JStr s) k v =
     (if k = ''__proto__'' then Inr (JStr s)
      else Inl (TypeError ''Cannot create property on string''))"
| "assign (JBool b) k v =
     (if k = ''__proto__'' then Inr (JBool b)
      else Inl (TypeError ''Cannot create property on boolean''))"
| "assign (JNum n) k v =
     (if k = ''__proto__'' then Inr (JNum n)
      else Inl (TypeError ''Cannot create property on number''))"
| "assign JNaN k v =
     (if k = ''__proto__'' then Inr JNaN
      else Inl (TypeError ''Cannot create property on number''))"

text \<open>
  Where the source changes an array or object that it reached through a property of
  another object, the changed value is put back under that property.
\<close>

fun put_back :: "jv \<Rightarrow> string \<Rightarrow> jv \<Rightarrow> jv" where
  "put_back (JObj kvs) k v = JObj (AList.update k v kvs)"
| "put_back (JArray xs ps) k v = JArray xs (AList.update k v ps)"
| "put_back x k v = x"

text \<open>
  The own enumerable properties: what \<^verbatim>\<open>{...x}\<close> copies and \<^verbatim>\<open>Object.keys(x)\<close> lists. A
  key has one value in an object; should a list repeat a key, the first pair is the
  property, as it is for \<open>get\<close>, and \<open>clearjunk\<close> drops the others.
\<close>

fun ownProps :: "jv \<Rightarrow> (string \<times> jv) list" where
  "ownProps (JObj kvs) = AList.clearjunk kvs"
| "ownProps (JArray xs ps) = zip (map show_nat [0..<length xs]) xs @ AList.clearjunk ps"
| "ownProps (JStr s) = zip (map show_nat [0..<length s]) (map (\<lambda>c. JStr [c]) s)"
| "ownProps x = []"

definition Object_keys :: "jv \<Rightarrow> js_error + string list" where
  "Object_keys x =
     (if x = JUndefined \<or> x = JNull
      then Inl (TypeError ''Cannot convert undefined or null to object'')
      else Inr (map fst (ownProps x)))"

text \<open>
  An object literal \<^verbatim>\<open>{...a, k: v, ...}\<close>: the properties in the order written, a later
  one replacing the value of an earlier one with the same key.
\<close>

definition obj_of :: "(string \<times> jv) list \<Rightarrow> (string \<times> jv) list" where
  "obj_of kvs = foldl (\<lambda>acc (k, v). AList.update k v acc) [] kvs"

text \<open>
  The elements a method of \<^verbatim>\<open>Array.prototype\<close> works on (\<^verbatim>\<open>map\<close>, \<^verbatim>\<open>find\<close>, \<^verbatim>\<open>forEach\<close>,
  \<^verbatim>\<open>push\<close>): calling one on anything but an array is a TypeError.
\<close>

fun elements :: "jv \<Rightarrow> js_error + jv list" where
  "elements (JArray xs ps) = Inr xs"
| "elements JUndefined = Inl (TypeError ''Cannot read properties of undefined'')"
| "elements JNull = Inl (TypeError ''Cannot read properties of null'')"
| "elements x = Inl (TypeError ''not a function'')"

text \<open>
  \<^verbatim>\<open>a === b\<close>: by value on primitives, NaN equal to nothing. Two objects are equal only
  when they are the same object; the comparisons made here are between a value of the
  aggregate and a value of the form, or of the seed, which share no object.
\<close>

fun strict_eq :: "jv \<Rightarrow> jv \<Rightarrow> bool" where
  "strict_eq JNaN b = False"
| "strict_eq (JArray xs ps) b = False"
| "strict_eq (JObj kvs) b = False"
| "strict_eq a b = (a = b)"

text \<open>The comparison of \<^verbatim>\<open>Set.prototype.has\<close>: as \<^verbatim>\<open>===\<close>, but NaN equals NaN.\<close>

fun sameValueZero :: "jv \<Rightarrow> jv \<Rightarrow> bool" where
  "sameValueZero (JArray xs ps) b = False"
| "sameValueZero (JObj kvs) b = False"
| "sameValueZero a b = (a = b)"

definition is_lower_target :: "char \<Rightarrow> bool" where
  "is_lower_target c = (65 \<le> (of_char c :: nat) \<and> (of_char c :: nat) \<le> 90)"

text \<open>
  \<^verbatim>\<open>String.prototype.toLowerCase\<close> is the platform's and folds every cased letter of
  Unicode: the functions that call it take it as the parameter \<open>toLowerCase\<close>, a function
  on strings. \<open>asciiLower\<close> is what it does on a string of ASCII characters, and stands
  for it in the concrete inputs, which are such strings.
\<close>

definition asciiLower :: "string \<Rightarrow> string" where
  "asciiLower s = map (\<lambda>c. if is_lower_target c then char_of (of_char c + (32::nat)) else c) s"

section \<open>alumni\_search.js: escapeHtml\<close>




section \<open>seed-export.ts: the Seed Dataset\<close>

text \<open>The bundled \<^verbatim>\<open>fallbackData\<close>, value by value, one definition for each professor.\<close>

definition seedDepartments :: "jv list" where
  "seedDepartments =
     [JObj
         [(''id'', JStr ''dept_ece''),
          (''name'', JStr ''Electronics & Electrical Communication Engineering''),
          (''branches'', JArr [JStr ''branch_ece''])]]"

definition seedBranches :: "(string \<times> jv) list" where
  "seedBranches =
     [(''branch_ece'', JObj
         [(''id'', JStr ''branch_ece''),
          (''name'', JStr ''ECE''),
          (''departmentId'', JStr ''dept_ece'')])]"

definition prof_ece_1 :: jv where
  "prof_ece_1 =
     JObj
       [(''id'', JStr ''prof_ece_1''),
        (''name'', JStr ''Amitabha Bhattacharya''),
        (''position'', JStr ''Professor''),
        (''email'', JStr ''amitabha@ece.iitkgp.ac.in''),
        (''degree'', JStr ''Ph.D.''),
        (''branch'', JStr ''branch_ece''),
        (''departmentId'', JStr ''dept_ece''),
        (''description'', JStr ''Engineered electromagnetic materials, radar signal processing, microwave imaging, antenna design, satellite navigation, radar target identification, electromagnetic interference, and radar absorbing materials with composite materials applications.''),
        (''photo'', JStr ''/ece/download.png''),
        (''links'', JObj
         [(''webpage'', JStr ''https://www.iitkgp.ac.in/department/EC/faculty/ec-amitabha''),
          (''awards'', JStr ''''),
          (''bio'', JStr '''')]),
        (''research'', JArr
         [JStr ''Engineered electromagnetic materials'',
          JStr ''Radar signal processing'',
          JStr ''Microwave imaging'',
          JStr ''Antenna design'',
          JStr ''Satellite navigation'',
          JStr ''Radar target identification'',
          JStr ''Electromagnetic interference'',
          JStr ''Radar absorbing materials'']),
        (''projects'', JArr []),
        (''companies'', JArr []),
        (''websites'', JArr []),
        (''institutes'', JArr [])]"

definition prof_ece_2 :: jv where
  "prof_ece_2 =
     JObj
       [(''id'', JStr ''prof_ece_2''),
        (''name'', JStr ''Amitalok Jayant Budkuley''),
        (''position'', JStr ''Assistant Professor Grade-I''),
        (''email'', JStr ''amitalok@ece.iitkgp.ac.in''),
        (''degree'', JStr ''Ph.D.''),
        (''branch'', JStr ''branch_ece''),
        (''departmentId'', JStr ''dept_ece''),
        (''description'', JStr ''Fundamental limits of cryptographic primitives over unreliable Gaussian noisy channels, information theory, distributed sampling, coding theory, and secure multi-party computation.''),
        (''photo'', JStr ''/ece/download(1).png''),
        (''links'', JObj
         [(''webpage'', JStr ''https://www.iitkgp.ac.in/department/EC/faculty/ec-amitalok''),
          (''awards'', JStr ''''),
          (''bio'', JStr '''')]),
        (''research'', JArr
         [JStr ''Cryptographic primitives'',
          JStr ''Gaussian noisy channels'',
          JStr ''Information theory'',
          JStr ''Distributed sampling'',
          JStr ''Coding theory'',
          JStr ''Secure multi-party computation'']),
        (''projects'', JArr []),
        (''companies'', JArr []),
        (''websites'', JArr []),
        (''institutes'', JArr [])]"

definition prof_ece_3 :: jv where
  "prof_ece_3 =
     JObj
       [(''id'', JStr ''prof_ece_3''),
        (''name'', JStr ''Basudev Lahiri''),
        (''position'', JStr ''Assistant Professor Grade-I''),
        (''email'', JStr ''blahiri@ece.iitkgp.ac.in''),
        (''degree'', JStr ''Ph.D.''),
        (''branch'', JStr ''branch_ece''),
        (''departmentId'', JStr ''dept_ece''),
        (''description'', JStr ''Photonic wire waveguides, 2D materials, solar cells, neuromorphic devices, bio nano photonics, photonic instrumentation and imaging, metamaterials, biophotonics, and nanofabrication for biomedical sensor design.''),
        (''photo'', JStr ''/ece/download(2).png''),
        (''links'', JObj
         [(''webpage'', JStr ''https://www.iitkgp.ac.in/department/EC/faculty/ec-blahiri''),
          (''awards'', JStr ''''),
          (''bio'', JStr '''')]),
        (''research'', JArr
         [JStr ''Photonic wire waveguides'',
          JStr ''2D materials'',
          JStr ''Solar cells'',
          JStr ''Neuromorphic devices'',
          JStr ''Bio nano photonics'',
          JStr ''Photonic instrumentation'',
          JStr ''Metamaterials'',
          JStr ''Biophotonics'',
          JStr ''Nanofabrication'']),
        (''projects'', JArr []),
        (''companies'', JArr []),
        (''websites'', JArr []),
        (''institutes'', JArr [])]"

definition prof_ece_4 :: jv where
  "prof_ece_4 =
     JObj
       [(''id'', JStr ''prof_ece_4''),
        (''name'', JStr ''Bratin Ghosh''),
        (''position'', JStr ''Professor''),
        (''email'', JStr ''bghosh@ece.iitkgp.ac.in''),
        (''degree'', JStr ''Ph.D.''),
        (''branch'', JStr ''branch_ece''),
        (''departmentId'', JStr ''dept_ece''),
        (''description'', JStr ''Full-wave analysis and design of efficient antennas, guided systems, antenna miniaturization, numerical electromagnetics, dielectric resonator antennas, and slot antenna technologies.''),
        (''photo'', JStr ''/ece/download(3).png''),
        (''links'', JObj
         [(''webpage'', JStr ''https://www.iitkgp.ac.in/department/EC/faculty/ec-bghosh''),
          (''awards'', JStr ''''),
          (''bio'', JStr '''')]),
        (''research'', JArr
         [JStr ''Efficient antennas'',
          JStr ''Guided systems'',
          JStr ''Antenna miniaturization'',
          JStr ''Numerical electromagnetics'',
          JStr ''Dielectric resonator antennas'',
          JStr ''Slot antenna technologies'']),
        (''projects'', JArr []),
        (''companies'', JArr []),
        (''websites'', JArr []),
        (''institutes'', JArr [])]"

definition prof_ece_5 :: jv where
  "prof_ece_5 =
     JObj
       [(''id'', JStr ''prof_ece_5''),
        (''name'', JStr ''Debashis Sen''),
        (''position'', JStr ''Associate Professor''),
        (''email'', JStr ''dsen@ece.iitkgp.ac.in''),
        (''degree'', JStr ''Ph.D.''),
        (''branch'', JStr ''branch_ece''),
        (''departmentId'', JStr ''dept_ece''),
        (''description'', JStr ''Deep learning-based 3D digital restoration, hyperspectral image quality improvement, artificial visual scanpath generation for action recognition, robotic systems for hazardous manufacturing, and multi-sensor integration. Heavy focus on deep learning, image analysis, and advanced manufacturing.''),
        (''photo'', JStr ''/ece/download(4).png''),
        (''links'', JObj
         [(''webpage'', JStr ''https://www.iitkgp.ac.in/department/EC/faculty/ec-dsen''),
          (''awards'', JStr ''''),
          (''bio'', JStr '''')]),
        (''research'', JArr
         [JStr ''Deep learning'',
          JStr ''3D digital restoration'',
          JStr ''Hyperspectral imaging'',
          JStr ''Action recognition'',
          JStr ''Robotic systems'',
          JStr ''Multi-sensor integration'']),
        (''projects'', JArr []),
        (''companies'', JArr []),
        (''websites'', JArr []),
        (''institutes'', JArr [])]"

definition prof_ece_6 :: jv where
  "prof_ece_6 =
     JObj
       [(''id'', JStr ''prof_ece_6''),
        (''name'', JStr ''Goutam Saha''),
        (''position'', JStr ''Professor''),
        (''email'', JStr ''gsaha@ece.iitkgp.ac.in''),
        (''degree'', JStr ''Ph.D.''),
        (''branch'', JStr ''branch_ece''),
        (''departmentId'', JStr ''dept_ece''),
        (''description'', JStr ''Biomedical signal processing, speech/audio signal processing, pattern recognition, biometric authentication, healthcare technologies, and related machine learning.''),
        (''photo'', JStr ''/ece/download(5).png''),
        (''links'', JObj
         [(''webpage'', JStr ''https://www.iitkgp.ac.in/department/EC/faculty/ec-gsaha''),
          (''awards'', JStr ''''),
          (''bio'', JStr '''')]),
        (''research'', JArr
         [JStr ''Biomedical signal processing'',
          JStr ''Speech processing'',
          JStr ''Audio signal processing'',
          JStr ''Pattern recognition'',
          JStr ''Biometric authentication'',
          JStr ''Healthcare technologies'']),
        (''projects'', JArr []),
        (''companies'', JArr []),
        (''websites'', JArr []),
        (''institutes'', JArr [])]"

definition prof_ece_7 :: jv where
  "prof_ece_7 =
     JObj
       [(''id'', JStr ''prof_ece_7''),
        (''name'', JStr ''Indrajit Chakrabarti''),
        (''position'', JStr ''Professor''),
        (''email'', JStr ''indrajit@ece.iitkgp.ac.in''),
        (''degree'', JStr ''Ph.D.''),
        (''branch'', JStr ''branch_ece''),
        (''departmentId'', JStr ''dept_ece''),
        (''description'', JStr ''Hardware security in networking, low-power VLSI design, radio frequency ICs, mixed signal/RF IC design, modem design, wireless communication, VLSI architectures for image/video processing, and analog spiking neural network applications to low-power computing.''),
        (''photo'', JStr ''/ece/download(6).png''),
        (''links'', JObj
         [(''webpage'', JStr ''https://www.iitkgp.ac.in/department/EC/faculty/ec-indrajit''),
          (''awards'', JStr ''''),
          (''bio'', JStr '''')]),
        (''research'', JArr
         [JStr ''Hardware security'',
          JStr ''Low-power VLSI design'',
          JStr ''Radio frequency ICs'',
          JStr ''Mixed signal/RF IC design'',
          JStr ''Wireless communication'',
          JStr ''VLSI architectures'',
          JStr ''Spiking neural networks'']),
        (''projects'', JArr []),
        (''companies'', JArr []),
        (''websites'', JArr []),
        (''institutes'', JArr [])]"

definition prof_ece_8 :: jv where
  "prof_ece_8 =
     JObj
       [(''id'', JStr ''prof_ece_8''),
        (''name'', JStr ''Jithin R''),
        (''position'', JStr ''Assistant Professor Grade-I''),
        (''email'', JStr ''jithin@ece.iitkgp.ac.in''),
        (''degree'', JStr ''Ph.D.''),
        (''branch'', JStr ''branch_ece''),
        (''departmentId'', JStr ''dept_ece''),
        (''description'', JStr ''Information theory, wireless communication, privacy in coded caching and function computation, secure function computation, scaling laws for many-access channels, and network coding.''),
        (''photo'', JStr ''/ece/download(7).png''),
        (''links'', JObj
         [(''webpage'', JStr ''https://www.iitkgp.ac.in/department/EC/faculty/ec-jithin''),
          (''awards'', JStr ''''),
          (''bio'', JStr '''')]),
        (''research'', JArr
         [JStr ''Information theory'',
          JStr ''Wireless communication'',
          JStr ''Privacy in coded caching'',
          JStr ''Secure function computation'',
          JStr ''Scaling laws'',
          JStr ''Network coding'']),
        (''projects'', JArr []),
        (''companies'', JArr []),
        (''websites'', JArr []),
        (''institutes'', JArr [])]"

definition prof_ece_9 :: jv where
  "prof_ece_9 =
     JObj
       [(''id'', JStr ''prof_ece_9''),
        (''name'', JStr ''Mrinal Kanti Mandal''),
        (''position'', JStr ''Professor''),
        (''email'', JStr ''mkmandal@ece.iitkgp.ac.in''),
        (''degree'', JStr ''Ph.D.''),
        (''branch'', JStr ''branch_ece''),
        (''departmentId'', JStr ''dept_ece''),
        (''description'', JStr ''Microwave and millimeter-wave circuits, antenna design, filters (low-pass, band-pass, stop-band), SIW power dividers, reconfigurable antennas, and planar circuit technologies.''),
        (''photo'', JStr ''/ece/download(8).png''),
        (''links'', JObj
         [(''webpage'', JStr ''https://www.iitkgp.ac.in/department/EC/faculty/ec-mkmandal''),
          (''awards'', JStr ''''),
          (''bio'', JStr '''')]),
        (''research'', JArr
         [JStr ''Microwave circuits'',
          JStr ''Millimeter-wave circuits'',
          JStr ''Antenna design'',
          JStr ''Filters'',
          JStr ''SIW power dividers'',
          JStr ''Reconfigurable antennas'',
          JStr ''Planar circuit technologies'']),
        (''projects'', JArr []),
        (''companies'', JArr []),
        (''websites'', JArr []),
        (''institutes'', JArr [])]"

definition prof_ece_10 :: jv where
  "prof_ece_10 =
     JObj
       [(''id'', JStr ''prof_ece_10''),
        (''name'', JStr ''Mrityunjoy Chakraborty''),
        (''position'', JStr ''Professor''),
        (''email'', JStr ''mrityun@ece.iitkgp.ac.in''),
        (''degree'', JStr ''Ph.D.''),
        (''branch'', JStr ''branch_ece''),
        (''departmentId'', JStr ''dept_ece''),
        (''description'', JStr ''Digital and adaptive signal processing, VLSI signal processing, compressive sensing, sparse system identification, cooperative adaptive estimation algorithms, radar pulse parameter estimation.''),
        (''photo'', JStr ''/ece/download(9).png''),
        (''links'', JObj
         [(''webpage'', JStr ''https://www.iitkgp.ac.in/department/EC/faculty/ec-mrityun''),
          (''awards'', JStr ''''),
          (''bio'', JStr '''')]),
        (''research'', JArr
         [JStr ''Digital signal processing'',
          JStr ''Adaptive signal processing'',
          JStr ''VLSI signal processing'',
          JStr ''Compressive sensing'',
          JStr ''Sparse system identification'',
          JStr ''Radar pulse parameter estimation'']),
        (''projects'', JArr []),
        (''companies'', JArr []),
        (''websites'', JArr []),
        (''institutes'', JArr [])]"

definition prof_ece_11 :: jv where
  "prof_ece_11 =
     JObj
       [(''id'', JStr ''prof_ece_11''),
        (''name'', JStr ''Prasanta Kumar Guha''),
        (''position'', JStr ''Professor''),
        (''email'', JStr ''pkguha@ece.iitkgp.ac.in''),
        (''degree'', JStr ''Ph.D.''),
        (''branch'', JStr ''branch_ece''),
        (''departmentId'', JStr ''dept_ece''),
        (''description'', JStr ''Nanomaterial-based sensors/devices, flexible microdevices, energy devices, biomedical sensors, photonic sensors, VLSI design, chemiresistive gas sensors, supercapacitor nano devices, and energy storage.''),
        (''photo'', JStr ''/ece/download(10).png''),
        (''links'', JObj
         [(''webpage'', JStr ''https://www.iitkgp.ac.in/department/EC/faculty/ec-pkguha''),
          (''awards'', JStr ''''),
          (''bio'', JStr '''')]),
        (''research'', JArr
         [JStr ''Nanomaterial sensors'',
          JStr ''Flexible microdevices'',
          JStr ''Energy devices'',
          JStr ''Biomedical sensors'',
          JStr ''Photonic sensors'',
          JStr ''VLSI design'',
          JStr ''Chemiresistive gas sensors'',
          JStr ''Supercapacitor nano devices'']),
        (''projects'', JArr []),
        (''companies'', JArr []),
        (''websites'', JArr []),
        (''institutes'', JArr [])]"

definition prof_ece_12 :: jv where
  "prof_ece_12 =
     JObj
       [(''id'', JStr ''prof_ece_12''),
        (''name'', JStr ''Raja Datta''),
        (''position'', JStr ''Professor''),
        (''email'', JStr ''rajadatta@ece.iitkgp.ac.in''),
        (''degree'', JStr ''Ph.D.''),
        (''branch'', JStr ''branch_ece''),
        (''departmentId'', JStr ''dept_ece''),
        (''description'', JStr ''Software-defined networks, edge computing, inter-planetary networks, elastic optical networks, vehicular ad hoc networks, mobile ad hoc network security, routing, and IoT-enabled sensor techniques.''),
        (''photo'', JStr ''/ece/download(11).png''),
        (''links'', JObj
         [(''webpage'', JStr ''https://www.iitkgp.ac.in/department/EC/faculty/ec-rajadatta''),
          (''awards'', JStr ''''),
          (''bio'', JStr '''')]),
        (''research'', JArr
         [JStr ''Software-defined networks'',
          JStr ''Edge computing'',
          JStr ''Inter-planetary networks'',
          JStr ''Elastic optical networks'',
          JStr ''Vehicular ad hoc networks'',
          JStr ''Mobile ad hoc network security'',
          JStr ''IoT-enabled sensor techniques'']),
        (''projects'', JArr []),
        (''companies'', JArr []),
        (''websites'', JArr []),
        (''institutes'', JArr [])]"

definition prof_ece_13 :: jv where
  "prof_ece_13 =
     JObj
       [(''id'', JStr ''prof_ece_13''),
        (''name'', JStr ''Sarang Pendharker''),
        (''position'', JStr ''Assistant Professor Grade-I''),
        (''email'', JStr ''sarang@ece.iitkgp.ac.in''),
        (''degree'', JStr ''Ph.D.''),
        (''branch'', JStr ''branch_ece''),
        (''departmentId'', JStr ''dept_ece''),
        (''description'', JStr ''Optical physics and communication engineering at the electromagnetic wave-matter interface, developing next-gen communication technologies, optically reconfigured microstrip circuits/devices, photonics, and reconfigurable microwave devices.''),
        (''photo'', JStr ''/ece/download(12).png''),
        (''links'', JObj
         [(''webpage'', JStr ''https://www.iitkgp.ac.in/department/EC/faculty/ec-sarang''),
          (''awards'', JStr ''''),
          (''bio'', JStr '''')]),
        (''research'', JArr
         [JStr ''Optical physics'',
          JStr ''Communication engineering'',
          JStr ''Electromagnetic wave-matter interface'',
          JStr ''Optically reconfigured circuits'',
          JStr ''Photonics'',
          JStr ''Reconfigurable microwave devices'']),
        (''projects'', JArr []),
        (''companies'', JArr []),
        (''websites'', JArr []),
        (''institutes'', JArr [])]"

definition prof_ece_14 :: jv where
  "prof_ece_14 =
     JObj
       [(''id'', JStr ''prof_ece_14''),
        (''name'', JStr ''Shailendra Kumar Varshney''),
        (''position'', JStr ''Professor''),
        (''email'', JStr ''skvarshney@ece.iitkgp.ac.in''),
        (''degree'', JStr ''Ph.D.''),
        (''branch'', JStr ''branch_ece''),
        (''departmentId'', JStr ''dept_ece''),
        (''description'', JStr ''Quantum optics, micromachines, energy harvesting functional materials, integrated photonics, nanorobotics, fiber optic sensors, metamaterials, perovskite solar cells, underwater optical wireless comm., experimental photonics, 4D printing, micro manufacturing.''),
        (''photo'', JStr ''/ece/download(13).png''),
        (''links'', JObj
         [(''webpage'', JStr ''https://www.iitkgp.ac.in/department/EC/faculty/ec-skvarshney''),
          (''awards'', JStr ''''),
          (''bio'', JStr '''')]),
        (''research'', JArr
         [JStr ''Quantum optics'',
          JStr ''Micromachines'',
          JStr ''Energy harvesting materials'',
          JStr ''Integrated photonics'',
          JStr ''Nanorobotics'',
          JStr ''Fiber optic sensors'',
          JStr ''Metamaterials'',
          JStr ''Perovskite solar cells'',
          JStr ''4D printing'']),
        (''projects'', JArr []),
        (''companies'', JArr []),
        (''websites'', JArr []),
        (''institutes'', JArr [])]"

definition prof_ece_15 :: jv where
  "prof_ece_15 =
     JObj
       [(''id'', JStr ''prof_ece_15''),
        (''name'', JStr ''Sharba Bandyopadhyay''),
        (''position'', JStr ''Assistant Professor Grade-I''),
        (''email'', JStr ''sharba@ece.iitkgp.ac.in''),
        (''degree'', JStr ''Ph.D.''),
        (''branch'', JStr ''branch_ece''),
        (''departmentId'', JStr ''dept_ece''),
        (''description'', JStr ''Neurobiology, auditory neuroscience, auditory neural processing, cognitive neuroscience, neurophysiology, affective neuroscience. Focus on physiological/cognitive data analysis and neural plasticity in auditory systems.''),
        (''photo'', JStr ''/ece/download(14).png''),
        (''links'', JObj
         [(''webpage'', JStr ''https://www.iitkgp.ac.in/department/EC/faculty/ec-sharba''),
          (''awards'', JStr ''''),
          (''bio'', JStr '''')]),
        (''research'', JArr
         [JStr ''Neurobiology'',
          JStr ''Auditory neuroscience'',
          JStr ''Cognitive neuroscience'',
          JStr ''Neurophysiology'',
          JStr ''Affective neuroscience'',
          JStr ''Neural plasticity'']),
        (''projects'', JArr []),
        (''companies'', JArr []),
        (''websites'', JArr []),
        (''institutes'', JArr [])]"

definition prof_ece_16 :: jv where
  "prof_ece_16 =
     JObj
       [(''id'', JStr ''prof_ece_16''),
        (''name'', JStr ''Subhadip Mukherjee''),
        (''position'', JStr ''Assistant Professor Grade-I''),
        (''email'', JStr ''smukherjee@ece.iitkgp.ac.in''),
        (''degree'', JStr ''Ph.D.''),
        (''branch'', JStr ''branch_ece''),
        (''departmentId'', JStr ''dept_ece''),
        (''description'', JStr ''Deep learning for inverse problems in medical imaging (CT, low-dose/sparse projections), data-driven image reconstruction, optimization and statistics for clinical applications, integration of machine learning with regularization theory, and robust algorithms for high-dimensional signal estimation.''),
        (''photo'', JStr ''/ece/download(15).png''),
        (''links'', JObj
         [(''webpage'', JStr ''https://www.iitkgp.ac.in/department/EC/faculty/ec-smukherjee''),
          (''awards'', JStr ''''),
          (''bio'', JStr '''')]),
        (''research'', JArr
         [JStr ''Deep learning for inverse problems'',
          JStr ''Medical imaging'',
          JStr ''Data-driven image reconstruction'',
          JStr ''Optimization and statistics'',
          JStr ''Regularization theory'',
          JStr ''High-dimensional signal estimation'']),
        (''projects'', JArr []),
        (''companies'', JArr []),
        (''websites'', JArr []),
        (''institutes'', JArr [])]"

definition prof_ece_17 :: jv where
  "prof_ece_17 =
     JObj
       [(''id'', JStr ''prof_ece_17''),
        (''name'', JStr ''Sudipta Mukhopadhyay''),
        (''position'', JStr ''Professor''),
        (''email'', JStr ''smukho@ece.iitkgp.ac.in''),
        (''degree'', JStr ''Ph.D.''),
        (''branch'', JStr ''branch_ece''),
        (''departmentId'', JStr ''dept_ece''),
        (''description'', JStr ''Medical image processing, video restoration, image quality metrics, content-based image retrieval (especially for CT/lung images), autonomous tools for radiologists, feature extraction for image retrieval, video coding, and medical imaging algorithms.''),
        (''photo'', JStr ''/ece/download(16).png''),
        (''links'', JObj
         [(''webpage'', JStr ''https://www.iitkgp.ac.in/department/EC/faculty/ec-smukho''),
          (''awards'', JStr ''''),
          (''bio'', JStr '''')]),
        (''research'', JArr
         [JStr ''Medical image processing'',
          JStr ''Video restoration'',
          JStr ''Image quality metrics'',
          JStr ''Content-based image retrieval'',
          JStr ''Autonomous tools for radiologists'',
          JStr ''Video coding'']),
        (''projects'', JArr []),
        (''companies'', JArr []),
        (''websites'', JArr []),
        (''institutes'', JArr [])]"

definition prof_ece_18 :: jv where
  "prof_ece_18 =
     JObj
       [(''id'', JStr ''prof_ece_18''),
        (''name'', JStr ''Tarun Kanti Bhattacharyya''),
        (''position'', JStr ''Professor''),
        (''email'', JStr ''tkb@ece.iitkgp.ac.in''),
        (''degree'', JStr ''Ph.D.''),
        (''branch'', JStr ''branch_ece''),
        (''departmentId'', JStr ''dept_ece''),
        (''description'', JStr ''MEMS/microsystems, RF/analog VLSI, nanoelectronics, nano-bio sensors, energy storage/harvesting, thin films, biosystem engineering, sensors/actuators for aerospace; leads multidisciplinary labs for VLSI, high-performance devices, and nano-bio applications.''),
        (''photo'', JStr ''/ece/download(17).png''),
        (''links'', JObj
         [(''webpage'', JStr ''https://www.iitkgp.ac.in/department/EC/faculty/ec-tkb''),
          (''awards'', JStr ''''),
          (''bio'', JStr '''')]),
        (''research'', JArr
         [JStr ''MEMS/microsystems'',
          JStr ''RF/analog VLSI'',
          JStr ''Nanoelectronics'',
          JStr ''Nano-bio sensors'',
          JStr ''Energy storage/harvesting'',
          JStr ''Biosystem engineering'',
          JStr ''Sensors/actuators for aerospace'']),
        (''projects'', JArr []),
        (''companies'', JArr []),
        (''websites'', JArr []),
        (''institutes'', JArr [])]"

definition prof_ece_19 :: jv where
  "prof_ece_19 =
     JObj
       [(''id'', JStr ''prof_ece_19''),
        (''name'', JStr ''Vivek Dixit''),
        (''position'', JStr ''Associate Professor''),
        (''email'', JStr ''vdixit@ece.iitkgp.ac.in''),
        (''degree'', JStr ''Ph.D.''),
        (''branch'', JStr ''branch_ece''),
        (''departmentId'', JStr ''dept_ece''),
        (''description'', JStr ''Semiconductor devices modeling/simulation, silicon photonics, THz technology, metamaterials, photonic devices, low-loss silicon modulators, reconfigurable microwave/photonics structures, and eye diagram simulation for electro-optic signals.''),
        (''photo'', JStr ''/ece/download(18).png''),
        (''links'', JObj
         [(''webpage'', JStr ''https://www.iitkgp.ac.in/department/EC/faculty/ec-vdixit''),
          (''awards'', JStr ''''),
          (''bio'', JStr '''')]),
        (''research'', JArr
         [JStr ''Semiconductor devices modeling'',
          JStr ''Silicon photonics'',
          JStr ''THz technology'',
          JStr ''Metamaterials'',
          JStr ''Photonic devices'',
          JStr ''Low-loss silicon modulators'',
          JStr ''Reconfigurable microwave structures'']),
        (''projects'', JArr []),
        (''companies'', JArr []),
        (''websites'', JArr []),
        (''institutes'', JArr [])]"

definition seedProfessors :: "(string \<times> jv) list" where
  "seedProfessors =
     [(''prof_ece_1'', prof_ece_1),
      (''prof_ece_2'', prof_ece_2),
      (''prof_ece_3'', prof_ece_3),
      (''prof_ece_4'', prof_ece_4),
      (''prof_ece_5'', prof_ece_5),
      (''prof_ece_6'', prof_ece_6),
      (''prof_ece_7'', prof_ece_7),
      (''prof_ece_8'', prof_ece_8),
      (''prof_ece_9'', prof_ece_9),
      (''prof_ece_10'', prof_ece_10),
      (''prof_ece_11'', prof_ece_11),
      (''prof_ece_12'', prof_ece_12),
      (''prof_ece_13'', prof_ece_13),
      (''prof_ece_14'', prof_ece_14),
      (''prof_ece_15'', prof_ece_15),
      (''prof_ece_16'', prof_ece_16),
      (''prof_ece_17'', prof_ece_17),
      (''prof_ece_18'', prof_ece_18),
      (''prof_ece_19'', prof_ece_19)]"

definition fallbackData :: jv where
  "fallbackData =
     JObj [(''departments'', JArr seedDepartments),
           (''branches'', JObj seedBranches),
           (''professors'', JObj seedProfessors),
           (''news'', JArr [])]"

section \<open>The session state and the Local Cache\<close>

text \<open>
  The Local Cache is one key of \<^verbatim>\<open>localStorage\<close>. Its content is nothing, a text that
  \<^verbatim>\<open>JSON.parse\<close> rejects (or a storage that cannot be read), or a text that parses to a
  value; a stored text is represented by the value it parses to.
\<close>

datatype cache_content = Absent | Unreadable | Stored jv

datatype api_status = Connecting | Connected | Offline

text \<open>
  The state the component holds (\<^verbatim>\<open>data\<close> is \<^verbatim>\<open>AppData | null\<close>), the notices shown so
  far, and the browser storage: \<open>storage_ok\<close> tells whether \<^verbatim>\<open>localStorage.setItem\<close>
  accepts a write or throws (quota, storage disabled).
\<close>

record app_state =
  data :: jv
  apiStatus :: api_status
  loading :: bool
  activeModal :: "string option"
  editingProfessor :: jv
  toasts :: "string list"
  cache :: cache_content
  storage_ok :: bool

text \<open>
  \<^verbatim>\<open>
  const loadLocalData = (): AppData | null => {
      try { const data = localStorage.getItem(LOCAL_STORAGE_KEY);
            return data ? JSON.parse(data) : null; } catch { return null; }
  };
  \<close>
\<close>

fun loadLocalData :: "cache_content \<Rightarrow> jv" where
  "loadLocalData Absent = JNull"
| "loadLocalData Unreadable = JNull"
| "loadLocalData (Stored v) = v"

text \<open>
  \<^verbatim>\<open>
  const saveLocalData = (data: AppData) => {
      try { localStorage.setItem(LOCAL_STORAGE_KEY, JSON.stringify(data)); } catch (e) { /* ignore */ }
  };
  \<close>
\<close>

definition saveLocalData :: "jv \<Rightarrow> app_state \<Rightarrow> app_state" where
  "saveLocalData d st = (if storage_ok st then st\<lparr>cache := Stored d\<rparr> else st)"

text \<open>The state a session starts in, as the \<^verbatim>\<open>useState\<close> calls give it, over a working, empty storage.\<close>

definition initial_state :: app_state where
  "initial_state =
     \<lparr>data = JNull, apiStatus = Connecting, loading = True, activeModal = None,
      editingProfessor = JNull, toasts = [], cache = Absent, storage_ok = True\<rparr>"

definition showToast :: "string \<Rightarrow> app_state \<Rightarrow> app_state" where
  "showToast message st = st\<lparr>toasts := toasts st @ [message]\<rparr>"

section \<open>The aggregate as the interfaces declare it\<close>

text \<open>
  \<^verbatim>\<open>
  interface Department { id: string; name: string; branches: string[]; }
  interface Branch { id: string; name: string; departmentId?: string; }
  interface AppData {
      departments: Department[];
      branches: { [key: string]: Branch };
      professors: { [key: string]: Professor };
      news: NewsItem[];
  }
  \<close>
  Nothing checks these types at run time. The predicates below say that a value has the
  shape they declare, as far as the functions modelled here read it: a professor is
  any object.
\<close>

definition field :: "jv \<Rightarrow> string \<Rightarrow> jv" where
  "field x k = (case get x k of Inr v \<Rightarrow> v | Inl e \<Rightarrow> JUndefined)"

fun isString :: "jv \<Rightarrow> bool" where
  "isString (JStr s) = True"
| "isString x = False"

fun isObject :: "jv \<Rightarrow> bool" where
  "isObject (JObj kvs) = True"
| "isObject x = False"

fun isStringArray :: "jv \<Rightarrow> bool" where
  "isStringArray (JArray xs ps) = list_all isString xs"
| "isStringArray x = False"

definition isDepartment :: "jv \<Rightarrow> bool" where
  "isDepartment d =
     (isObject d \<and> isString (field d ''id'') \<and> isString (field d ''name'')
      \<and> isStringArray (field d ''branches''))"

definition isBranch :: "jv \<Rightarrow> bool" where
  "isBranch b = (isObject b \<and> isString (field b ''id'') \<and> isString (field b ''name''))"

fun isDepartmentArray :: "jv \<Rightarrow> bool" where
  "isDepartmentArray (JArray xs ps) = list_all isDepartment xs"
| "isDepartmentArray x = False"

fun isMapOf :: "(jv \<Rightarrow> bool) \<Rightarrow> jv \<Rightarrow> bool" where
  "isMapOf P (JObj kvs) = list_all (\<lambda>kv. P (snd kv)) kvs"
| "isMapOf P x = False"

definition isAppData :: "jv \<Rightarrow> bool" where
  "isAppData a =
     (isObject a \<and> isDepartmentArray (field a ''departments'')
      \<and> isMapOf isBranch (field a ''branches'')
      \<and> isMapOf isObject (field a ''professors''))"

text \<open>What an aggregate holds: its department list, and the entry of a map under a key.\<close>

definition departments_of :: "jv \<Rightarrow> jv list" where
  "departments_of a = (case field a ''departments'' of JArray xs ps \<Rightarrow> xs | x \<Rightarrow> [])"

definition entry :: "jv \<Rightarrow> string \<Rightarrow> string \<Rightarrow> jv option" where
  "entry a f k = (case field a f of JObj kvs \<Rightarrow> map_of kvs k | x \<Rightarrow> None)"

section \<open>loadData: choosing the base and merging the seed\<close>

text \<open>
  The \<^verbatim>\<open>try\<close> block of \<^verbatim>\<open>loadData\<close>: the outcome of \<^verbatim>\<open>fetchMockData()\<close> is either the
  error it rejected with or the payload; a payload that is falsy or has no truthy
  \<^verbatim>\<open>departments\<close> is thrown as invalid.
\<close>

definition tryServer :: "js_error + jv \<Rightarrow> js_error + jv" where
  "tryServer remote =
     thenE remote (\<lambda>serverData.
       if \<not> truthy serverData then Inl (Error ''Invalid server data'')
       else thenE (get serverData ''departments'') (\<lambda>ds.
         if truthy ds then Inr serverData else Inl (Error ''Invalid server data'')))"

text \<open>The base and the connectivity it sets: \<^verbatim>\<open>local || fallbackData\<close> in the handler.\<close>

definition chooseBase :: "js_error + jv \<Rightarrow> cache_content \<Rightarrow> api_status \<times> jv" where
  "chooseBase remote c =
     (case tryServer remote of
        Inr serverData \<Rightarrow> (Connected, serverData)
      | Inl e \<Rightarrow> (Offline, js_or (loadLocalData c) fallbackData))"

text \<open>
  \<^verbatim>\<open>
  const existingDeptIds = new Set(loadedData.departments.map(d => d.id));
  fb.departments.forEach(d => {
      if (!existingDeptIds.has(d.id)) { loadedData!.departments.push(d); }
  });
  \<close>
  The set is built once, before the loop.
\<close>

fun pushMissing :: "jv list \<Rightarrow> jv list \<Rightarrow> jv list \<Rightarrow> js_error + jv list" where
  "pushMissing existingDeptIds acc [] = Inr acc"
| "pushMissing existingDeptIds acc (d # ds) =
     thenE (get d ''id'') (\<lambda>i.
       pushMissing existingDeptIds
         (if list_ex (sameValueZero i) existingDeptIds then acc else acc @ [d]) ds)"

definition mergeDepartments :: "jv \<Rightarrow> jv \<Rightarrow> js_error + jv" where
  "mergeDepartments departments fbDepartments =
     thenE (elements departments) (\<lambda>ds.
     thenE (mapE (\<lambda>d. get d ''id'') ds) (\<lambda>existingDeptIds.
     thenE (elements fbDepartments) (\<lambda>fds.
     thenE (pushMissing existingDeptIds ds fds) (\<lambda>ds'.
       Inr (case departments of JArray xs ps \<Rightarrow> JArray ds' ps | x \<Rightarrow> x)))))"

text \<open>
  \<^verbatim>\<open>
  Object.keys(fallbackProfs).forEach(key => {
       if (!currentProfs[key]) { currentProfs[key] = fallbackProfs[key]; }
  });
  \<close>
  and the same loop for the branches.
\<close>

fun mergeMissing :: "jv \<Rightarrow> jv \<Rightarrow> string list \<Rightarrow> js_error + jv" where
  "mergeMissing current fallback [] = Inr current"
| "mergeMissing current fallback (key # keys) =
     thenE (get current key) (\<lambda>c.
       if \<not> truthy c
       then thenE (get fallback key) (\<lambda>v.
            thenE (assign current key v) (\<lambda>current'. mergeMissing current' fallback keys))
       else mergeMissing current fallback keys)"

definition mergeEntries :: "jv \<Rightarrow> jv \<Rightarrow> js_error + jv" where
  "mergeEntries current fallback =
     thenE (Object_keys fallback) (\<lambda>keys. mergeMissing current fallback keys)"

text \<open>
  The merge block of \<^verbatim>\<open>loadData\<close>, which is outside the \<^verbatim>\<open>try\<close>: departments, then
  professors, then branches, each changed in place inside \<^verbatim>\<open>loadedData\<close>.
\<close>

definition mergeSeed :: "jv \<Rightarrow> js_error + jv" where
  "mergeSeed loadedData =
     (if \<not> truthy loadedData then Inr loadedData
      else
        thenE (get loadedData ''departments'') (\<lambda>departments.
        thenE (get fallbackData ''departments'') (\<lambda>fbDepartments.
        thenE (mergeDepartments departments fbDepartments) (\<lambda>departments'.
        let loaded1 = put_back loadedData ''departments'' departments' in
        thenE (get loaded1 ''professors'') (\<lambda>currentProfs.
        thenE (get fallbackData ''professors'') (\<lambda>fallbackProfs.
        thenE (mergeEntries currentProfs fallbackProfs) (\<lambda>currentProfs'.
        let loaded2 = put_back loaded1 ''professors'' currentProfs' in
        thenE (get loaded2 ''branches'') (\<lambda>currentBranches.
        thenE (get fallbackData ''branches'') (\<lambda>fallbackBranches.
        thenE (mergeEntries currentBranches fallbackBranches) (\<lambda>currentBranches'.
          Inr (put_back loaded2 ''branches'' currentBranches')))))))))))"

text \<open>
  \<^verbatim>\<open>loadData\<close>: \<open>remote\<close> is the outcome of \<^verbatim>\<open>fetchMockData()\<close>. A throw of the merge
  block leaves the function, so the result is the error and \<^verbatim>\<open>setData\<close> is not reached.
\<close>

definition loadData :: "js_error + jv \<Rightarrow> app_state \<Rightarrow> js_error + app_state" where
  "loadData remote st =
     (let (status, loadedData) = chooseBase remote (cache st) in
      thenE (mergeSeed loadedData) (\<lambda>merged.
        Inr (st\<lparr>data := merged, apiStatus := status, loading := False\<rparr>)))"

section \<open>Notions used in the statements and proofs about loadData\<close>

text \<open>
  A key that is not an array index, so that an array keeps it among its named properties,
  and not \<^verbatim>\<open>__proto__\<close>, so that an assignment under it sets a property.
\<close>

definition plainKey :: "string \<Rightarrow> bool" where
  "plainKey k = (array_index k = None \<and> k \<noteq> ''__proto__'')"

text \<open>The named properties of an object or array, and the values that have any.\<close>

fun named :: "jv \<Rightarrow> (string \<times> jv) list" where
  "named (JObj kvs) = kvs"
| "named (JArray xs ps) = ps"
| "named x = []"

fun isContainer :: "jv \<Rightarrow> bool" where
  "isContainer (JObj kvs) = True"
| "isContainer (JArray xs ps) = True"
| "isContainer x = False"

text \<open>
  A server payload of the declared shape: one department that the seed does not have, and
  a professor under an identifier that the seed has too.
\<close>

definition example_payload :: jv where
  "example_payload =
     JObj [(''departments'',
              JArr [JObj [(''id'', JStr ''dept_cs''), (''name'', JStr ''Computer Science''),
                          (''branches'', JArr [])]]),
           (''branches'', JObj []),
           (''professors'',
              JObj [(''prof_ece_1'',
                       JObj [(''id'', JStr ''prof_ece_1''), (''name'', JStr ''Remote'')])])]"

text \<open>
  A payload in which an identifier of the seed is present with \<^verbatim>\<open>null\<close> as its entry, and
  the entry that a call of \<open>loadData\<close> leaves in a map of the data, \<open>None\<close> when it throws.
\<close>

definition payload_null_professor :: jv where
  "payload_null_professor =
     JObj [(''departments'',
              JArr [JObj [(''id'', JStr ''dept_cs''), (''name'', JStr ''Computer Science''),
                          (''branches'', JArr [])]]),
           (''branches'', JObj []),
           (''professors'', JObj [(''prof_ece_1'', JNull)])]"

definition entry_after :: "js_error + app_state \<Rightarrow> string \<Rightarrow> string \<Rightarrow> jv option" where
  "entry_after r f k = (case r of Inr st \<Rightarrow> entry (data st) f k | Inl e \<Rightarrow> None)"

text \<open>
  What the merge block needs of the base in order not to throw: a \<^verbatim>\<open>departments\<close> array
  with no \<^verbatim>\<open>null\<close> or \<^verbatim>\<open>undefined\<close> element, and \<^verbatim>\<open>professors\<close> and \<^verbatim>\<open>branches\<close> that
  can take a property.
\<close>

definition mergeable :: "jv \<Rightarrow> bool" where
  "mergeable a =
     ((case field a ''departments'' of
         JArray ds ps \<Rightarrow> list_all (\<lambda>d. d \<noteq> JUndefined \<and> d \<noteq> JNull) ds
       | x \<Rightarrow> False)
      \<and> isContainer (field a ''professors'') \<and> isContainer (field a ''branches''))"

section \<open>The mutation path\<close>

text \<open>
  The handlers are asynchronous functions of the component. They are modelled one call at
  a time, with no other update of the state between the start of a handler and the end of
  it: the \<^verbatim>\<open>currentData\<close> that React passes to an updater is then the \<^verbatim>\<open>data\<close> the
  handler captured. A handler returns the state it leaves, or the error it throws. The
  Remote Store is a parameter: the function from a request to the result or the error of
  \<^verbatim>\<open>request\<close>. \<^verbatim>\<open>Date.now()\<close> is a parameter too.
\<close>

text \<open>
  \<^verbatim>\<open>
  const handleDataUpdate = useCallback((updater) => {
      setData(currentData => {
          if (!currentData) return null;
          const newData = updater(currentData);
          saveLocalData(newData);
          return newData;
      });
  }, []);
  \<close>
  An updater may itself write to the storage, so it takes and returns the state as well.
\<close>

definition handleDataUpdate ::
  "(jv \<Rightarrow> app_state \<Rightarrow> js_error + jv \<times> app_state) \<Rightarrow> app_state \<Rightarrow> js_error + app_state" where
  "handleDataUpdate updater st =
     (if \<not> truthy (data st) then Inr (st\<lparr>data := JNull\<rparr>)
      else thenE (updater (data st) st) (\<lambda>(newData, st').
             Inr ((saveLocalData newData st')\<lparr>data := newData\<rparr>)))"

definition pure_updater ::
  "(jv \<Rightarrow> js_error + jv) \<Rightarrow> jv \<Rightarrow> app_state \<Rightarrow> js_error + jv \<times> app_state" where
  "pure_updater f d st = thenE (f d) (\<lambda>d'. Inr (d', st))"

text \<open>\<^verbatim>\<open>const { k1, k2, ...rest } = x\<close>: a TypeError on \<^verbatim>\<open>undefined\<close> and \<^verbatim>\<open>null\<close>.\<close>

definition destructure :: "jv \<Rightarrow> string list \<Rightarrow> js_error + jv" where
  "destructure x ks =
     (if x = JUndefined \<or> x = JNull then Inl (TypeError ''Cannot destructure'')
      else Inr (JObj (filter (\<lambda>kv. fst kv \<notin> set ks) (ownProps x))))"

text \<open>\<^verbatim>\<open>[...x]\<close>: the elements of an array, the characters of a string, a TypeError otherwise.\<close>

fun iterate :: "jv \<Rightarrow> js_error + jv list" where
  "iterate (JArray xs ps) = Inr xs"
| "iterate (JStr s) = Inr (map (\<lambda>c. JStr [c]) s)"
| "iterate x = Inl (TypeError ''not iterable'')"

text \<open>
  \<^verbatim>\<open>x.toLowerCase()\<close> on any value: a TypeError unless it is a string. The method itself
  is the parameter \<open>toLowerCase\<close>.
\<close>

fun lowerCased :: "(string \<Rightarrow> string) \<Rightarrow> jv \<Rightarrow> js_error + jv" where
  "lowerCased toLowerCase (JStr s) = Inr (JStr (toLowerCase s))"
| "lowerCased toLowerCase JUndefined = Inl (TypeError ''Cannot read properties of undefined'')"
| "lowerCased toLowerCase JNull = Inl (TypeError ''Cannot read properties of null'')"
| "lowerCased toLowerCase x = Inl (TypeError ''toLowerCase is not a function'')"

text \<open>\<^verbatim>\<open>data.departments.find(d => d.id === departmentId)\<close>\<close>

definition findDepartment :: "jv \<Rightarrow> jv \<Rightarrow> js_error + jv" where
  "findDepartment d departmentId =
     thenE (get d ''departments'') (\<lambda>departments.
     thenE (elements departments) (\<lambda>ds.
     thenE (findE (\<lambda>x. thenE (get x ''id'') (\<lambda>i. Inr (strict_eq i departmentId))) ds)
       (\<lambda>found. Inr (orUndefined found))))"

text \<open>\<^verbatim>\<open>department.branches.map(bId => data.branches[bId])\<close>\<close>

definition departmentBranches :: "jv \<Rightarrow> jv \<Rightarrow> js_error + jv list" where
  "departmentBranches d department =
     thenE (get department ''branches'') (\<lambda>branches.
     thenE (elements branches) (\<lambda>bIds.
       mapE (\<lambda>bId. thenE (get d ''branches'') (\<lambda>bs. get bs (js_String bId))) bIds))"

text \<open>
  The test of \<^verbatim>\<open>handleAddProfessor\<close>:
  \<^verbatim>\<open>b => b?.name.toLowerCase() === branchName.toLowerCase()\<close>. Both sides are evaluated,
  the left one to \<^verbatim>\<open>undefined\<close> when \<^verbatim>\<open>b\<close> is \<^verbatim>\<open>null\<close> or \<^verbatim>\<open>undefined\<close>.
\<close>

definition matchesAdd :: "(string \<Rightarrow> string) \<Rightarrow> jv \<Rightarrow> jv \<Rightarrow> js_error + bool" where
  "matchesAdd toLowerCase branchName b =
     thenE (if b = JUndefined \<or> b = JNull then Inr JUndefined
            else thenE (get b ''name'') (lowerCased toLowerCase)) (\<lambda>l.
     thenE (lowerCased toLowerCase branchName) (\<lambda>r. Inr (strict_eq l r)))"

text \<open>
  The test of \<^verbatim>\<open>handleEditProfessor\<close>:
  \<^verbatim>\<open>b => b && (b.id === branchName || b.name.toLowerCase() === (branchName || '').toLowerCase())\<close>
\<close>

definition matchesEdit :: "(string \<Rightarrow> string) \<Rightarrow> jv \<Rightarrow> jv \<Rightarrow> js_error + bool" where
  "matchesEdit toLowerCase branchName b =
     (if \<not> truthy b then Inr False
      else thenE (get b ''id'') (\<lambda>i.
           if strict_eq i branchName then Inr True
           else thenE (thenE (get b ''name'') (lowerCased toLowerCase)) (\<lambda>l.
                thenE (lowerCased toLowerCase (js_or branchName (JStr [])))
                  (\<lambda>r. Inr (strict_eq l r)))))"

text \<open>\<^verbatim>\<open>existingBranch ? existingBranch.id : `branch_${Date.now()}`\<close>\<close>

definition branchIdFor :: "jv \<Rightarrow> nat \<Rightarrow> js_error + jv" where
  "branchIdFor existingBranch now =
     (if truthy existingBranch then get existingBranch ''id''
      else Inr (JStr (''branch_'' @ show_nat now)))"

subsection \<open>Add Professor\<close>

text \<open>
  \<^verbatim>\<open>
  handleDataUpdate(currentData => {
      let updatedData = { ...currentData };
      const newProfs = { ...updatedData.professors,
                         [savedProf._id]: { ...savedProf, id: savedProf._id } };
      return { ...updatedData, professors: newProfs };
  });
  \<close>
\<close>

definition addUpdater :: "jv \<Rightarrow> jv \<Rightarrow> js_error + jv" where
  "addUpdater savedProf currentData =
     (let updatedData = JObj (obj_of (ownProps currentData)) in
      thenE (get updatedData ''professors'') (\<lambda>professors.
      thenE (get savedProf ''_id'') (\<lambda>sid.
        let newProfs = JObj (obj_of (ownProps professors @
                         [(js_String sid, JObj (obj_of (ownProps savedProf @ [(''id'', sid)])))]))
        in Inr (JObj (obj_of (ownProps updatedData @ [(''professors'', newProfs)]))))))"

definition addPayload :: "jv \<Rightarrow> jv \<Rightarrow> jv \<Rightarrow> js_error + jv" where
  "addPayload profCoreData branchId department =
     thenE (get department ''id'') (\<lambda>did.
     thenE (get department ''name'') (\<lambda>dname.
       Inr (JObj (obj_of (ownProps profCoreData @
              [(''branch'', branchId), (''departmentId'', did), (''departmentName'', dname)])))))"

text \<open>
  \<^verbatim>\<open>handleAddProfessor\<close> up to the call of the Remote Store: the payload it sends, or
  \<open>None\<close> when the department is not found.
\<close>

definition addRequest ::
  "(string \<Rightarrow> string) \<Rightarrow> nat \<Rightarrow> jv \<Rightarrow> jv \<Rightarrow> js_error + jv option" where
  "addRequest toLowerCase now profFormData d =
     thenE (destructure profFormData [''branchName'', ''departmentId'']) (\<lambda>profCoreData.
     let branchName = field profFormData ''branchName'';
         departmentId = field profFormData ''departmentId'' in
     thenE (findDepartment d departmentId) (\<lambda>department.
     if \<not> truthy department then Inr None
     else
       thenE (departmentBranches d department) (\<lambda>bs.
       thenE (findE (matchesAdd toLowerCase branchName) bs) (\<lambda>found.
       thenE (branchIdFor (orUndefined found) now) (\<lambda>branchId.
       thenE (addPayload profCoreData branchId department) (\<lambda>profPayload.
         Inr (Some profPayload)))))))"

text \<open>
  An error thrown inside an updater is thrown when React runs the updater, not inside the
  \<^verbatim>\<open>try\<close> block of the handler that queued it: it is the error of the handler here.
\<close>

definition handleAddProfessor ::
  "(string \<Rightarrow> string) \<Rightarrow> (jv \<Rightarrow> js_error + jv) \<Rightarrow> nat \<Rightarrow> jv \<Rightarrow> app_state
     \<Rightarrow> js_error + app_state" where
  "handleAddProfessor toLowerCase updateProfessor now profFormData st =
     (if \<not> truthy (data st) then Inr st
      else
        thenE (addRequest toLowerCase now profFormData (data st)) (\<lambda>request.
        case request of
          None \<Rightarrow> Inr (showToast ''Error: Selected department not found.'' st)
        | Some profPayload \<Rightarrow>
            (case updateProfessor profPayload of
               Inr savedProf \<Rightarrow>
                 thenE (handleDataUpdate (pure_updater (addUpdater savedProf)) st) (\<lambda>st1.
                   Inr ((showToast ''Professor added!'' st1)\<lparr>activeModal := None\<rparr>))
             | Inl error \<Rightarrow>
                 Inr (showToast ''Failed to save professor.'' (st\<lparr>apiStatus := Offline\<rparr>)))))"

subsection \<open>Remove Professor, Remove Department\<close>

text \<open>
  \<^verbatim>\<open>
  handleDataUpdate(d => {
      const newProfs = { ...d.professors };
      delete newProfs[profId];
      return { ...d, professors: newProfs };
  });
  \<close>
\<close>

definition removeUpdater :: "jv \<Rightarrow> jv \<Rightarrow> js_error + jv" where
  "removeUpdater profId d =
     thenE (get d ''professors'') (\<lambda>professors.
       let newProfs = JObj (AList.delete (js_String profId) (obj_of (ownProps professors)))
       in Inr (JObj (obj_of (ownProps d @ [(''professors'', newProfs)]))))"

text \<open>\<open>confirmed\<close> is the answer to \<^verbatim>\<open>window.confirm\<close>.\<close>

definition handleRemoveProfessor ::
  "(jv \<Rightarrow> js_error + jv) \<Rightarrow> bool \<Rightarrow> jv \<Rightarrow> app_state \<Rightarrow> js_error + app_state" where
  "handleRemoveProfessor deleteProfessor confirmed profId st =
     (if \<not> confirmed then Inr st
      else case deleteProfessor profId of
          Inr ok \<Rightarrow>
            thenE (handleDataUpdate (pure_updater (removeUpdater profId)) st) (\<lambda>st1.
              Inr (showToast ''Professor removed.'' st1))
        | Inl error \<Rightarrow> Inr (showToast ''Error removing professor.'' st))"

text \<open>
  \<^verbatim>\<open>
  try {
      await deleteDepartment(deptId);
      const freshData = await fetchMockData();
      setData(freshData);
      showToast("Department removed.");
  } catch (error) { showToast("Error removing department."); }
  \<close>
  \<open>fetchMockData\<close> is the outcome of the refetch, which is made only after a delete that
  succeeded.
\<close>

definition handleRemoveDepartment ::
  "(jv \<Rightarrow> js_error + jv) \<Rightarrow> js_error + jv \<Rightarrow> bool \<Rightarrow> jv \<Rightarrow> app_state
     \<Rightarrow> js_error + app_state" where
  "handleRemoveDepartment deleteDepartment fetchMockData confirmed deptId st =
     (if \<not> confirmed then Inr st
      else case thenE (deleteDepartment deptId) (\<lambda>ok. fetchMockData) of
          Inr freshData \<Rightarrow> Inr (showToast ''Department removed.'' (st\<lparr>data := freshData\<rparr>))
        | Inl error \<Rightarrow> Inr (showToast ''Error removing department.'' st))"

subsection \<open>Edit Professor\<close>

text \<open>
  The part of both updaters of \<^verbatim>\<open>handleEditProfessor\<close> that registers a new branch:
  \<^verbatim>\<open>
  if (isNewBranch) {
      const newBranch = { id: branchId, name: branchName, departmentId: department.id };
      updated = { ...updated, branches: { ...updated.branches, [branchId]: newBranch } };
      updated = { ...updated, departments: updated.departments.map(d =>
          d.id === department.id ? { ...d, branches: [...d.branches, branchId] } : d) };
  }
  \<close>
\<close>

definition appendBranch :: "jv \<Rightarrow> jv \<Rightarrow> jv \<Rightarrow> js_error + jv" where
  "appendBranch did branchId d =
     thenE (get d ''id'') (\<lambda>i.
       if strict_eq i did
       then thenE (get d ''branches'') (\<lambda>bs.
            thenE (iterate bs) (\<lambda>xs.
              Inr (JObj (obj_of (ownProps d @ [(''branches'', JArr (xs @ [branchId]))])))))
       else Inr d)"

definition registerBranch :: "bool \<Rightarrow> jv \<Rightarrow> jv \<Rightarrow> jv \<Rightarrow> jv \<Rightarrow> js_error + jv" where
  "registerBranch isNewBranch branchId branchName department updated =
     (if \<not> isNewBranch then Inr updated
      else
        thenE (get department ''id'') (\<lambda>did.
        let newBranch = JObj (obj_of [(''id'', branchId), (''name'', branchName),
                                      (''departmentId'', did)]) in
        thenE (get updated ''branches'') (\<lambda>branches.
        let updated1 = JObj (obj_of (ownProps updated @
              [(''branches'',
                JObj (obj_of (ownProps branches @ [(js_String branchId, newBranch)])))])) in
        thenE (get updated1 ''departments'') (\<lambda>departments.
        thenE (elements departments) (\<lambda>ds.
        thenE (mapE (appendBranch did branchId) ds) (\<lambda>ds'.
          Inr (JObj (obj_of (ownProps updated1 @ [(''departments'', JArr ds')])))))))))"

text \<open>
  The updater after a successful call:
  \<^verbatim>\<open>
  const profs = { ...updated.professors };
  const savedId = savedProf._id || savedProf.id || id;
  profs[savedId] = { ...(savedProf as any), id: savedId };
  updated = { ...updated, professors: profs };
  \<close>
\<close>

definition editUpdater ::
  "bool \<Rightarrow> jv \<Rightarrow> jv \<Rightarrow> jv \<Rightarrow> jv \<Rightarrow> jv \<Rightarrow> jv \<Rightarrow> js_error + jv" where
  "editUpdater isNewBranch branchId branchName department savedProf pid currentData =
     thenE (registerBranch isNewBranch branchId branchName department
              (JObj (obj_of (ownProps currentData)))) (\<lambda>updated.
     thenE (get updated ''professors'') (\<lambda>professors.
     thenE (get savedProf ''_id'') (\<lambda>sid.
     thenE (get savedProf ''id'') (\<lambda>sid2.
       let savedId = js_or (js_or sid sid2) pid;
           profs = JObj (setOwn (js_String savedId)
                     (JObj (obj_of (ownProps savedProf @ [(''id'', savedId)])))
                     (obj_of (ownProps professors)))
       in Inr (JObj (obj_of (ownProps updated @ [(''professors'', profs)])))))))"

text \<open>
  The updater of the \<^verbatim>\<open>catch\<close> block:
  \<^verbatim>\<open>
  const profs = { ...updated.professors };
  const key = id || `local_${Date.now()}`;
  profs[key] = { ...(rest as any), id: key, branch: branchId,
                 departmentId: department.id, departmentName: department.name };
  updated = { ...updated, professors: profs };
  try { saveLocalData(updated); } catch (e) {}
  return updated;
  \<close>
\<close>

definition offlineUpdater ::
  "bool \<Rightarrow> jv \<Rightarrow> jv \<Rightarrow> jv \<Rightarrow> jv \<Rightarrow> jv \<Rightarrow> nat \<Rightarrow> jv \<Rightarrow> app_state
     \<Rightarrow> js_error + jv \<times> app_state" where
  "offlineUpdater isNewBranch branchId branchName department rest pid now currentData st =
     thenE (registerBranch isNewBranch branchId branchName department
              (JObj (obj_of (ownProps currentData)))) (\<lambda>updated.
     thenE (get updated ''professors'') (\<lambda>professors.
     let key = js_or pid (JStr (''local_'' @ show_nat now)) in
     thenE (get department ''id'') (\<lambda>did.
     thenE (get department ''name'') (\<lambda>dname.
       let profs = JObj (setOwn (js_String key)
                     (JObj (obj_of (ownProps rest @
                        [(''id'', key), (''branch'', branchId), (''departmentId'', did),
                         (''departmentName'', dname)])))
                     (obj_of (ownProps professors)));
           updated' = JObj (obj_of (ownProps updated @ [(''professors'', profs)]))
       in Inr (updated', saveLocalData updated' st)))))"

text \<open>
  \<^verbatim>\<open>
  const payload: any = { _id: id || undefined, id: id || undefined, ...rest,
      branch: branchId, departmentId: department.id, departmentName: department.name };
  if (isNewBranch) payload.branchName = branchName;
  \<close>
\<close>

definition editPayload :: "bool \<Rightarrow> jv \<Rightarrow> jv \<Rightarrow> jv \<Rightarrow> jv \<Rightarrow> jv \<Rightarrow> js_error + jv" where
  "editPayload isNewBranch pid rest branchId branchName department =
     thenE (get department ''id'') (\<lambda>did.
     thenE (get department ''name'') (\<lambda>dname.
       let payload = obj_of ([(''_id'', js_or pid JUndefined), (''id'', js_or pid JUndefined)]
                       @ ownProps rest @
                       [(''branch'', branchId), (''departmentId'', did),
                        (''departmentName'', dname)])
       in Inr (JObj (if isNewBranch then AList.update ''branchName'' branchName payload
                     else payload))))"

text \<open>
  \<^verbatim>\<open>handleEditProfessor\<close> up to the call of the Remote Store: what the branch resolution
  found and the payload, or \<open>None\<close> when the department is not found.
\<close>

record edit_call =
  ec_isNewBranch :: bool
  ec_branchId :: jv
  ec_branchName :: jv
  ec_department :: jv
  ec_rest :: jv
  ec_id :: jv
  ec_payload :: jv

definition editRequest ::
  "(string \<Rightarrow> string) \<Rightarrow> nat \<Rightarrow> jv \<Rightarrow> jv \<Rightarrow> js_error + edit_call option" where
  "editRequest toLowerCase now profFormData d =
     thenE (destructure profFormData [''branchName'', ''departmentId'', ''id'']) (\<lambda>rest.
     let branchName = field profFormData ''branchName'';
         departmentId = field profFormData ''departmentId'';
         pid = field profFormData ''id'' in
     thenE (findDepartment d departmentId) (\<lambda>department.
     if \<not> truthy department then Inr None
     else
       thenE (departmentBranches d department) (\<lambda>bs.
       thenE (findE (matchesEdit toLowerCase branchName) bs) (\<lambda>found.
       let existingBranch = orUndefined found;
           isNewBranch = \<not> truthy existingBranch in
       thenE (branchIdFor existingBranch now) (\<lambda>branchId.
       thenE (editPayload isNewBranch pid rest branchId branchName department) (\<lambda>payload.
         Inr (Some \<lparr>ec_isNewBranch = isNewBranch, ec_branchId = branchId,
                     ec_branchName = branchName, ec_department = department,
                     ec_rest = rest, ec_id = pid, ec_payload = payload\<rparr>)))))))"

text \<open>\<open>now\<close> is the time of the branch resolution, \<open>later\<close> the time in the \<^verbatim>\<open>catch\<close> block.\<close>

definition handleEditProfessor ::
  "(string \<Rightarrow> string) \<Rightarrow> (jv \<Rightarrow> js_error + jv) \<Rightarrow> nat \<Rightarrow> nat \<Rightarrow> jv \<Rightarrow> app_state
     \<Rightarrow> js_error + app_state" where
  "handleEditProfessor toLowerCase updateProfessor now later profFormData st =
     (if \<not> truthy (data st) then Inr st
      else
        thenE (editRequest toLowerCase now profFormData (data st)) (\<lambda>request.
        case request of
          None \<Rightarrow> Inr (showToast ''Selected department not found.'' st)
        | Some c \<Rightarrow>
            (case updateProfessor (ec_payload c) of
               Inr savedProf \<Rightarrow>
                 thenE (handleDataUpdate
                          (pure_updater
                            (editUpdater (ec_isNewBranch c) (ec_branchId c) (ec_branchName c)
                               (ec_department c) savedProf (ec_id c)))
                          st) (\<lambda>st1.
                   Inr ((showToast ''Professor updated.'' st1)
                          \<lparr>activeModal := None, editingProfessor := JNull\<rparr>))
             | Inl err \<Rightarrow>
                 thenE (handleDataUpdate
                          (offlineUpdater (ec_isNewBranch c) (ec_branchId c) (ec_branchName c)
                             (ec_department c) (ec_rest c) (ec_id c) later)
                          (st\<lparr>apiStatus := Offline\<rparr>)) (\<lambda>st1.
                   Inr ((showToast ''Professor updated locally (offline).'' st1)
                          \<lparr>activeModal := None, editingProfessor := JNull\<rparr>)))))"

section \<open>Concrete inputs\<close>

text \<open>
  A small aggregate, the state of a session that has loaded it, three forms for the
  department of the seed (a branch name that no branch has, the name of the seed branch in
  lower case, and the identifier of the seed branch given as the name), a Remote Store
  that stores what it is sent and one that cannot be reached.
\<close>

definition example_data :: jv where
  "example_data =
     JObj [(''departments'', JArr seedDepartments),
           (''branches'', JObj seedBranches),
           (''professors'',
              JObj [(''p1'', JObj [(''id'', JStr ''p1''), (''name'', JStr ''Ada''),
                                   (''branch'', JStr ''branch_ece'')])]),
           (''news'', JArr [])]"


definition example_state :: app_state where
  "example_state =
     initial_state\<lparr>data := example_data, apiStatus := Connected, loading := False\<rparr>"

definition form_new_branch :: jv where
  "form_new_branch =
     JObj [(''id'', JStr ''p1''), (''name'', JStr ''Ada L''), (''branchName'', JStr ''VLSI''),
           (''departmentId'', JStr ''dept_ece'')]"

definition form_same_branch :: jv where
  "form_same_branch =
     JObj [(''id'', JStr ''p1''), (''name'', JStr ''Ada L''), (''branchName'', JStr ''ece''),
           (''departmentId'', JStr ''dept_ece'')]"

definition form_branch_by_id :: jv where
  "form_branch_by_id =
     JObj [(''name'', JStr ''Ada L''), (''branchName'', JStr ''branch_ece''),
           (''departmentId'', JStr ''dept_ece'')]"

definition server_echo :: "jv \<Rightarrow> js_error + jv" where
  "server_echo p = Inr (JObj (AList.update ''_id'' (JStr ''srv_1'') (ownProps p)))"

definition server_down :: "jv \<Rightarrow> js_error + jv" where
  "server_down p = Inl (TypeError ''Failed to fetch'')"

text \<open>The data and the cache a handler leaves, \<open>None\<close> when it throws.\<close>

definition data_after :: "js_error + app_state \<Rightarrow> jv option" where
  "data_after r = (case r of Inr st \<Rightarrow> Some (data st) | Inl e \<Rightarrow> None)"


section \<open>Branch resolution, as the statements describe it\<close>

text \<open>
  The branches of a department: for each identifier in its branch list, what the branch
  map holds under it, \<^verbatim>\<open>undefined\<close> when it holds nothing.
\<close>

definition branch_ids :: "jv \<Rightarrow> jv list" where
  "branch_ids department = (case field department ''branches'' of JArray xs ps \<Rightarrow> xs | x \<Rightarrow> [])"

text \<open>
  No branch identifier of the department is read from the prototype of the branch map: one
  that is an inherited key is a key of the map.
\<close>

definition ownBranchKeys :: "jv \<Rightarrow> jv \<Rightarrow> bool" where
  "ownBranchKeys d department =
     list_all (\<lambda>bId. inheritedKey (js_String bId) \<longrightarrow>
                       entry d ''branches'' (js_String bId) \<noteq> None)
       (branch_ids department)"

definition branchesOf :: "jv \<Rightarrow> jv \<Rightarrow> jv list" where
  "branchesOf d department =
     map (\<lambda>bId. field (field d ''branches'') (js_String bId)) (branch_ids department)"

text \<open>A branch whose name is the given one up to the case of the letters.\<close>

definition nameMatches :: "(string \<Rightarrow> string) \<Rightarrow> string \<Rightarrow> jv \<Rightarrow> bool" where
  "nameMatches toLowerCase bn b =
     (case field b ''name'' of JStr n \<Rightarrow> toLowerCase n = toLowerCase bn | x \<Rightarrow> False)"

text \<open>What Edit accepts as the existing branch: the name, or the identifier itself.\<close>

definition editMatches :: "(string \<Rightarrow> string) \<Rightarrow> string \<Rightarrow> jv \<Rightarrow> bool" where
  "editMatches toLowerCase bn b =
     (truthy b \<and> (field b ''id'' = JStr bn \<or> nameMatches toLowerCase bn b))"


section \<open>The HTTP client\<close>

text \<open>
  \<^verbatim>\<open>request\<close> of the API module. The platform is a parameter: what the \<open>n\<close>-th call of
  \<^verbatim>\<open>fetch\<close> does (it rejects, or it resolves with a response), what reading the body of a
  response as text and as JSON gives, and \<^verbatim>\<open>JSON.parse\<close>. The logger and the console are
  not modelled. Besides its result the function returns the delays it has waited, in
  milliseconds and in order: one more call of \<^verbatim>\<open>fetch\<close> than there are delays was made.
\<close>

definition MAX_RETRIES :: nat where
  "MAX_RETRIES = 2"

definition RETRY_DELAY_MS :: nat where
  "RETRY_DELAY_MS = 500"

record response =
  r_status :: nat
  body_text :: "js_error + string"
  body_json :: "js_error + jv"

text \<open>\<^verbatim>\<open>response.ok\<close>: the status is in the range 200 to 299.\<close>

definition response_ok :: "response \<Rightarrow> bool" where
  "response_ok r = (200 \<le> r_status r \<and> r_status r \<le> 299)"

datatype fetch_outcome = Rejects js_error | Resolves response

text \<open>What is thrown: an error, and the status attached to it when there is one.\<close>

type_synonym thrown = "js_error \<times> nat option"

text \<open>\<^verbatim>\<open>s.includes(t)\<close>.\<close>

fun str_includes :: "string \<Rightarrow> string \<Rightarrow> bool" where
  "str_includes [] t = (t = [])"
| "str_includes (c # s) t = (take (length t) (c # s) = t \<or> str_includes s t)"

text \<open>
  The message of a response that is not ok: the \<^verbatim>\<open>error\<close> property of the parsed text or
  the text, and the text when parsing or reading the property throws.
\<close>

definition errorMessage :: "(string \<Rightarrow> js_error + jv) \<Rightarrow> string \<Rightarrow> jv" where
  "errorMessage JSON_parse errorText =
     (case thenE (JSON_parse errorText) (\<lambda>errorJson.
           thenE (get errorJson ''error'') (\<lambda>e. Inr (js_or e (JStr errorText)))) of
        Inr m \<Rightarrow> m
      | Inl e \<Rightarrow> JStr errorText)"

text \<open>The body of the \<^verbatim>\<open>try\<close> block, for one call of \<^verbatim>\<open>fetch\<close>.\<close>

definition attempt_once :: "(string \<Rightarrow> js_error + jv) \<Rightarrow> fetch_outcome \<Rightarrow> thrown + jv" where
  "attempt_once JSON_parse outcome =
     (case outcome of
        Rejects e \<Rightarrow> Inl (e, None)
      | Resolves response \<Rightarrow>
          if \<not> response_ok response
          then (case body_text response of
                  Inl e \<Rightarrow> Inl (e, None)
                | Inr errorText \<Rightarrow>
                    Inl (Error (js_String (js_or (errorMessage JSON_parse errorText)
                                    (JStr (''HTTP '' @ show_nat (r_status response))))),
                         Some (r_status response)))
          else (case body_json response of
                  Inl e \<Rightarrow> Inl (e, None)
                | Inr payload \<Rightarrow> Inr payload))"

text \<open>\<^verbatim>\<open>error instanceof TypeError && error.message.includes('fetch')\<close>.\<close>

fun retryable :: "thrown \<Rightarrow> bool" where
  "retryable (TypeError m, s) = str_includes m ''fetch''"
| "retryable (e, s) = False"

function request_from ::
  "(string \<Rightarrow> js_error + jv) \<Rightarrow> (nat \<Rightarrow> fetch_outcome) \<Rightarrow> nat \<Rightarrow> nat list
     \<Rightarrow> (thrown + jv) \<times> nat list" where
  "request_from JSON_parse fetch attempt slept =
     (if attempt \<le> MAX_RETRIES
      then (case attempt_once JSON_parse (fetch attempt) of
              Inr payload \<Rightarrow> (Inr payload, slept)
            | Inl error \<Rightarrow>
                if attempt < MAX_RETRIES \<and> retryable error
                then request_from JSON_parse fetch (attempt + 1)
                       (slept @ [RETRY_DELAY_MS * (attempt + 1)])
                else (Inl error, slept))
      else (Inr JUndefined, slept))"
  by pat_completeness auto
termination
  by (relation "measure (\<lambda>(JSON_parse, fetch, attempt, slept). Suc MAX_RETRIES - attempt)") auto

declare request_from.simps [simp del]

definition request ::
  "(string \<Rightarrow> js_error + jv) \<Rightarrow> (nat \<Rightarrow> fetch_outcome) \<Rightarrow> (thrown + jv) \<times> nat list" where
  "request JSON_parse fetch = request_from JSON_parse fetch 0 []"







section \<open>normalizeUrl\<close>















section \<open>Properties of escapeHtml\<close>










section \<open>Properties of loadData and of the seed merge\<close>

lemma thenE_Inr [simp]: "thenE (Inr x) f = f x"
  by (simp add: thenE_def)

lemma thenE_Inl [simp]: "thenE (Inl e) f = Inl e"
  by (simp add: thenE_def)

lemma thenE_eq_Inr: "thenE m f = Inr y \<longleftrightarrow> (\<exists>x. m = Inr x \<and> f x = Inr y)"
  by (cases m) simp_all

lemma mapE_append:
  "mapE f (xs @ ys) = thenE (mapE f xs) (\<lambda>a. thenE (mapE f ys) (\<lambda>b. Inr (a @ b)))"
proof (induction xs)
  case Nil
  show ?case by (cases "mapE f ys") simp_all
next
  case (Cons x xs)
  show ?case
  proof (cases "f x")
    case (Inl e)
    then show ?thesis by simp
  next
    case (Inr y)
    then show ?thesis using Cons.IH
      by (cases "mapE f xs"; cases "mapE f ys") simp_all
  qed
qed

lemma get_isObject: "isObject x \<Longrightarrow> get x k = Inr (field x k)"
  by (cases x) (simp_all add: field_def)

lemma mapE_get_objects:
  "list_all isObject xs \<Longrightarrow> mapE (\<lambda>d. get d k) xs = Inr (map (\<lambda>d. field d k) xs)"
  by (induction xs) (simp_all add: get_isObject)

lemma pushMissing_seed:
  "pushMissing ids acc seedDepartments =
     Inr (if JStr ''dept_ece'' \<in> set ids then acc else acc @ seedDepartments)"
  by (simp add: seedDepartments_def orUndefined_def list_ex_iff)

lemma mapE_id_seed: "mapE (\<lambda>d. get d ''id'') seedDepartments = Inr [JStr ''dept_ece'']"
  by (simp add: seedDepartments_def orUndefined_def)

lemma mergeDepartments_seed:
  "mergeDepartments (JArray ds ps) (JArr seedDepartments) =
     thenE (mapE (\<lambda>d. get d ''id'') ds) (\<lambda>ids.
       Inr (JArray (if JStr ''dept_ece'' \<in> set ids then ds else ds @ seedDepartments) ps))"
  by (cases "mapE (\<lambda>d. get d ''id'') ds") (simp_all add: mergeDepartments_def pushMissing_seed)

lemma mergeDepartments_Inr_array:
  "mergeDepartments d fb = Inr d' \<Longrightarrow> \<exists>ds ps. d = JArray ds ps"
  by (cases d) (simp_all add: mergeDepartments_def)

lemma mergeDepartments_idem:
  assumes "mergeDepartments d (JArr seedDepartments) = Inr d'"
  shows "mergeDepartments d' (JArr seedDepartments) = Inr d'"
proof -
  from assms obtain ds ps where d: "d = JArray ds ps"
    using mergeDepartments_Inr_array by blast
  from assms obtain ids where ids: "mapE (\<lambda>d. get d ''id'') ds = Inr ids"
    and d': "d' = JArray (if JStr ''dept_ece'' \<in> set ids then ds else ds @ seedDepartments) ps"
    unfolding d mergeDepartments_seed thenE_eq_Inr by auto
  show ?thesis
  proof (cases "JStr ''dept_ece'' \<in> set ids")
    case True
    then show ?thesis using ids d' by (simp add: mergeDepartments_seed)
  next
    case False
    then have "d' = JArray (ds @ seedDepartments) ps" using d' by simp
    then show ?thesis
      by (simp add: mergeDepartments_seed mapE_append ids mapE_id_seed)
  qed
qed

lemma setOwn_update: "k \<noteq> ''__proto__'' \<Longrightarrow> setOwn k v kvs = AList.update k v kvs"
  by (simp add: setOwn_def)

lemma get_assign_same:
  "plainKey k \<Longrightarrow> assign cur k v = Inr cur' \<Longrightarrow> get cur' k = Inr v"
  by (cases cur) (auto simp: plainKey_def setOwn_update update_conv' orUndefined_def)

lemma get_assign_other:
  "plainKey k \<Longrightarrow> k' \<noteq> k \<Longrightarrow> assign cur k v = Inr cur' \<Longrightarrow> get cur' k' = get cur k'"
  by (cases cur)
    (auto simp: plainKey_def setOwn_update update_conv' orUndefined_def split: option.splits)

lemma mergeMissing_keeps:
  "mergeMissing cur fb keys = Inr r \<Longrightarrow> list_all plainKey keys \<Longrightarrow>
   get cur k = Inr v \<Longrightarrow> truthy v \<Longrightarrow> get r k = Inr v"
proof (induction keys arbitrary: cur)
  case Nil
  then show ?case by simp
next
  case (Cons key keys)
  from Cons.prems(1) obtain c where c: "get cur key = Inr c"
    by (cases "get cur key") simp_all
  show ?case
  proof (cases "truthy c")
    case True
    with Cons c show ?thesis by simp
  next
    case False
    with Cons.prems(1) c obtain fv cur' where fv: "get fb key = Inr fv"
      and cur': "assign cur key fv = Inr cur'"
      and rest: "mergeMissing cur' fb keys = Inr r"
      by (auto simp: thenE_eq_Inr)
    from False c Cons.prems(3,4) have "k \<noteq> key" by auto
    with cur' Cons.prems(2,3) have "get cur' k = Inr v"
      using get_assign_other [of key k cur fv cur'] by simp
    with Cons.IH [OF rest] Cons.prems(2,4) show ?thesis by simp
  qed
qed

lemma mergeMissing_all_truthy:
  "mergeMissing cur fb keys = Inr r \<Longrightarrow> list_all plainKey keys \<Longrightarrow>
   \<forall>k\<in>set keys. \<exists>v. get fb k = Inr v \<and> truthy v \<Longrightarrow>
   \<forall>k\<in>set keys. \<exists>v. get r k = Inr v \<and> truthy v"
proof (induction keys arbitrary: cur)
  case Nil
  then show ?case by simp
next
  case (Cons key keys)
  from Cons.prems(1) obtain c where c: "get cur key = Inr c"
    by (cases "get cur key") simp_all
  show ?case
  proof (cases "truthy c")
    case True
    with Cons.prems(1) c have rest: "mergeMissing cur fb keys = Inr r" by simp
    from mergeMissing_keeps [OF rest _ c True] Cons.prems(2)
    have "get r key = Inr c" by simp
    moreover from Cons.IH [OF rest] Cons.prems(2,3)
    have "\<forall>k\<in>set keys. \<exists>v. get r k = Inr v \<and> truthy v" by simp
    ultimately show ?thesis using True by simp
  next
    case False
    with Cons.prems(1) c obtain fv cur' where fv: "get fb key = Inr fv"
      and cur': "assign cur key fv = Inr cur'"
      and rest: "mergeMissing cur' fb keys = Inr r"
      by (auto simp: thenE_eq_Inr)
    from Cons.prems(3) fv have tfv: "truthy fv" by auto
    from Cons.prems(2) cur' have "get cur' key = Inr fv"
      by (simp add: get_assign_same)
    from mergeMissing_keeps [OF rest _ this tfv] Cons.prems(2)
    have "get r key = Inr fv" by simp
    moreover from Cons.IH [OF rest] Cons.prems(2,3)
    have "\<forall>k\<in>set keys. \<exists>v. get r k = Inr v \<and> truthy v" by simp
    ultimately show ?thesis using tfv by simp
  qed
qed

lemma mergeMissing_fixed:
  "\<forall>k\<in>set keys. \<exists>v. get r k = Inr v \<and> truthy v \<Longrightarrow> mergeMissing r fb keys = Inr r"
  by (induction keys) auto

lemma mergeMissing_idem:
  assumes "mergeMissing cur fb keys = Inr r" and "list_all plainKey keys"
    and "\<forall>k\<in>set keys. \<exists>v. get fb k = Inr v \<and> truthy v"
  shows "mergeMissing r fb keys = Inr r"
  using mergeMissing_fixed mergeMissing_all_truthy [OF assms] by blast

lemma get_container:
  "isContainer a \<Longrightarrow> plainKey k \<Longrightarrow> get a k = Inr (orUndefined (map_of (named a) k))"
  by (cases a) (simp_all add: plainKey_def)

lemma named_put_back:
  "isContainer a \<Longrightarrow> named (put_back a k v) = AList.update k v (named a)"
  by (cases a) simp_all

lemma isContainer_put_back: "isContainer a \<Longrightarrow> isContainer (put_back a k v)"
  by (cases a) simp_all

lemma put_back_triv: "map_of (named a) k = Some v \<Longrightarrow> put_back a k v = a"
  by (cases a) (simp_all add: update_triv)

lemma plainKey_fields:
  "plainKey ''departments''" "plainKey ''professors''" "plainKey ''branches''"
  by (simp_all add: plainKey_def array_index_def is_digit_def)

lemma get_fallbackData:
  "get fallbackData ''departments'' = Inr (JArr seedDepartments)"
  "get fallbackData ''professors'' = Inr (JObj seedProfessors)"
  "get fallbackData ''branches'' = Inr (JObj seedBranches)"
  by (simp_all add: fallbackData_def orUndefined_def)

lemmas professor_defs =
  prof_ece_1_def prof_ece_2_def prof_ece_3_def prof_ece_4_def prof_ece_5_def
  prof_ece_6_def prof_ece_7_def prof_ece_8_def prof_ece_9_def prof_ece_10_def
  prof_ece_11_def prof_ece_12_def prof_ece_13_def prof_ece_14_def prof_ece_15_def
  prof_ece_16_def prof_ece_17_def prof_ece_18_def prof_ece_19_def

lemma seedProfessors_objects: "list_all (\<lambda>kv. isObject (snd kv)) seedProfessors"
  by (simp add: seedProfessors_def professor_defs)

lemma seedProfessors_distinct: "distinct (map fst seedProfessors)"
  by (simp add: seedProfessors_def)

lemma seedProfessors_plain: "list_all plainKey (map fst seedProfessors)"
  by (simp add: seedProfessors_def plainKey_def array_index_def is_digit_def)

lemma seedBranches_objects: "list_all (\<lambda>kv. isObject (snd kv)) seedBranches"
  by (simp add: seedBranches_def)

lemma seedBranches_distinct: "distinct (map fst seedBranches)"
  by (simp add: seedBranches_def)

lemma seedBranches_plain: "list_all plainKey (map fst seedBranches)"
  by (simp add: seedBranches_def plainKey_def array_index_def is_digit_def)

lemma isObject_truthy: "isObject v \<Longrightarrow> truthy v"
  by (cases v) simp_all

lemma entries_truthy:
  assumes "list_all (\<lambda>kv. isObject (snd kv)) kvs"
  shows "\<forall>k\<in>set (map fst kvs). \<exists>v. get (JObj kvs) k = Inr v \<and> truthy v"
proof
  fix k assume "k \<in> set (map fst kvs)"
  then obtain v where v: "map_of kvs k = Some v"
    by (metis map_of_eq_None_iff not_Some_eq set_map)
  then have "(k, v) \<in> set kvs" by (rule map_of_SomeD)
  with assms have "isObject v" by (auto simp: list_all_iff)
  with v show "\<exists>v. get (JObj kvs) k = Inr v \<and> truthy v"
    by (simp add: orUndefined_def isObject_truthy)
qed

lemma mergeEntries_idem:
  assumes "mergeEntries cur (JObj kvs) = Inr r"
    and "list_all (\<lambda>kv. isObject (snd kv)) kvs" and "list_all plainKey (map fst kvs)"
    and "distinct (map fst kvs)"
  shows "mergeEntries r (JObj kvs) = Inr r"
  using assms(1,4) mergeMissing_idem [OF _ assms(3) entries_truthy [OF assms(2)]]
  by (simp add: mergeEntries_def Object_keys_def)

lemma mergeSeed_Inr:
  assumes "truthy a"
  shows "mergeSeed a = Inr r \<longleftrightarrow>
    (\<exists>d d' p p' b b'.
       get a ''departments'' = Inr d
     \<and> mergeDepartments d (JArr seedDepartments) = Inr d'
     \<and> get (put_back a ''departments'' d') ''professors'' = Inr p
     \<and> mergeEntries p (JObj seedProfessors) = Inr p'
     \<and> get (put_back (put_back a ''departments'' d') ''professors'' p') ''branches'' = Inr b
     \<and> mergeEntries b (JObj seedBranches) = Inr b'
     \<and> r = put_back (put_back (put_back a ''departments'' d') ''professors'' p')
              ''branches'' b')"
  using assms by (simp add: mergeSeed_def get_fallbackData thenE_eq_Inr Let_def) blast

lemma mergeMissing_object:
  assumes "\<forall>k v. map_of ckvs k = Some v \<longrightarrow> truthy v"
    and "\<forall>k\<in>set keys. \<exists>v. map_of fkvs k = Some v \<and> truthy v"
    and "''__proto__'' \<notin> set keys"
  shows "\<exists>ckvs'. mergeMissing (JObj ckvs) (JObj fkvs) keys = Inr (JObj ckvs')
     \<and> (\<forall>k. map_of ckvs' k =
          (case map_of ckvs k of Some v \<Rightarrow> Some v
           | None \<Rightarrow> if k \<in> set keys then map_of fkvs k else None))"
  using assms
proof (induction keys arbitrary: ckvs)
  case Nil
  then show ?case by (auto split: option.splits)
next
  case (Cons key keys)
  from Cons.prems(2) obtain fv where fv: "map_of fkvs key = Some fv" and tfv: "truthy fv"
    by auto
  from Cons.prems(2) have keys: "\<forall>k\<in>set keys. \<exists>v. map_of fkvs k = Some v \<and> truthy v"
    by simp
  from Cons.prems(3) have np: "''__proto__'' \<notin> set keys" and nk: "key \<noteq> ''__proto__''"
    by auto
  show ?case
  proof (cases "map_of ckvs key")
    case None
    let ?c = "AList.update key fv ckvs"
    have inv: "\<forall>k v. map_of ?c k = Some v \<longrightarrow> truthy v"
      using Cons.prems(1) tfv by (simp add: update_conv')
    from Cons.IH [OF inv keys np] obtain ckvs' where
      r: "mergeMissing (JObj ?c) (JObj fkvs) keys = Inr (JObj ckvs')"
      and m: "\<forall>k. map_of ckvs' k =
          (case map_of ?c k of Some v \<Rightarrow> Some v
           | None \<Rightarrow> if k \<in> set keys then map_of fkvs k else None)"
      by blast
    have "mergeMissing (JObj ckvs) (JObj fkvs) (key # keys) = Inr (JObj ckvs')"
      using None fv r nk by (simp add: orUndefined_def setOwn_update)
    moreover have "\<forall>k. map_of ckvs' k =
          (case map_of ckvs k of Some v \<Rightarrow> Some v
           | None \<Rightarrow> if k \<in> set (key # keys) then map_of fkvs k else None)"
      using m None fv by (auto simp: update_conv' split: option.splits)
    ultimately show ?thesis by blast
  next
    case (Some c)
    with Cons.prems(1) have "truthy c" by blast
    with Some have step: "mergeMissing (JObj ckvs) (JObj fkvs) (key # keys)
        = mergeMissing (JObj ckvs) (JObj fkvs) keys"
      by (simp add: orUndefined_def)
    from Cons.IH [OF Cons.prems(1) keys np] obtain ckvs' where
      r: "mergeMissing (JObj ckvs) (JObj fkvs) keys = Inr (JObj ckvs')"
      and m: "\<forall>k. map_of ckvs' k =
          (case map_of ckvs k of Some v \<Rightarrow> Some v
           | None \<Rightarrow> if k \<in> set keys then map_of fkvs k else None)"
      by blast
    have "\<forall>k. map_of ckvs' k =
          (case map_of ckvs k of Some v \<Rightarrow> Some v
           | None \<Rightarrow> if k \<in> set (key # keys) then map_of fkvs k else None)"
      using m Some by (auto split: option.splits)
    with step r show ?thesis by auto
  qed
qed

lemma entries_Some_truthy:
  assumes "list_all (\<lambda>kv. isObject (snd kv)) kvs"
  shows "\<forall>k\<in>set (map fst kvs). \<exists>v. map_of kvs k = Some v \<and> truthy v"
proof
  fix k assume "k \<in> set (map fst kvs)"
  then obtain v where v: "map_of kvs k = Some v"
    by (metis map_of_eq_None_iff not_Some_eq set_map)
  then have "(k, v) \<in> set kvs" by (rule map_of_SomeD)
  with assms have "isObject v" by (auto simp: list_all_iff)
  with v show "\<exists>v. map_of kvs k = Some v \<and> truthy v"
    by (simp add: isObject_truthy)
qed

lemma mergeEntries_object:
  assumes "list_all (\<lambda>kv. P (snd kv)) ckvs" and "\<And>v. P v \<Longrightarrow> isObject v"
    and "list_all (\<lambda>kv. isObject (snd kv)) fkvs" and "distinct (map fst fkvs)"
    and "list_all plainKey (map fst fkvs)"
  shows "\<exists>ckvs'. mergeEntries (JObj ckvs) (JObj fkvs) = Inr (JObj ckvs')
     \<and> (\<forall>k. map_of ckvs' k =
          (case map_of ckvs k of Some v \<Rightarrow> Some v | None \<Rightarrow> map_of fkvs k))"
proof -
  have inv: "\<forall>k v. map_of ckvs k = Some v \<longrightarrow> truthy v"
  proof (intro allI impI)
    fix k v assume "map_of ckvs k = Some v"
    then have "(k, v) \<in> set ckvs" by (rule map_of_SomeD)
    with assms(1) have "P v" by (auto simp: list_all_iff)
    then show "truthy v" using assms(2) isObject_truthy by blast
  qed
  from assms(5) have np: "''__proto__'' \<notin> set (map fst fkvs)"
    by (auto simp: list_all_iff plainKey_def)
  from mergeMissing_object [OF inv entries_Some_truthy [OF assms(3)] np]
  obtain ckvs' where r: "mergeMissing (JObj ckvs) (JObj fkvs) (map fst fkvs) = Inr (JObj ckvs')"
    and m: "\<forall>k. map_of ckvs' k =
          (case map_of ckvs k of Some v \<Rightarrow> Some v
           | None \<Rightarrow> if k \<in> set (map fst fkvs) then map_of fkvs k else None)"
    by blast
  have none: "\<And>k. k \<notin> fst ` set fkvs \<Longrightarrow> map_of fkvs k = None"
    by (simp add: map_of_eq_None_iff)
  have "\<forall>k. map_of ckvs' k =
          (case map_of ckvs k of Some v \<Rightarrow> Some v | None \<Rightarrow> map_of fkvs k)"
  proof
    fix k
    show "map_of ckvs' k =
          (case map_of ckvs k of Some v \<Rightarrow> Some v | None \<Rightarrow> map_of fkvs k)"
      using m none [of k] by (cases "k \<in> fst ` set fkvs") (auto split: option.splits)
  qed
  with r assms(4) show ?thesis by (auto simp: mergeEntries_def Object_keys_def)
qed

lemma isDepartment_isObject: "isDepartment d \<Longrightarrow> isObject d"
  by (simp add: isDepartment_def)

lemma isBranch_isObject: "isBranch d \<Longrightarrow> isObject d"
  by (simp add: isBranch_def)

lemma filter_seedDepartments:
  "filter (\<lambda>d. field d ''id'' \<notin> set ids) seedDepartments
     = (if JStr ''dept_ece'' \<in> set ids then [] else seedDepartments)"
  by (simp add: seedDepartments_def field_def orUndefined_def)

lemma isAppData_shape:
  assumes "isAppData a"
  obtains akvs ds ps bk pk where "a = JObj akvs"
    and "map_of akvs ''departments'' = Some (JArray ds ps)" and "list_all isDepartment ds"
    and "map_of akvs ''branches'' = Some (JObj bk)" and "list_all (\<lambda>kv. isBranch (snd kv)) bk"
    and "map_of akvs ''professors'' = Some (JObj pk)" and "list_all (\<lambda>kv. isObject (snd kv)) pk"
proof -
  from assms obtain akvs where a: "a = JObj akvs"
    by (cases a) (simp_all add: isAppData_def)
  from assms a obtain ds ps where d: "orUndefined (map_of akvs ''departments'') = JArray ds ps"
    and dd: "list_all isDepartment ds"
    by (cases "orUndefined (map_of akvs ''departments'')") (simp_all add: isAppData_def field_def)
  from assms a obtain bk where b: "orUndefined (map_of akvs ''branches'') = JObj bk"
    and bb: "list_all (\<lambda>kv. isBranch (snd kv)) bk"
    by (cases "orUndefined (map_of akvs ''branches'')") (simp_all add: isAppData_def field_def)
  from assms a obtain pk where p: "orUndefined (map_of akvs ''professors'') = JObj pk"
    and pp: "list_all (\<lambda>kv. isObject (snd kv)) pk"
    by (cases "orUndefined (map_of akvs ''professors'')") (simp_all add: isAppData_def field_def)
  from d b p have "map_of akvs ''departments'' = Some (JArray ds ps)"
    "map_of akvs ''branches'' = Some (JObj bk)" "map_of akvs ''professors'' = Some (JObj pk)"
    by (auto simp: orUndefined_def split: option.splits)
  with a dd bb pp that show thesis by blast
qed

lemma mergeSeed_AppData:
  assumes "isAppData base"
  shows "\<exists>r. mergeSeed base = Inr r
     \<and> departments_of r = departments_of base @
         filter (\<lambda>d. field d ''id'' \<notin> set (map (\<lambda>d. field d ''id'') (departments_of base)))
           seedDepartments
     \<and> (\<forall>k. entry r ''professors'' k =
           (case entry base ''professors'' k of Some v \<Rightarrow> Some v
            | None \<Rightarrow> map_of seedProfessors k))
     \<and> (\<forall>k. entry r ''branches'' k =
           (case entry base ''branches'' k of Some v \<Rightarrow> Some v
            | None \<Rightarrow> map_of seedBranches k))"
proof -
  from assms obtain akvs ds ps bk pk where a: "base = JObj akvs"
    and d: "map_of akvs ''departments'' = Some (JArray ds ps)" and dd: "list_all isDepartment ds"
    and b: "map_of akvs ''branches'' = Some (JObj bk)"
    and bb: "list_all (\<lambda>kv. isBranch (snd kv)) bk"
    and p: "map_of akvs ''professors'' = Some (JObj pk)"
    and pp: "list_all (\<lambda>kv. isObject (snd kv)) pk"
    by (rule isAppData_shape)
  let ?ids = "map (\<lambda>d. field d ''id'') ds"
  let ?ds' = "ds @ filter (\<lambda>d. field d ''id'' \<notin> set ?ids) seedDepartments"
  from dd have "list_all isObject ds"
    by (simp add: list_all_iff isDepartment_isObject)
  then have ids: "mapE (\<lambda>d. get d ''id'') ds = Inr ?ids"
    by (rule mapE_get_objects)
  have f: "filter (\<lambda>d. field d ''id'' \<notin> set ?ids) seedDepartments
      = (if JStr ''dept_ece'' \<in> set ?ids then [] else seedDepartments)"
    by (rule filter_seedDepartments)
  have md: "mergeDepartments (JArray ds ps) (JArr seedDepartments) = Inr (JArray ?ds' ps)"
    unfolding f by (simp add: mergeDepartments_seed ids)
  from mergeEntries_object [OF pp _ seedProfessors_objects seedProfessors_distinct
      seedProfessors_plain]
  obtain pk' where mp: "mergeEntries (JObj pk) (JObj seedProfessors) = Inr (JObj pk')"
    and pk': "\<forall>k. map_of pk' k =
          (case map_of pk k of Some v \<Rightarrow> Some v | None \<Rightarrow> map_of seedProfessors k)"
    by blast
  from mergeEntries_object [OF bb isBranch_isObject seedBranches_objects seedBranches_distinct
      seedBranches_plain]
  obtain bk' where mb: "mergeEntries (JObj bk) (JObj seedBranches) = Inr (JObj bk')"
    and bk': "\<forall>k. map_of bk' k =
          (case map_of bk k of Some v \<Rightarrow> Some v | None \<Rightarrow> map_of seedBranches k)"
    by blast
  let ?r = "put_back (put_back (put_back base ''departments'' (JArray ?ds' ps))
              ''professors'' (JObj pk')) ''branches'' (JObj bk')"
  have tb: "truthy base" using a by simp
  have "\<exists>d d' p p' b b'.
       get base ''departments'' = Inr d
     \<and> mergeDepartments d (JArr seedDepartments) = Inr d'
     \<and> get (put_back base ''departments'' d') ''professors'' = Inr p
     \<and> mergeEntries p (JObj seedProfessors) = Inr p'
     \<and> get (put_back (put_back base ''departments'' d') ''professors'' p') ''branches'' = Inr b
     \<and> mergeEntries b (JObj seedBranches) = Inr b'
     \<and> ?r = put_back (put_back (put_back base ''departments'' d') ''professors'' p')
              ''branches'' b'"
    apply (rule exI [of _ "JArray ds ps"])
    apply (rule exI [of _ "JArray ?ds' ps"])
    apply (rule exI [of _ "JObj pk"])
    apply (rule exI [of _ "JObj pk'"])
    apply (rule exI [of _ "JObj bk"])
    apply (rule exI [of _ "JObj bk'"])
    apply (simp only: md mp mb)
    apply (simp add: a d b p update_conv' orUndefined_def)
    done
  then have "mergeSeed base = Inr ?r"
    by (simp only: mergeSeed_Inr [OF tb])
  moreover have "departments_of ?r = ?ds'"
    using a by (simp add: departments_of_def field_def update_conv' orUndefined_def)
  moreover have "departments_of base = ds"
    using a d by (simp add: departments_of_def field_def orUndefined_def)
  moreover have "\<And>k. entry ?r ''professors'' k = map_of pk' k"
    using a by (simp add: entry_def field_def update_conv' orUndefined_def)
  moreover have "\<And>k. entry base ''professors'' k = map_of pk k"
    using a p by (simp add: entry_def field_def orUndefined_def)
  moreover have "\<And>k. entry ?r ''branches'' k = map_of bk' k"
    using a by (simp add: entry_def field_def update_conv' orUndefined_def)
  moreover have "\<And>k. entry base ''branches'' k = map_of bk k"
    using a b by (simp add: entry_def field_def orUndefined_def)
  ultimately show ?thesis using pk' bk' by simp
qed

lemma get_array_container:
  "get a k = Inr (JArray ds ps) \<Longrightarrow> plainKey k \<Longrightarrow> isContainer a"
  by (cases a) (simp_all add: plainKey_def)

lemma isContainer_truthy: "isContainer a \<Longrightarrow> truthy a"
  by (cases a) simp_all

lemma mergeSeed_fixed:
  assumes t: "truthy a" and m: "mergeSeed a = Inr r"
  shows "mergeSeed r = Inr r \<and> truthy r"
proof -
  from m obtain d d' p p' b b' where
    gd: "get a ''departments'' = Inr d"
    and md: "mergeDepartments d (JArr seedDepartments) = Inr d'"
    and mp: "mergeEntries p (JObj seedProfessors) = Inr p'"
    and mb: "mergeEntries b (JObj seedBranches) = Inr b'"
    and r: "r = put_back (put_back (put_back a ''departments'' d') ''professors'' p')
              ''branches'' b'"
    unfolding mergeSeed_Inr [OF t] by blast
  from md obtain ds ps where "d = JArray ds ps"
    using mergeDepartments_Inr_array by blast
  with gd have ca: "isContainer a"
    using get_array_container plainKey_fields(1) by blast
  have cr: "isContainer r"
    unfolding r by (intro isContainer_put_back ca)
  have nr: "named r = AList.update ''branches'' b'
      (AList.update ''professors'' p' (AList.update ''departments'' d' (named a)))"
    unfolding r by (simp add: named_put_back isContainer_put_back ca)
  have ld: "map_of (named r) ''departments'' = Some d'"
    and lp: "map_of (named r) ''professors'' = Some p'"
    and lb: "map_of (named r) ''branches'' = Some b'"
    unfolding nr by (simp_all add: update_conv')
  have md': "mergeDepartments d' (JArr seedDepartments) = Inr d'"
    using md by (rule mergeDepartments_idem)
  have mp': "mergeEntries p' (JObj seedProfessors) = Inr p'"
    using mp seedProfessors_objects seedProfessors_plain seedProfessors_distinct
    by (rule mergeEntries_idem)
  have mb': "mergeEntries b' (JObj seedBranches) = Inr b'"
    using mb seedBranches_objects seedBranches_plain seedBranches_distinct
    by (rule mergeEntries_idem)
  have pd: "put_back r ''departments'' d' = r" using ld by (rule put_back_triv)
  have pp: "put_back r ''professors'' p' = r" using lp by (rule put_back_triv)
  have pb: "put_back r ''branches'' b' = r" using lb by (rule put_back_triv)
  have tr: "truthy r" using cr by (rule isContainer_truthy)
  have "\<exists>x x' y y' z z'.
       get r ''departments'' = Inr x
     \<and> mergeDepartments x (JArr seedDepartments) = Inr x'
     \<and> get (put_back r ''departments'' x') ''professors'' = Inr y
     \<and> mergeEntries y (JObj seedProfessors) = Inr y'
     \<and> get (put_back (put_back r ''departments'' x') ''professors'' y') ''branches'' = Inr z
     \<and> mergeEntries z (JObj seedBranches) = Inr z'
     \<and> r = put_back (put_back (put_back r ''departments'' x') ''professors'' y')
              ''branches'' z'"
    apply (rule exI [of _ d'])
    apply (rule exI [of _ d'])
    apply (rule exI [of _ p'])
    apply (rule exI [of _ p'])
    apply (rule exI [of _ b'])
    apply (rule exI [of _ b'])
    apply (simp only: pd pp pb md' mp' mb')
    apply (simp add: get_container [OF cr] plainKey_fields ld lp lb orUndefined_def)
    done
  then have "mergeSeed r = Inr r"
    by (simp only: mergeSeed_Inr [OF tr])
  with tr show ?thesis by simp
qed

lemma loadData_offline:
  assumes "tryServer remote = Inl e" and "truthy r" and "mergeSeed r = Inr r"
    and "cache st = Stored r"
  shows "loadData remote st = Inr (st\<lparr>data := r, apiStatus := Offline, loading := False\<rparr>)"
  using assms by (simp add: loadData_def chooseBase_def js_or_def)

lemma isAppData_fallbackData: "isAppData fallbackData"
  using seedProfessors_objects
  by (simp add: isAppData_def fallbackData_def field_def orUndefined_def seedDepartments_def
      seedBranches_def isDepartment_def isBranch_def)

lemma chooseBase_example_payload:
  "chooseBase (Inr example_payload) (cache initial_state) = (Connected, example_payload)"
  by (simp add: chooseBase_def tryServer_def example_payload_def orUndefined_def)

lemma isAppData_example_payload: "isAppData example_payload"
  by (simp add: isAppData_def example_payload_def field_def orUndefined_def isDepartment_def)

text \<open>
  C7. The seed merge is idempotent: whenever merging the Seed Dataset into an aggregate
  gives a result, merging it into that result again gives the very same value, so the
  same departments list, branch map and professor map; and \<open>loadData\<close> over a cache that
  holds the merged result, the server failing, sets exactly that value as the data, with no
  department added. The merge does give a result on every aggregate of the declared shape.
\<close>

theorem mergeSeed_idempotent:
  "(truthy a \<and> mergeSeed a = Inr r \<longrightarrow>
      mergeSeed r = Inr r
      \<and> (\<forall>remote st e. tryServer remote = Inl e \<and> cache st = Stored r \<longrightarrow>
            loadData remote st = Inr (st\<lparr>data := r, apiStatus := Offline, loading := False\<rparr>)))
   \<and> (isAppData a \<longrightarrow> truthy a \<and> (\<exists>r. mergeSeed a = Inr r))"
proof (intro conjI impI)
  assume h: "truthy a \<and> mergeSeed a = Inr r"
  then have f: "mergeSeed r = Inr r \<and> truthy r" using mergeSeed_fixed by blast
  then show "mergeSeed r = Inr r" by simp
  show "\<forall>remote st e. tryServer remote = Inl e \<and> cache st = Stored r \<longrightarrow>
            loadData remote st = Inr (st\<lparr>data := r, apiStatus := Offline, loading := False\<rparr>)"
    using f loadData_offline by blast
next
  assume "isAppData a"
  then show "truthy a" by (cases a) (simp_all add: isAppData_def)
next
  assume "isAppData a"
  then show "\<exists>r. mergeSeed a = Inr r" using mergeSeed_AppData by blast
qed

theorem mergeSeed_idempotent_witness:
  "isAppData example_payload \<and> truthy example_payload
   \<and> (\<exists>r. mergeSeed example_payload = Inr r \<and> mergeSeed r = Inr r
        \<and> loadData (Inl (TypeError ''Failed to fetch'')) (initial_state\<lparr>cache := Stored r\<rparr>)
            = Inr (initial_state\<lparr>cache := Stored r, data := r, apiStatus := Offline,
                     loading := False\<rparr>))"
proof -
  from mergeSeed_idempotent [of example_payload] isAppData_example_payload
  obtain r where t: "truthy example_payload" and r: "mergeSeed example_payload = Inr r"
    by blast
  have s: "tryServer (Inl (TypeError ''Failed to fetch'')) = Inl (TypeError ''Failed to fetch'')"
    by (simp add: tryServer_def)
  have c: "cache (initial_state\<lparr>cache := Stored r\<rparr>) = Stored r"
    by simp
  from mergeSeed_idempotent [of example_payload r] t r s c
  have "mergeSeed r = Inr r
     \<and> loadData (Inl (TypeError ''Failed to fetch'')) (initial_state\<lparr>cache := Stored r\<rparr>)
         = Inr (initial_state\<lparr>cache := Stored r, data := r, apiStatus := Offline,
                  loading := False\<rparr>)"
    by blast
  with t r isAppData_example_payload show ?thesis by blast
qed

lemma mergeMissing_container_ok:
  "isContainer cur \<Longrightarrow> list_all plainKey keys \<Longrightarrow> isContainer fb \<Longrightarrow>
   \<exists>r. mergeMissing cur fb keys = Inr r \<and> isContainer r"
proof (induction keys arbitrary: cur)
  case Nil
  then show ?case by simp
next
  case (Cons key keys)
  from Cons.prems obtain c where c: "get cur key = Inr c"
    by (simp add: get_container)
  from Cons.prems obtain v where v: "get fb key = Inr v"
    by (simp add: get_container)
  from Cons.prems(1) obtain cur' where cur': "assign cur key v = Inr cur'"
    and cc: "isContainer cur'"
    by (cases cur) (auto split: option.splits)
  from Cons.IH [OF cc] Cons.IH [OF Cons.prems(1)] Cons.prems(2,3) c v cur'
  show ?case by (cases "truthy c") simp_all
qed

lemma mergeMissing_needs_container:
  "mergeMissing cur fb (key # keys) = Inr r \<Longrightarrow> plainKey key \<Longrightarrow> isContainer cur"
  by (cases cur) (auto simp: thenE_eq_Inr plainKey_def split: if_splits)

lemma mergeMissing_result_container:
  "mergeMissing cur fb keys = Inr r \<Longrightarrow> isContainer cur \<Longrightarrow> list_all plainKey keys \<Longrightarrow>
   isContainer r"
proof (induction keys arbitrary: cur)
  case Nil
  then show ?case by simp
next
  case (Cons key keys)
  from Cons.prems(1) obtain c where c: "get cur key = Inr c"
    by (cases "get cur key") simp_all
  show ?case
  proof (cases "truthy c")
    case True
    with Cons c show ?thesis by simp
  next
    case False
    with Cons.prems(1) c obtain fv cur' where cur': "assign cur key fv = Inr cur'"
      and rest: "mergeMissing cur' fb keys = Inr r"
      by (auto simp: thenE_eq_Inr)
    from cur' Cons.prems(2) have "isContainer cur'"
      by (cases cur) (auto split: option.splits)
    with Cons.IH [OF rest] Cons.prems(3) show ?thesis by simp
  qed
qed

lemma seedProfessors_keys: "map fst seedProfessors = ''prof_ece_1'' # tl (map fst seedProfessors)"
  by (simp add: seedProfessors_def)

lemma seedBranches_keys: "map fst seedBranches = [''branch_ece'']"
  by (simp add: seedBranches_def)

lemma plainKey_prof1: "plainKey ''prof_ece_1''"
  by (simp add: plainKey_def array_index_def is_digit_def)

lemma plainKey_branch: "plainKey ''branch_ece''"
  by (simp add: plainKey_def array_index_def is_digit_def)

lemma mergeEntries_professors_needs:
  assumes "mergeEntries p (JObj seedProfessors) = Inr p'"
  shows "isContainer p"
proof -
  from assms have "mergeMissing p (JObj seedProfessors)
      (''prof_ece_1'' # tl (map fst seedProfessors)) = Inr p'"
    using seedProfessors_keys seedProfessors_distinct
    by (simp add: mergeEntries_def Object_keys_def)
  then show ?thesis using plainKey_prof1 by (rule mergeMissing_needs_container)
qed

lemma mergeEntries_branches_needs:
  assumes "mergeEntries p (JObj seedBranches) = Inr p'"
  shows "isContainer p"
proof -
  from assms have "mergeMissing p (JObj seedBranches) [''branch_ece''] = Inr p'"
    using seedBranches_distinct by (simp add: mergeEntries_def Object_keys_def seedBranches_keys)
  then show ?thesis using plainKey_branch by (rule mergeMissing_needs_container)
qed

lemma mergeEntries_container_ok:
  assumes "isContainer p" and "list_all plainKey (map fst kvs)" and "distinct (map fst kvs)"
  shows "\<exists>p'. mergeEntries p (JObj kvs) = Inr p' \<and> isContainer p'"
  using mergeMissing_container_ok [OF assms(1,2), of "JObj kvs"] assms(3)
  by (simp add: mergeEntries_def Object_keys_def)

lemma mapE_get_defined:
  "(\<exists>ys. mapE (\<lambda>d. get d k) xs = Inr ys)
     \<longleftrightarrow> list_all (\<lambda>d. d \<noteq> JUndefined \<and> d \<noteq> JNull) xs"
proof (induction xs)
  case Nil
  show ?case by simp
next
  case (Cons x xs)
  show ?case
  proof (cases "x = JUndefined \<or> x = JNull")
    case True
    then show ?thesis by auto
  next
    case False
    then obtain v where "get x k = Inr v" by (cases x) simp_all
    with False Cons show ?thesis by (auto simp: thenE_eq_Inr)
  qed
qed

lemma mergeDepartments_returns:
  "(\<exists>d'. mergeDepartments d (JArr seedDepartments) = Inr d')
     \<longleftrightarrow> (case d of JArray ds ps \<Rightarrow> list_all (\<lambda>d. d \<noteq> JUndefined \<and> d \<noteq> JNull) ds
          | x \<Rightarrow> False)"
proof (cases d)
  case (JArray ds ps)
  then show ?thesis
    using mapE_get_defined [of "''id''" ds]
    by (auto simp: mergeDepartments_seed thenE_eq_Inr)
qed (simp_all add: mergeDepartments_def)

lemma field_get: "field a k = JArray ds ps \<Longrightarrow> get a k = Inr (JArray ds ps)"
  by (cases "get a k") (simp_all add: field_def)

lemma field_container_get: "isContainer (field a k) \<Longrightarrow> get a k = Inr (field a k)"
  by (cases "get a k") (simp_all add: field_def)

lemma get_field: "get a k = Inr v \<Longrightarrow> field a k = v"
  by (simp add: field_def)

lemma get_put_back_other:
  "isContainer a \<Longrightarrow> plainKey k \<Longrightarrow> plainKey k' \<Longrightarrow> k' \<noteq> k \<Longrightarrow>
   get (put_back a k v) k' = get a k'"
  by (simp add: get_container isContainer_put_back named_put_back update_conv')

lemma get_put_back_same:
  "isContainer a \<Longrightarrow> plainKey k \<Longrightarrow> get (put_back a k v) k = Inr v"
  by (simp add: get_container isContainer_put_back named_put_back update_conv' orUndefined_def)

lemma clearjunk_Nil: "map_of al k = Some v \<Longrightarrow> AList.clearjunk al = [] \<Longrightarrow> False"
  using map_of_clearjunk [of al] by (metis map_of.simps(1) option.distinct(1))

lemma container_nonempty:
  "isContainer p \<Longrightarrow> plainKey k \<Longrightarrow> get p k = Inr v \<Longrightarrow> truthy v \<Longrightarrow> ownProps p \<noteq> []"
  by (cases p) (auto simp: plainKey_def orUndefined_def dest: clearjunk_Nil split: option.splits)

lemma mergeSeed_returns_iff:
  assumes t: "truthy a"
  shows "(\<exists>r. mergeSeed a = Inr r) \<longleftrightarrow> mergeable a"
proof
  assume "\<exists>r. mergeSeed a = Inr r"
  then obtain d d' p p' b b' where
    gd: "get a ''departments'' = Inr d"
    and md: "mergeDepartments d (JArr seedDepartments) = Inr d'"
    and gp: "get (put_back a ''departments'' d') ''professors'' = Inr p"
    and mp: "mergeEntries p (JObj seedProfessors) = Inr p'"
    and gb: "get (put_back (put_back a ''departments'' d') ''professors'' p') ''branches'' = Inr b"
    and mb: "mergeEntries b (JObj seedBranches) = Inr b'"
    unfolding mergeSeed_Inr [OF t] by blast
  from md have dd: "case d of JArray ds ps \<Rightarrow> list_all (\<lambda>d. d \<noteq> JUndefined \<and> d \<noteq> JNull) ds
          | x \<Rightarrow> False"
    using mergeDepartments_returns by blast
  then obtain ds ps where d: "d = JArray ds ps" by (cases d) simp_all
  with gd have ca: "isContainer a"
    using get_array_container plainKey_fields(1) by blast
  from gp have "get a ''professors'' = Inr p"
    by (simp add: get_put_back_other ca plainKey_fields)
  moreover from gb have "get a ''branches'' = Inr b"
    by (simp add: get_put_back_other ca isContainer_put_back plainKey_fields)
  moreover have "isContainer p" using mp by (rule mergeEntries_professors_needs)
  moreover have "isContainer b" using mb by (rule mergeEntries_branches_needs)
  ultimately show "mergeable a"
    using gd dd by (simp add: mergeable_def get_field)
next
  assume m: "mergeable a"
  then obtain ds ps where fd: "field a ''departments'' = JArray ds ps"
    and dd: "list_all (\<lambda>d. d \<noteq> JUndefined \<and> d \<noteq> JNull) ds"
    by (cases "field a ''departments''") (simp_all add: mergeable_def)
  from m have cp: "isContainer (field a ''professors'')"
    and cb: "isContainer (field a ''branches'')"
    by (simp_all add: mergeable_def)
  from fd have gd: "get a ''departments'' = Inr (JArray ds ps)" by (rule field_get)
  then have ca: "isContainer a"
    using get_array_container plainKey_fields(1) by blast
  from dd obtain d' where md: "mergeDepartments (JArray ds ps) (JArr seedDepartments) = Inr d'"
    using mergeDepartments_returns [of "JArray ds ps"] by auto
  from mergeEntries_container_ok [OF cp seedProfessors_plain seedProfessors_distinct]
  obtain p' where mp: "mergeEntries (field a ''professors'') (JObj seedProfessors) = Inr p'"
    by blast
  from mergeEntries_container_ok [OF cb seedBranches_plain seedBranches_distinct]
  obtain b' where mb: "mergeEntries (field a ''branches'') (JObj seedBranches) = Inr b'"
    by blast
  have "\<exists>d d' p p' b b'.
       get a ''departments'' = Inr d
     \<and> mergeDepartments d (JArr seedDepartments) = Inr d'
     \<and> get (put_back a ''departments'' d') ''professors'' = Inr p
     \<and> mergeEntries p (JObj seedProfessors) = Inr p'
     \<and> get (put_back (put_back a ''departments'' d') ''professors'' p') ''branches'' = Inr b
     \<and> mergeEntries b (JObj seedBranches) = Inr b'
     \<and> put_back (put_back (put_back a ''departments'' d') ''professors'' p') ''branches'' b'
       = put_back (put_back (put_back a ''departments'' d') ''professors'' p') ''branches'' b'"
    apply (rule exI [of _ "JArray ds ps"])
    apply (rule exI [of _ d'])
    apply (rule exI [of _ "field a ''professors''"])
    apply (rule exI [of _ p'])
    apply (rule exI [of _ "field a ''branches''"])
    apply (rule exI [of _ b'])
    apply (simp add: gd md mp mb get_put_back_other ca isContainer_put_back plainKey_fields
        field_container_get cp cb)
    done
  then show "\<exists>r. mergeSeed a = Inr r"
    unfolding mergeSeed_Inr [OF t] by blast
qed

lemma mergeSeed_professors_nonempty:
  assumes t: "truthy a" and m: "mergeSeed a = Inr r"
  shows "ownProps (field r ''professors'') \<noteq> []"
proof -
  from m obtain d d' p p' b' where
    gd: "get a ''departments'' = Inr d"
    and md: "mergeDepartments d (JArr seedDepartments) = Inr d'"
    and mp: "mergeEntries p (JObj seedProfessors) = Inr p'"
    and r: "r = put_back (put_back (put_back a ''departments'' d') ''professors'' p')
              ''branches'' b'"
    unfolding mergeSeed_Inr [OF t] by blast
  from md obtain ds ps where "d = JArray ds ps"
    using mergeDepartments_Inr_array by blast
  with gd have ca: "isContainer a"
    using get_array_container plainKey_fields(1) by blast
  have "get r ''professors'' = Inr p'"
    unfolding r
    by (simp add: get_put_back_other get_put_back_same ca isContainer_put_back plainKey_fields)
  then have f: "field r ''professors'' = p'" by (rule get_field)
  have cp: "isContainer p" using mp by (rule mergeEntries_professors_needs)
  from mp have mm: "mergeMissing p (JObj seedProfessors) (map fst seedProfessors) = Inr p'"
    using seedProfessors_distinct by (simp add: mergeEntries_def Object_keys_def)
  have cp': "isContainer p'"
    using mm cp seedProfessors_plain by (rule mergeMissing_result_container)
  from mergeMissing_all_truthy [OF mm seedProfessors_plain
      entries_truthy [OF seedProfessors_objects]]
  obtain v where "get p' ''prof_ece_1'' = Inr v" and "truthy v"
    using seedProfessors_keys by (metis list.set_intros(1))
  with cp' plainKey_prof1 have "ownProps p' \<noteq> []" by (rule container_nonempty)
  with f show ?thesis by simp
qed

lemma chooseBase_truthy: "chooseBase remote c = (status, base) \<Longrightarrow> truthy base"
  by (cases remote)
    (auto simp: chooseBase_def tryServer_def js_or_def thenE_eq_Inr fallbackData_def
      split: sum.splits if_splits)

lemma mergeable_fallbackData: "mergeable fallbackData"
  by (simp add: mergeable_def fallbackData_def field_def orUndefined_def seedDepartments_def)

lemma chooseBase_seed:
  "tryServer remote = Inl e \<Longrightarrow> \<not> truthy (loadLocalData c) \<Longrightarrow>
   chooseBase remote c = (Offline, fallbackData)"
  by (simp add: chooseBase_def js_or_def)

text \<open>
  C2. \<open>loadData\<close> does throw. A payload that has a \<^verbatim>\<open>departments\<close> list and no
  \<^verbatim>\<open>professors\<close> passes the validity test of the \<^verbatim>\<open>try\<close> block and is adopted as the
  base; a cached value \<^verbatim>\<open>{}\<close> is adopted without any test. In both cases the merge block,
  which is outside the \<^verbatim>\<open>try\<close>, reads a property of \<^verbatim>\<open>undefined\<close>, and the error leaves
  \<open>loadData\<close>: no aggregate is set.
\<close>

theorem loadData_throws_on_partial_base:
  "loadData (Inr (JObj [(''departments'', JArr [])])) initial_state
     = Inl (TypeError ''Cannot read properties of undefined'')
   \<and> loadData (Inl (TypeError ''Failed to fetch'')) (initial_state\<lparr>cache := Stored (JObj [])\<rparr>)
     = Inl (TypeError ''Cannot read properties of undefined'')"
  by (simp add: loadData_def chooseBase_def tryServer_def mergeSeed_def get_fallbackData
      mergeDepartments_def pushMissing_seed mergeEntries_def Object_keys_def seedProfessors_def
      orUndefined_def initial_state_def js_or_def)

lemma mergeMissing_fields:
  assumes "mergeMissing cur fb keys = Inr r" and "list_all plainKey keys"
  shows "field r k =
     (if k \<in> set keys \<and> \<not> truthy (field cur k) then field fb k else field cur k)"
  using assms
proof (induction keys arbitrary: cur)
  case Nil
  then show ?case by simp
next
  case (Cons key keys)
  from Cons.prems(1) obtain c where c: "get cur key = Inr c"
    by (cases "get cur key") simp_all
  then have fc: "field cur key = c" by (simp add: field_def)
  from Cons.prems(2) have pk: "plainKey key" and pks: "list_all plainKey keys" by simp_all
  show ?case
  proof (cases "truthy c")
    case True
    with Cons.prems(1) c have rest: "mergeMissing cur fb keys = Inr r" by simp
    from Cons.IH [OF rest pks] True fc show ?thesis by auto
  next
    case False
    with Cons.prems(1) c obtain fv cur' where fv: "get fb key = Inr fv"
      and cur': "assign cur key fv = Inr cur'"
      and rest: "mergeMissing cur' fb keys = Inr r"
      by (auto simp: thenE_eq_Inr)
    from fv have ff: "field fb key = fv" by (simp add: field_def)
    from get_assign_same [OF pk cur'] have same: "field cur' key = fv" by (simp add: field_def)
    have other: "\<And>k'. k' \<noteq> key \<Longrightarrow> field cur' k' = field cur k'"
      using get_assign_other [OF pk _ cur'] by (simp add: field_def)
    from Cons.IH [OF rest pks] have ih: "field r k =
       (if k \<in> set keys \<and> \<not> truthy (field cur' k) then field fb k else field cur' k)" .
    show ?thesis
    proof (cases "k = key")
      case True
      with ih same ff False fc show ?thesis by auto
    next
      case ne: False
      with ih other [OF ne] show ?thesis by auto
    qed
  qed
qed

lemma mapE_get_fields:
  "mapE (\<lambda>d. get d k) xs = Inr ys \<Longrightarrow> ys = map (\<lambda>d. field d k) xs"
proof (induction xs arbitrary: ys)
  case Nil
  then show ?case by simp
next
  case (Cons x xs)
  then show ?case by (auto simp: thenE_eq_Inr field_def)
qed

lemma mergeEntries_fields:
  assumes "mergeEntries p (JObj kvs) = Inr p'" and "distinct (map fst kvs)"
    and "list_all plainKey (map fst kvs)"
  shows "field p' k =
     (if k \<in> set (map fst kvs) \<and> \<not> truthy (field p k) then orUndefined (map_of kvs k)
      else field p k)"
proof -
  from assms(1,2) have "mergeMissing p (JObj kvs) (map fst kvs) = Inr p'"
    by (simp add: mergeEntries_def Object_keys_def)
  from mergeMissing_fields [OF this assms(3), of k] show ?thesis
    by (simp add: field_def)
qed

lemma mergeSeed_result:
  assumes t: "truthy a" and m: "mergeSeed a = Inr r"
  shows "\<exists>ds ps. field a ''departments'' = JArray ds ps
     \<and> field r ''departments'' =
         JArray (ds @ filter (\<lambda>d. field d ''id'' \<notin> set (map (\<lambda>d. field d ''id'') ds))
                        seedDepartments) ps
     \<and> (\<forall>k. field (field r ''professors'') k =
           (if k \<in> set (map fst seedProfessors) \<and> \<not> truthy (field (field a ''professors'') k)
            then orUndefined (map_of seedProfessors k)
            else field (field a ''professors'') k))
     \<and> (\<forall>k. field (field r ''branches'') k =
           (if k \<in> set (map fst seedBranches) \<and> \<not> truthy (field (field a ''branches'') k)
            then orUndefined (map_of seedBranches k)
            else field (field a ''branches'') k))"
proof -
  from m obtain d d' p p' b b' where
    gd: "get a ''departments'' = Inr d"
    and md: "mergeDepartments d (JArr seedDepartments) = Inr d'"
    and gp: "get (put_back a ''departments'' d') ''professors'' = Inr p"
    and mp: "mergeEntries p (JObj seedProfessors) = Inr p'"
    and gb: "get (put_back (put_back a ''departments'' d') ''professors'' p') ''branches'' = Inr b"
    and mb: "mergeEntries b (JObj seedBranches) = Inr b'"
    and r: "r = put_back (put_back (put_back a ''departments'' d') ''professors'' p')
              ''branches'' b'"
    unfolding mergeSeed_Inr [OF t] by blast
  from md obtain ds ps where d: "d = JArray ds ps"
    using mergeDepartments_Inr_array by blast
  from md obtain ids where ids: "mapE (\<lambda>d. get d ''id'') ds = Inr ids"
    and d': "d' = JArray (if JStr ''dept_ece'' \<in> set ids then ds else ds @ seedDepartments) ps"
    unfolding d mergeDepartments_seed thenE_eq_Inr by auto
  from ids have "ids = map (\<lambda>d. field d ''id'') ds" by (rule mapE_get_fields)
  with d' have d'': "d' = JArray (ds @ filter (\<lambda>d. field d ''id'' \<notin>
      set (map (\<lambda>d. field d ''id'') ds)) seedDepartments) ps"
    by (simp only: filter_seedDepartments) simp
  from gd d have ca: "isContainer a"
    using get_array_container plainKey_fields(1) by blast
  from gp have pa: "field a ''professors'' = p"
    by (simp add: get_put_back_other ca plainKey_fields get_field)
  from gb have ba: "field a ''branches'' = b"
    by (simp add: get_put_back_other ca isContainer_put_back plainKey_fields get_field)
  have rd: "field r ''departments'' = d'"
    unfolding r
    by (rule get_field)
      (simp add: get_put_back_other get_put_back_same ca isContainer_put_back plainKey_fields)
  have rp: "field r ''professors'' = p'"
    unfolding r
    by (rule get_field)
      (simp add: get_put_back_other get_put_back_same ca isContainer_put_back plainKey_fields)
  have rb: "field r ''branches'' = b'"
    unfolding r
    by (rule get_field)
      (simp add: get_put_back_other get_put_back_same ca isContainer_put_back plainKey_fields)
  from gd d have ad: "field a ''departments'' = JArray ds ps" by (simp add: get_field)
  note ep = mergeEntries_fields [OF mp seedProfessors_distinct seedProfessors_plain]
  note eb = mergeEntries_fields [OF mb seedBranches_distinct seedBranches_plain]
  show ?thesis
    apply (rule exI [of _ ds])
    apply (rule exI [of _ ps])
    apply (simp only: ad rd rp rb pa ba d'' ep eb)
    apply simp
    done
qed


text \<open>
  C1, amended. The base that \<open>loadData\<close> chose is the server payload, the cached value
  or the seed. Whichever it is, \<open>loadData\<close> returns when the base has a department list without \<^verbatim>\<open>null\<close> and
  professors and branches that can take a property; and whenever it returns, in the data
  it sets: the departments are those of the base, in place and unchanged, followed by the
  seed departments whose identifier no department of the base has; under every
  identifier of a seed professor or seed branch for which the base holds nothing or a
  falsy value there is the entry of the seed, value for value; under every other
  identifier there is what the base holds, unchanged.
\<close>

theorem loadData_first_writer_wins:
  assumes "chooseBase remote (cache st) = (status, base)"
  shows "((status = Connected \<and> remote = Inr base)
          \<or> (status = Offline \<and> (base = loadLocalData (cache st) \<or> base = fallbackData)))
     \<and> (mergeable base \<longrightarrow> (\<exists>st'. loadData remote st = Inr st'))
     \<and> (\<forall>st'. loadData remote st = Inr st' \<longrightarrow>
          (\<exists>ds ps. field base ''departments'' = JArray ds ps
             \<and> field (data st') ''departments'' =
                 JArray (ds @ filter (\<lambda>d. field d ''id'' \<notin> set (map (\<lambda>d. field d ''id'') ds))
                                seedDepartments) ps)
          \<and> (\<forall>k. field (field (data st') ''professors'') k =
                (if k \<in> set (map fst seedProfessors)
                    \<and> \<not> truthy (field (field base ''professors'') k)
                 then orUndefined (map_of seedProfessors k)
                 else field (field base ''professors'') k))
          \<and> (\<forall>k. field (field (data st') ''branches'') k =
                (if k \<in> set (map fst seedBranches)
                    \<and> \<not> truthy (field (field base ''branches'') k)
                 then orUndefined (map_of seedBranches k)
                 else field (field base ''branches'') k)))"
proof (intro conjI allI impI)
  from assms show "(status = Connected \<and> remote = Inr base)
          \<or> (status = Offline \<and> (base = loadLocalData (cache st) \<or> base = fallbackData))"
    by (cases remote)
      (auto simp: chooseBase_def tryServer_def js_or_def thenE_eq_Inr
        split: sum.splits if_splits)
next
  from assms have t: "truthy base" by (rule chooseBase_truthy)
  have l: "loadData remote st =
      thenE (mergeSeed base) (\<lambda>merged.
        Inr (st\<lparr>data := merged, apiStatus := status, loading := False\<rparr>))"
    using assms by (simp add: loadData_def)
  {
    assume "mergeable base"
    then obtain r where "mergeSeed base = Inr r"
      using mergeSeed_returns_iff [OF t] by blast
    then show "\<exists>st'. loadData remote st = Inr st'" unfolding l by simp
  }
  fix st'
  assume "loadData remote st = Inr st'"
  then obtain r where r: "mergeSeed base = Inr r" and d: "data st' = r"
    unfolding l by (auto simp: thenE_eq_Inr)
  note res = mergeSeed_result [OF t r, folded d]
  from res show "\<exists>ds ps. field base ''departments'' = JArray ds ps
             \<and> field (data st') ''departments'' =
                 JArray (ds @ filter (\<lambda>d. field d ''id'' \<notin> set (map (\<lambda>d. field d ''id'') ds))
                                seedDepartments) ps"
    by blast
  fix k
  from res show "field (field (data st') ''professors'') k =
                (if k \<in> set (map fst seedProfessors)
                    \<and> \<not> truthy (field (field base ''professors'') k)
                 then orUndefined (map_of seedProfessors k)
                 else field (field base ''professors'') k)"
    by blast
  from res show "field (field (data st') ''branches'') k =
                (if k \<in> set (map fst seedBranches)
                    \<and> \<not> truthy (field (field base ''branches'') k)
                 then orUndefined (map_of seedBranches k)
                 else field (field base ''branches'') k)"
    by blast
qed

lemma mergeable_example_payload: "mergeable example_payload"
  by (simp add: mergeable_def example_payload_def field_def orUndefined_def)

theorem loadData_first_writer_wins_witness:
  "chooseBase (Inr example_payload) (cache initial_state) = (Connected, example_payload)
   \<and> mergeable example_payload
   \<and> (\<exists>st'. loadData (Inr example_payload) initial_state = Inr st'
        \<and> departments_of (data st') = departments_of example_payload @ seedDepartments
        \<and> field (field (data st') ''professors'') ''prof_ece_1''
            = JObj [(''id'', JStr ''prof_ece_1''), (''name'', JStr ''Remote'')]
        \<and> field (field (data st') ''professors'') ''prof_ece_2'' = prof_ece_2
        \<and> field (field (data st') ''branches'') ''branch_ece''
            = orUndefined (map_of seedBranches ''branch_ece''))"
proof -
  note w = loadData_first_writer_wins [OF chooseBase_example_payload]
  from w mergeable_example_payload
  obtain st' where l: "loadData (Inr example_payload) initial_state = Inr st'" by blast
  from w l obtain ds ps where
    b: "field example_payload ''departments'' = JArray ds ps"
    and d: "field (data st') ''departments'' =
         JArray (ds @ filter (\<lambda>d. field d ''id'' \<notin> set (map (\<lambda>d. field d ''id'') ds))
                        seedDepartments) ps"
    by blast
  from w l have
    p: "\<forall>k. field (field (data st') ''professors'') k =
                (if k \<in> set (map fst seedProfessors)
                    \<and> \<not> truthy (field (field example_payload ''professors'') k)
                 then orUndefined (map_of seedProfessors k)
                 else field (field example_payload ''professors'') k)"
    and r: "\<forall>k. field (field (data st') ''branches'') k =
                (if k \<in> set (map fst seedBranches)
                    \<and> \<not> truthy (field (field example_payload ''branches'') k)
                 then orUndefined (map_of seedBranches k)
                 else field (field example_payload ''branches'') k)"
    by blast+
  from b have ds: "ds = departments_of example_payload" by (simp add: departments_of_def)
  have d': "departments_of (data st') = departments_of example_payload @ seedDepartments"
    unfolding departments_of_def [of "data st'"] d ds
    by (simp add: departments_of_def example_payload_def field_def orUndefined_def
        seedDepartments_def)
  have p1: "field (field (data st') ''professors'') ''prof_ece_1''
            = JObj [(''id'', JStr ''prof_ece_1''), (''name'', JStr ''Remote'')]"
    using p by (simp add: example_payload_def field_def orUndefined_def)
  have p2: "field (field (data st') ''professors'') ''prof_ece_2'' = prof_ece_2"
    using p by (simp add: example_payload_def field_def orUndefined_def seedProfessors_def)
  have b1: "field (field (data st') ''branches'') ''branch_ece''
            = orUndefined (map_of seedBranches ''branch_ece'')"
    using r by (simp add: example_payload_def field_def orUndefined_def seedBranches_def)
  from l d' p1 p2 b1 chooseBase_example_payload mergeable_example_payload
  show ?thesis by blast
qed

lemma chooseBase_null_professor:
  "chooseBase (Inr payload_null_professor) (cache initial_state)
     = (Connected, payload_null_professor)"
  by (simp add: chooseBase_def tryServer_def payload_null_professor_def orUndefined_def)

text \<open>
  C1 as stated fails for an identifier that the base has with a falsy entry: the test of
  the merge is \<^verbatim>\<open>!currentProfs[key]\<close>, and the entry of the seed replaces \<^verbatim>\<open>null\<close>.
\<close>

theorem loadData_replaces_falsy_entry:
  "chooseBase (Inr payload_null_professor) (cache initial_state)
     = (Connected, payload_null_professor)
   \<and> entry payload_null_professor ''professors'' ''prof_ece_1'' = Some JNull
   \<and> entry_after (loadData (Inr payload_null_professor) initial_state)
        ''professors'' ''prof_ece_1'' = Some prof_ece_1"
  by code_simp

section \<open>Properties of the mutation path\<close>

lemma showToast_simps [simp]:
  "data (showToast m st) = data st" "cache (showToast m st) = cache st"
  "toasts (showToast m st) = toasts st @ [m]" "apiStatus (showToast m st) = apiStatus st"
  "storage_ok (showToast m st) = storage_ok st"
  by (simp_all add: showToast_def)

lemma addRequest_example:
  "addRequest asciiLower 1700 form_new_branch example_data =
     Inr (Some (JObj [(''id'', JStr ''p1''), (''name'', JStr ''Ada L''),
                      (''branch'', JStr ''branch_1700''),
                      (''departmentId'', JStr ''dept_ece''),
                      (''departmentName'',
                         JStr ''Electronics & Electrical Communication Engineering'')]))"
  by code_simp

text \<open>
  C4. When the call of the Remote Store fails in Add Professor, in Remove Professor or in
  Remove Department (for the latter the delete or the refetch that follows it), the
  handler returns with the aggregate it started from, the cache as it was, and one more
  notice, the failure notice of that handler. Nothing is inserted or deleted locally.
\<close>

theorem remote_failure_leaves_data:
  "(truthy (data st) \<and> addRequest toLowerCase now profFormData (data st) = Inr (Some profPayload)
      \<and> updateProfessor profPayload = Inl e \<longrightarrow>
      (\<exists>st'. handleAddProfessor toLowerCase updateProfessor now profFormData st = Inr st'
         \<and> data st' = data st \<and> cache st' = cache st
         \<and> toasts st' = toasts st @ [''Failed to save professor.'']))
   \<and> (confirmed \<and> deleteProfessor profId = Inl e \<longrightarrow>
      (\<exists>st'. handleRemoveProfessor deleteProfessor confirmed profId st = Inr st'
         \<and> data st' = data st \<and> cache st' = cache st
         \<and> toasts st' = toasts st @ [''Error removing professor.'']))
   \<and> (confirmed \<and> (deleteDepartment deptId = Inl e
                    \<or> (\<exists>ok. deleteDepartment deptId = Inr ok) \<and> fetchMockData = Inl e) \<longrightarrow>
      (\<exists>st'. handleRemoveDepartment deleteDepartment fetchMockData confirmed deptId st = Inr st'
         \<and> data st' = data st \<and> cache st' = cache st
         \<and> toasts st' = toasts st @ [''Error removing department.'']))"
  by (auto simp: handleAddProfessor_def handleRemoveProfessor_def handleRemoveDepartment_def)

theorem remote_failure_leaves_data_witness:
  "truthy (data example_state)
   \<and> addRequest asciiLower 1700 form_new_branch (data example_state)
       = Inr (Some (JObj [(''id'', JStr ''p1''), (''name'', JStr ''Ada L''),
                      (''branch'', JStr ''branch_1700''),
                      (''departmentId'', JStr ''dept_ece''),
                      (''departmentName'',
                         JStr ''Electronics & Electrical Communication Engineering'')]))
   \<and> (\<exists>st'. handleAddProfessor asciiLower server_down 1700 form_new_branch example_state = Inr st'
         \<and> data st' = example_data
         \<and> toasts st' = [''Failed to save professor.''])
   \<and> (\<exists>st'. handleRemoveProfessor server_down True (JStr ''p1'') example_state = Inr st'
         \<and> data st' = example_data
         \<and> toasts st' = [''Error removing professor.''])
   \<and> (\<exists>st'. handleRemoveDepartment server_down (Inr example_data) True (JStr ''dept_ece'')
                example_state = Inr st'
         \<and> data st' = example_data
         \<and> toasts st' = [''Error removing department.''])"
proof -
  have d: "data example_state = example_data" and t: "toasts example_state = []"
    by (simp_all add: example_state_def initial_state_def)
  have tr: "truthy example_data" by (simp add: example_data_def)
  let ?p = "JObj [(''id'', JStr ''p1''), (''name'', JStr ''Ada L''),
                      (''branch'', JStr ''branch_1700''),
                      (''departmentId'', JStr ''dept_ece''),
                      (''departmentName'',
                         JStr ''Electronics & Electrical Communication Engineering'')]"
  have a: "addRequest asciiLower 1700 form_new_branch (data example_state) = Inr (Some ?p)"
    using addRequest_example by (simp add: d)
  have s: "\<And>x. server_down x = Inl (TypeError ''Failed to fetch'')"
    by (simp add: server_down_def)
  from remote_failure_leaves_data
    [where toLowerCase = asciiLower and st = example_state and now = 1700 and profFormData = form_new_branch
       and profPayload = ?p and updateProfessor = server_down
       and e = "TypeError ''Failed to fetch''" and confirmed = True
       and deleteProfessor = server_down and profId = "JStr ''p1''"
       and deleteDepartment = server_down and deptId = "JStr ''dept_ece''"
       and fetchMockData = "Inr example_data"]
  have "(\<exists>st'. handleAddProfessor asciiLower server_down 1700 form_new_branch example_state = Inr st'
         \<and> data st' = data example_state \<and> cache st' = cache example_state
         \<and> toasts st' = toasts example_state @ [''Failed to save professor.''])
   \<and> (\<exists>st'. handleRemoveProfessor server_down True (JStr ''p1'') example_state = Inr st'
         \<and> data st' = data example_state \<and> cache st' = cache example_state
         \<and> toasts st' = toasts example_state @ [''Error removing professor.''])
   \<and> (\<exists>st'. handleRemoveDepartment server_down (Inr example_data) True (JStr ''dept_ece'')
                example_state = Inr st'
         \<and> data st' = data example_state \<and> cache st' = cache example_state
         \<and> toasts st' = toasts example_state @ [''Error removing department.''])"
    using a s tr d by simp
  then show ?thesis using a tr d t by auto
qed

lemma saveLocalData_simps [simp]:
  "data (saveLocalData d st) = data st" "storage_ok (saveLocalData d st) = storage_ok st"
  "apiStatus (saveLocalData d st) = apiStatus st" "toasts (saveLocalData d st) = toasts st"
  "cache (saveLocalData d st) = (if storage_ok st then Stored d else cache st)"
  by (simp_all add: saveLocalData_def)

lemma handleDataUpdate_pure:
  assumes "handleDataUpdate (pure_updater f) st = Inr st'" and "truthy (data st)"
  shows "\<exists>d'. f (data st) = Inr d' \<and> st' = (saveLocalData d' st)\<lparr>data := d'\<rparr>"
  using assms by (auto simp: handleDataUpdate_def pure_updater_def thenE_eq_Inr)











lemma map_of_foldl_update:
  "map_of (foldl (\<lambda>acc (k, v). AList.update k v acc) acc kvs) k =
     (case map_of (rev kvs) k of Some v \<Rightarrow> Some v | None \<Rightarrow> map_of acc k)"
proof (induction kvs arbitrary: acc)
  case Nil
  show ?case by simp
next
  case (Cons kv kvs)
  obtain a b where kv: "kv = (a, b)" by (cases kv)
  show ?case
    unfolding kv using Cons.IH [of "AList.update a b acc"]
    by (auto simp: update_conv' map_add_def split: option.splits)
qed

lemma map_of_obj_of: "map_of (obj_of kvs) k = map_of (rev kvs) k"
  unfolding obj_of_def using map_of_foldl_update [of "[]" kvs k]
  by (simp split: option.splits)

lemma distinct_map_of_rev:
  assumes "distinct (map fst xs)"
  shows "map_of (rev xs) k = map_of xs k"
proof (cases "map_of xs k")
  case None
  then have "k \<notin> fst ` set xs" by (simp add: map_of_eq_None_iff)
  then have "map_of (rev xs) k = None" by (simp add: map_of_eq_None_iff)
  with None show ?thesis by simp
next
  case (Some v)
  then have "(k, v) \<in> set (rev xs)" by (auto dest: map_of_SomeD)
  moreover have "distinct (map fst (rev xs))" using assms by (simp add: rev_map [symmetric])
  ultimately have "map_of (rev xs) k = Some v" by simp
  with Some show ?thesis by simp
qed

lemma map_of_spread:
  "map_of (obj_of (AList.clearjunk kvs @ ps)) k =
     (case map_of (rev ps) k of Some v \<Rightarrow> Some v | None \<Rightarrow> map_of kvs k)"
proof -
  have "map_of (rev (AList.clearjunk kvs)) k = map_of kvs k"
    using distinct_map_of_rev [of "AList.clearjunk kvs" k]
    by (simp add: map_of_clearjunk)
  then show ?thesis
    by (simp add: map_of_obj_of map_add_def split: option.splits)
qed

lemma field_JObj: "field (JObj kvs) k = orUndefined (map_of kvs k)"
  by (simp add: field_def)

lemma field_spread:
  "field (JObj (obj_of (AList.clearjunk kvs @ ps))) k =
     (case map_of (rev ps) k of Some v \<Rightarrow> v | None \<Rightarrow> orUndefined (map_of kvs k))"
  by (simp add: field_JObj map_of_spread orUndefined_def split: option.splits)

lemma field_copy: "field (JObj (obj_of (AList.clearjunk kvs))) k = orUndefined (map_of kvs k)"
  using field_spread [of kvs "[]" k] by simp

lemma mapE_total: "(\<And>x. x \<in> set xs \<Longrightarrow> f x = Inr (g x)) \<Longrightarrow> mapE f xs = Inr (map g xs)"
  by (induction xs) simp_all

lemma findE_total:
  "(\<And>x. x \<in> set xs \<Longrightarrow> p x = Inr (q x)) \<Longrightarrow> findE p xs = Inr (List.find q xs)"
  by (induction xs) simp_all

lemma find_SomeD: "List.find q xs = Some x \<Longrightarrow> x \<in> set xs \<and> q x"
  by (induction xs) (auto split: if_splits)

lemma get_truthy: "truthy x \<Longrightarrow> get x k = Inr (field x k)"
  by (cases x) (simp_all add: field_def)

lemma isDepartment_fields:
  assumes "isDepartment d"
  obtains i n xs ps where "field d ''id'' = JStr i" and "field d ''name'' = JStr n"
    and "field d ''branches'' = JArray xs ps" and "list_all isString xs" and "isObject d"
proof -
  from assms obtain i where i: "field d ''id'' = JStr i"
    by (cases "field d ''id''") (simp_all add: isDepartment_def)
  from assms obtain n where n: "field d ''name'' = JStr n"
    by (cases "field d ''name''") (simp_all add: isDepartment_def)
  from assms obtain xs ps where b: "field d ''branches'' = JArray xs ps"
    and s: "list_all isString xs"
    by (cases "field d ''branches''") (simp_all add: isDepartment_def)
  from assms have "isObject d" by (simp add: isDepartment_def)
  with i n b s that show thesis by blast
qed

lemma isAppData_fields:
  assumes "isAppData a"
  obtains akvs ds ps bk pk where "a = JObj akvs"
    and "field a ''departments'' = JArray ds ps" and "list_all isDepartment ds"
    and "field a ''branches'' = JObj bk" and "list_all (\<lambda>kv. isBranch (snd kv)) bk"
    and "field a ''professors'' = JObj pk" and "list_all (\<lambda>kv. isObject (snd kv)) pk"
proof -
  from assms obtain akvs ds ps bk pk where a: "a = JObj akvs"
    and d: "map_of akvs ''departments'' = Some (JArray ds ps)" and dd: "list_all isDepartment ds"
    and b: "map_of akvs ''branches'' = Some (JObj bk)"
    and bb: "list_all (\<lambda>kv. isBranch (snd kv)) bk"
    and p: "map_of akvs ''professors'' = Some (JObj pk)"
    and pp: "list_all (\<lambda>kv. isObject (snd kv)) pk"
    by (rule isAppData_shape)
  from a d b p have "field a ''departments'' = JArray ds ps" "field a ''branches'' = JObj bk"
    "field a ''professors'' = JObj pk"
    by (simp_all add: field_JObj orUndefined_def)
  with a dd bb pp that show thesis by blast
qed

lemma findDepartment_AppData:
  assumes "isAppData d"
  shows "findDepartment d departmentId =
     Inr (orUndefined (List.find (\<lambda>x. strict_eq (field x ''id'') departmentId)
            (departments_of d)))"
proof -
  from assms obtain akvs ds ps where a: "d = JObj akvs"
    and f: "field d ''departments'' = JArray ds ps" and dd: "list_all isDepartment ds"
    by (rule isAppData_fields)
  have g: "get d ''departments'' = Inr (JArray ds ps)"
    using a f by (simp add: field_JObj)
  have "findE (\<lambda>x. thenE (get x ''id'') (\<lambda>i. Inr (strict_eq i departmentId))) ds
      = Inr (List.find (\<lambda>x. strict_eq (field x ''id'') departmentId) ds)"
  proof (rule findE_total)
    fix x assume "x \<in> set ds"
    with dd have "isObject x" by (auto simp: list_all_iff isDepartment_def)
    then show "thenE (get x ''id'') (\<lambda>i. Inr (strict_eq i departmentId))
        = Inr (strict_eq (field x ''id'') departmentId)"
      by (simp add: get_isObject)
  qed
  then show ?thesis
    by (simp add: findDepartment_def g departments_of_def f)
qed

lemma found_department:
  assumes "isAppData d" and "findDepartment d departmentId = Inr department"
    and "truthy department"
  shows "isDepartment department \<and> department \<in> set (departments_of d)
     \<and> strict_eq (field department ''id'') departmentId"
proof -
  from assms(1) obtain ds ps where f: "field d ''departments'' = JArray ds ps"
    and dd: "list_all isDepartment ds"
    by (rule isAppData_fields)
  from assms have "orUndefined (List.find (\<lambda>x. strict_eq (field x ''id'') departmentId)
            (departments_of d)) = department"
    by (simp add: findDepartment_AppData)
  with assms(3) obtain x where
    "List.find (\<lambda>x. strict_eq (field x ''id'') departmentId) (departments_of d) = Some x"
    and "x = department"
    by (cases "List.find (\<lambda>x. strict_eq (field x ''id'') departmentId) (departments_of d)")
      (auto simp: orUndefined_def)
  then have "department \<in> set (departments_of d)
      \<and> strict_eq (field department ''id'') departmentId"
    using find_SomeD by fastforce
  moreover from this dd f have "isDepartment department"
    by (auto simp: departments_of_def list_all_iff)
  ultimately show ?thesis by simp
qed

lemma isString_js_String: "isString x \<Longrightarrow> x = JStr (js_String x)"
  by (cases x) simp_all

lemma departmentBranches_AppData:
  assumes "isAppData d" and "isDepartment department"
  shows "departmentBranches d department = Inr (branchesOf d department)"
proof -
  from assms(1) obtain akvs bk where a: "d = JObj akvs" and b: "field d ''branches'' = JObj bk"
    by (rule isAppData_fields)
  from assms(2) obtain xs ps where x: "field department ''branches'' = JArray xs ps"
    and o: "isObject department"
    by (rule isDepartment_fields)
  have gb: "get d ''branches'' = Inr (JObj bk)" using a b by (simp add: field_JObj)
  have "mapE (\<lambda>bId. thenE (get d ''branches'') (\<lambda>bs. get bs (js_String bId))) xs
      = Inr (map (\<lambda>bId. field (field d ''branches'') (js_String bId)) xs)"
    by (rule mapE_total) (simp add: gb b field_JObj)
  then show ?thesis
    using o x by (simp add: departmentBranches_def get_isObject branchesOf_def branch_ids_def)
qed

lemma branchesOf_elements:
  assumes "isAppData d" and "b \<in> set (branchesOf d department)"
  shows "b = JUndefined \<or> isBranch b"
proof -
  from assms(1) obtain bk where f: "field d ''branches'' = JObj bk"
    and bb: "list_all (\<lambda>kv. isBranch (snd kv)) bk"
    by (rule isAppData_fields)
  from assms(2) obtain k where "b = orUndefined (map_of bk k)"
    by (auto simp: branchesOf_def f field_JObj)
  show ?thesis
  proof (cases "map_of bk k")
    case None
    with \<open>b = orUndefined (map_of bk k)\<close> show ?thesis by (simp add: orUndefined_def)
  next
    case (Some v)
    then have "(k, v) \<in> set bk" by (rule map_of_SomeD)
    with bb have "isBranch v" by (auto simp: list_all_iff)
    with Some \<open>b = orUndefined (map_of bk k)\<close> show ?thesis by (simp add: orUndefined_def)
  qed
qed

lemma isBranch_fields:
  assumes "isBranch b"
  obtains i n where "field b ''id'' = JStr i" and "field b ''name'' = JStr n" and "isObject b"
proof -
  from assms obtain i where i: "field b ''id'' = JStr i"
    by (cases "field b ''id''") (simp_all add: isBranch_def)
  from assms obtain n where n: "field b ''name'' = JStr n"
    by (cases "field b ''name''") (simp_all add: isBranch_def)
  from assms have "isObject b" by (simp add: isBranch_def)
  with i n that show thesis by blast
qed

lemma matchesEdit_branch:
  assumes "b = JUndefined \<or> isBranch b"
  shows "matchesEdit toLowerCase (JStr bn) b = Inr (editMatches toLowerCase bn b)"
proof (cases "b = JUndefined")
  case True
  then show ?thesis by (simp add: matchesEdit_def editMatches_def)
next
  case False
  with assms have "isBranch b" by simp
  then obtain i n where i: "field b ''id'' = JStr i" and n: "field b ''name'' = JStr n"
    and o: "isObject b"
    by (rule isBranch_fields)
  from o have t: "truthy b" by (rule isObject_truthy)
  show ?thesis
    using t i n o
    by (simp add: matchesEdit_def editMatches_def nameMatches_def get_isObject js_or_def)
qed

lemma matchesAdd_branch:
  assumes "b = JUndefined \<or> isBranch b"
  shows "matchesAdd toLowerCase (JStr bn) b = Inr (nameMatches toLowerCase bn b)"
proof (cases "b = JUndefined")
  case True
  then show ?thesis by (simp add: matchesAdd_def nameMatches_def field_def)
next
  case False
  with assms have "isBranch b" by simp
  then obtain n where n: "field b ''name'' = JStr n" and o: "isObject b"
    using isBranch_fields by blast
  from o have "b \<noteq> JUndefined \<and> b \<noteq> JNull" by (cases b) simp_all
  then show ?thesis
    using n o by (simp add: matchesAdd_def nameMatches_def get_isObject)
qed

lemma editRequest_SomeD:
  assumes "editRequest toLowerCase now profFormData d = Inr (Some c)"
  shows "destructure profFormData [''branchName'', ''departmentId'', ''id''] = Inr (ec_rest c)
     \<and> findDepartment d (field profFormData ''departmentId'') = Inr (ec_department c)
     \<and> truthy (ec_department c)
     \<and> ec_id c = field profFormData ''id''
     \<and> ec_branchName c = field profFormData ''branchName''
     \<and> (\<exists>bs found. departmentBranches d (ec_department c) = Inr bs
          \<and> findE (matchesEdit toLowerCase (field profFormData ''branchName'')) bs = Inr found
          \<and> ec_isNewBranch c = (\<not> truthy (orUndefined found))
          \<and> branchIdFor (orUndefined found) now = Inr (ec_branchId c))"
  using assms
  by (auto simp: editRequest_def thenE_eq_Inr Let_def split: if_splits)

lemma appendBranch_department:
  assumes "isDepartment x"
  shows "appendBranch (JStr did) bId x =
     Inr (if field x ''id'' = JStr did
          then JObj (obj_of (ownProps x @ [(''branches'', JArr (branch_ids x @ [bId]))]))
          else x)"
proof -
  from assms obtain i xs ps where i: "field x ''id'' = JStr i"
    and b: "field x ''branches'' = JArray xs ps" and o: "isObject x"
    using isDepartment_fields by blast
  show ?thesis
    using i b o by (simp add: appendBranch_def get_isObject branch_ids_def)
qed

lemma registerBranch_old: "registerBranch False bId bn department u = Inr u"
  by (simp add: registerBranch_def)

lemma registerBranch_new:
  assumes wf: "isAppData d" and dep: "field department ''id'' = JStr did"
    and t: "truthy department"
  shows "\<exists>u. registerBranch True bId bn department (JObj (obj_of (ownProps d))) = Inr (JObj u)
     \<and> field (JObj u) ''professors'' = field d ''professors''
     \<and> field (JObj u) ''branches'' =
         JObj (obj_of (ownProps (field d ''branches'') @
           [(js_String bId,
             JObj (obj_of [(''id'', bId), (''name'', bn), (''departmentId'', JStr did)]))]))
     \<and> field (JObj u) ''departments'' =
         JArr (map (\<lambda>x. if field x ''id'' = JStr did
                         then JObj (obj_of (ownProps x @
                                [(''branches'', JArr (branch_ids x @ [bId]))]))
                         else x) (departments_of d))"
proof -
  from wf obtain akvs ds ps bk where a: "d = JObj akvs"
    and fd: "field d ''departments'' = JArray ds ps" and dd: "list_all isDepartment ds"
    and fb: "field d ''branches'' = JObj bk"
    by (rule isAppData_fields)
  let ?g = "\<lambda>x. if field x ''id'' = JStr did
                 then JObj (obj_of (ownProps x @ [(''branches'', JArr (branch_ids x @ [bId]))]))
                 else x"
  let ?nb = "JObj (obj_of [(''id'', bId), (''name'', bn), (''departmentId'', JStr did)])"
  let ?X = "obj_of (ownProps (JObj akvs))"
  let ?b' = "JObj (obj_of (ownProps (JObj bk) @ [(js_String bId, ?nb)]))"
  let ?Y = "obj_of (ownProps (JObj ?X) @ [(''branches'', ?b')])"
  let ?Z = "obj_of (ownProps (JObj ?Y) @ [(''departments'', JArr (map ?g ds))])"
  have gdep: "get department ''id'' = Inr (JStr did)"
    using t dep by (simp add: get_truthy)
  have ma: "\<And>k. orUndefined (map_of akvs k) = field d k"
    using a by (simp add: field_JObj)
  have g0: "get (JObj ?X) ''branches'' = Inr (JObj bk)"
    using fb field_copy [of akvs "''branches''"] by (simp add: field_JObj ma)
  have fY: "\<And>k. field (JObj ?Y) k = (if k = ''branches'' then ?b' else field d k)"
    using field_spread [of ?X "[(''branches'', ?b')]"] field_copy [of akvs]
    by (simp add: field_JObj ma)
  have g1: "get (JObj ?Y) ''departments'' = Inr (JArray ds ps)"
    using fY [of "''departments''"] fd by (simp add: field_JObj)
  have m: "mapE (appendBranch (JStr did) bId) ds = Inr (map ?g ds)"
  proof (rule mapE_total)
    fix x assume "x \<in> set ds"
    with dd have "isDepartment x" by (simp add: list_all_iff)
    then show "appendBranch (JStr did) bId x = Inr (?g x)"
      by (rule appendBranch_department)
  qed
  have r: "registerBranch True bId bn department (JObj (obj_of (ownProps d))) = Inr (JObj ?Z)"
    unfolding registerBranch_def a
    by (simp only: gdep g0 g1 m thenE_Inr Let_def elements.simps
        if_False not_True_eq_False)
  have fZ: "\<And>k. field (JObj ?Z) k =
      (if k = ''departments'' then JArr (map ?g ds) else field (JObj ?Y) k)"
    using field_spread [of ?Y "[(''departments'', JArr (map ?g ds))]"]
    by (simp add: field_JObj)
  have "field (JObj ?Z) ''professors'' = field d ''professors''"
    and "field (JObj ?Z) ''branches'' = ?b'"
    and "field (JObj ?Z) ''departments'' = JArr (map ?g ds)"
    unfolding fZ fY by simp_all
  with r fb fd show ?thesis
    unfolding departments_of_def by (simp del: ownProps.simps)
qed


lemma registerBranch_AppData:
  assumes wf: "isAppData d" and dep: "isDepartment department"
  shows "\<exists>u. registerBranch n bId bn department (JObj (obj_of (ownProps d))) = Inr (JObj u)
     \<and> field (JObj u) ''professors'' = field d ''professors''
     \<and> (\<not> n \<longrightarrow> field (JObj u) ''branches'' = field d ''branches''
              \<and> field (JObj u) ''departments'' = field d ''departments'')
     \<and> (n \<longrightarrow> field (JObj u) ''branches'' =
           JObj (obj_of (ownProps (field d ''branches'') @
             [(js_String bId,
               JObj (obj_of [(''id'', bId), (''name'', bn),
                             (''departmentId'', field department ''id'')]))]))
         \<and> field (JObj u) ''departments'' =
           JArr (map (\<lambda>x. if field x ''id'' = field department ''id''
                           then JObj (obj_of (ownProps x @
                                  [(''branches'', JArr (branch_ids x @ [bId]))]))
                           else x) (departments_of d)))"
proof (cases n)
  case False
  from wf obtain akvs where a: "d = JObj akvs" by (rule isAppData_fields)
  have "\<And>k. field (JObj (obj_of (ownProps d))) k = field d k"
    using a field_copy [of akvs] by (simp add: field_JObj)
  with False show ?thesis by (simp add: registerBranch_old del: ownProps.simps)
next
  case True
  from dep obtain did where did: "field department ''id'' = JStr did"
    and o: "isObject department"
    using isDepartment_fields by blast
  from o have t: "truthy department" by (rule isObject_truthy)
  from registerBranch_new [OF wf did t, of bId bn] True did show ?thesis
    by (simp del: ownProps.simps)
qed

lemma offlineUpdater_AppData:
  assumes wf: "isAppData d" and dep: "isDepartment department"
  shows "\<exists>u u'. registerBranch n bId bn department (JObj (obj_of (ownProps d))) = Inr (JObj u)
     \<and> offlineUpdater n bId bn department rest pid later d st
         = Inr (JObj u', saveLocalData (JObj u') st)
     \<and> field (JObj u') ''professors'' =
         JObj (setOwn (js_String (js_or pid (JStr (''local_'' @ show_nat later))))
           (JObj (obj_of (ownProps rest @
              [(''id'', js_or pid (JStr (''local_'' @ show_nat later))), (''branch'', bId),
               (''departmentId'', field department ''id''),
               (''departmentName'', field department ''name'')])))
           (obj_of (ownProps (field d ''professors''))))
     \<and> field (JObj u') ''branches'' = field (JObj u) ''branches''
     \<and> field (JObj u') ''departments'' = field (JObj u) ''departments''"
proof -
  from registerBranch_AppData [OF wf dep, of n bId bn] obtain u where
    r: "registerBranch n bId bn department (JObj (obj_of (ownProps d))) = Inr (JObj u)"
    and p: "field (JObj u) ''professors'' = field d ''professors''"
    by blast
  from dep have o: "isObject department" by (simp add: isDepartment_def)
  let ?key = "js_or pid (JStr (''local_'' @ show_nat later))"
  let ?profs = "JObj (setOwn (js_String ?key)
           (JObj (obj_of (ownProps rest @
              [(''id'', ?key), (''branch'', bId),
               (''departmentId'', field department ''id''),
               (''departmentName'', field department ''name'')])))
           (obj_of (ownProps (field d ''professors''))))"
  let ?u' = "obj_of (ownProps (JObj u) @ [(''professors'', ?profs)])"
  have gp: "get (JObj u) ''professors'' = Inr (field d ''professors'')"
    using p by (simp add: field_JObj)
  have ou: "offlineUpdater n bId bn department rest pid later d st
         = Inr (JObj ?u', saveLocalData (JObj ?u') st)"
    unfolding offlineUpdater_def
    apply (simp only: r thenE_Inr)
    apply (simp only: gp thenE_Inr)
    apply (simp only: get_isObject [OF o] thenE_Inr)
    apply (simp only: Let_def)
    done
  have fu: "\<And>k. field (JObj ?u') k =
      (if k = ''professors'' then ?profs else field (JObj u) k)"
    unfolding ownProps.simps field_spread by (simp add: field_JObj)
  have f1: "field (JObj ?u') ''professors'' = ?profs"
    and f2: "field (JObj ?u') ''branches'' = field (JObj u) ''branches''"
    and f3: "field (JObj ?u') ''departments'' = field (JObj u) ''departments''"
    unfolding fu by simp_all
  from r ou f1 f2 f3 show ?thesis by blast
qed

lemma isAppData_truthy: "isAppData a \<Longrightarrow> truthy a"
  by (cases a) (simp_all add: isAppData_def)



lemma editUpdater_AppData:
  assumes "editUpdater n bId bn department savedProf pid d = Inr d'"
  shows "\<exists>u. registerBranch n bId bn department (JObj (obj_of (ownProps d))) = Inr u
     \<and> (isObject u \<longrightarrow> field d' ''branches'' = field u ''branches''
                       \<and> field d' ''departments'' = field u ''departments'')"
proof -
  from assms obtain u profs where
    r: "registerBranch n bId bn department (JObj (obj_of (ownProps d))) = Inr u"
    and d': "d' = JObj (obj_of (ownProps u @ [(''professors'', profs)]))"
    by (auto simp: editUpdater_def thenE_eq_Inr Let_def)
  have "isObject u \<longrightarrow> field d' ''branches'' = field u ''branches''
                       \<and> field d' ''departments'' = field u ''departments''"
  proof
    assume "isObject u"
    then obtain uk where "u = JObj uk" by (cases u) simp_all
    then show "field d' ''branches'' = field u ''branches''
        \<and> field d' ''departments'' = field u ''departments''"
      unfolding d' by (simp add: field_JObj map_of_spread)
  qed
  with r show ?thesis by blast
qed

lemma handleEdit_data:
  assumes wf: "isAppData (data st)"
    and rq: "editRequest toLowerCase now profFormData (data st) = Inr (Some c)"
    and h: "handleEditProfessor toLowerCase updateProfessor now later profFormData st = Inr st'"
  shows "\<exists>u. registerBranch (ec_isNewBranch c) (ec_branchId c) (ec_branchName c)
            (ec_department c) (JObj (obj_of (ownProps (data st)))) = Inr (JObj u)
     \<and> field (data st') ''branches'' = field (JObj u) ''branches''
     \<and> field (data st') ''departments'' = field (JObj u) ''departments''"
proof -
  from wf have t: "truthy (data st)" by (rule isAppData_truthy)
  from editRequest_SomeD [OF rq] have
    fd: "findDepartment (data st) (field profFormData ''departmentId'')
        = Inr (ec_department c)"
    and td: "truthy (ec_department c)"
    by simp_all
  from found_department [OF wf fd td] have dep: "isDepartment (ec_department c)" by simp
  from registerBranch_AppData [OF wf dep, of "ec_isNewBranch c" "ec_branchId c" "ec_branchName c"]
  obtain u where r: "registerBranch (ec_isNewBranch c) (ec_branchId c) (ec_branchName c)
            (ec_department c) (JObj (obj_of (ownProps (data st)))) = Inr (JObj u)"
    by blast
  show ?thesis
  proof (cases "updateProfessor (ec_payload c)")
    case (Inr savedProf)
    with t rq h obtain st1 where "handleDataUpdate (pure_updater
        (editUpdater (ec_isNewBranch c) (ec_branchId c) (ec_branchName c)
           (ec_department c) savedProf (ec_id c))) st = Inr st1"
      and s: "st' = (showToast ''Professor updated.'' st1)
                   \<lparr>activeModal := None, editingProfessor := JNull\<rparr>"
      by (auto simp: handleEditProfessor_def thenE_eq_Inr)
    with t obtain d' where e: "editUpdater (ec_isNewBranch c) (ec_branchId c) (ec_branchName c)
           (ec_department c) savedProf (ec_id c) (data st) = Inr d'"
      and "st1 = (saveLocalData d' st)\<lparr>data := d'\<rparr>"
      using handleDataUpdate_pure by blast
    with s have ds: "data st' = d'" by simp
    from editUpdater_AppData [OF e] r show ?thesis
      unfolding ds by auto
  next
    case (Inl err)
    let ?st1 = "st\<lparr>apiStatus := Offline\<rparr>"
    from offlineUpdater_AppData [OF wf dep, of "ec_isNewBranch c" "ec_branchId c"
      "ec_branchName c" "ec_rest c" "ec_id c" later ?st1] r
    obtain u' where
      ou: "offlineUpdater (ec_isNewBranch c) (ec_branchId c) (ec_branchName c) (ec_department c)
           (ec_rest c) (ec_id c) later (data st) ?st1
         = Inr (JObj u', saveLocalData (JObj u') ?st1)"
      and fb: "field (JObj u') ''branches'' = field (JObj u) ''branches''"
      and fdp: "field (JObj u') ''departments'' = field (JObj u) ''departments''"
      by auto
    have "handleDataUpdate
      (offlineUpdater (ec_isNewBranch c) (ec_branchId c) (ec_branchName c) (ec_department c)
           (ec_rest c) (ec_id c) later) ?st1
        = Inr ((saveLocalData (JObj u') (saveLocalData (JObj u') ?st1))\<lparr>data := JObj u'\<rparr>)"
      using t ou by (simp add: handleDataUpdate_def)
    with t rq h Inl have "data st' = JObj u'"
      by (auto simp: handleEditProfessor_def)
    with r fb fdp show ?thesis by simp
  qed
qed

lemma example_state_simps:
  "data example_state = example_data" "cache example_state = Absent"
  "storage_ok example_state = True" "toasts example_state = []"
  by (simp_all add: example_state_def initial_state_def)

lemma isAppData_example_data: "isAppData example_data"
  by (simp add: isAppData_def example_data_def field_def orUndefined_def seedDepartments_def
      seedBranches_def isDepartment_def isBranch_def)

lemma Inr_of_not_isl: "\<not> isl r \<Longrightarrow> \<exists>x. r = Inr x"
  by (cases r) simp_all



lemma ownBranchKeys_example: "ownBranchKeys example_data (hd seedDepartments)"
  by code_simp



text \<open>
  With \<^verbatim>\<open>__proto__\<close> as the identifier of the form, the assignment in the same updater
  adds no entry to the professor map.
\<close>

lemma edit_offline_proto_identifier:
  "data_after (handleEditProfessor asciiLower server_down 1700 1701
       (JObj [(''id'', JStr ''__proto__''), (''name'', JStr ''Ada L''),
              (''branchName'', JStr ''ece''), (''departmentId'', JStr ''dept_ece'')])
       example_state)
     = Some (JObj [(''departments'', JArr seedDepartments),
           (''branches'', JObj seedBranches),
           (''professors'',
              JObj [(''p1'', JObj [(''id'', JStr ''p1''), (''name'', JStr ''Ada''),
                                   (''branch'', JStr ''branch_ece'')])]),
           (''news'', JArr [])])"
  by code_simp

section \<open>Branch resolution\<close>

lemma editRequest_AppData:
  assumes wf: "isAppData d" and fo: "isObject profFormData"
    and bn: "field profFormData ''branchName'' = JStr bn"
    and fd: "findDepartment d (field profFormData ''departmentId'') = Inr department"
    and td: "truthy department"
  shows "\<exists>c. editRequest toLowerCase now profFormData d = Inr (Some c)
     \<and> ec_department c = department \<and> ec_branchName c = JStr bn
     \<and> (case List.find (editMatches toLowerCase bn) (branchesOf d department) of
           Some b \<Rightarrow> \<not> ec_isNewBranch c \<and> ec_branchId c = field b ''id''
         | None \<Rightarrow> ec_isNewBranch c \<and> ec_branchId c = JStr (''branch_'' @ show_nat now))"
proof -
  from found_department [OF wf fd td] have dep: "isDepartment department" by simp
  from dep have od: "isObject department" by (simp add: isDepartment_def)
  from fo obtain rest where ds:
    "destructure profFormData [''branchName'', ''departmentId'', ''id''] = Inr rest"
    by (cases profFormData) (simp_all add: destructure_def)
  have db: "departmentBranches d department = Inr (branchesOf d department)"
    using wf dep by (rule departmentBranches_AppData)
  have fe: "findE (matchesEdit toLowerCase (JStr bn)) (branchesOf d department)
      = Inr (List.find (editMatches toLowerCase bn) (branchesOf d department))"
    by (rule findE_total) (simp add: matchesEdit_branch branchesOf_elements [OF wf])
  let ?found = "List.find (editMatches toLowerCase bn) (branchesOf d department)"
  have bi: "branchIdFor (orUndefined ?found) now =
      Inr (case ?found of Some b \<Rightarrow> field b ''id''
           | None \<Rightarrow> JStr (''branch_'' @ show_nat now))"
    and nw: "(\<not> truthy (orUndefined ?found)) = (?found = None)"
  proof -
    show "branchIdFor (orUndefined ?found) now =
      Inr (case ?found of Some b \<Rightarrow> field b ''id''
           | None \<Rightarrow> JStr (''branch_'' @ show_nat now))"
    proof (cases ?found)
      case None
      then show ?thesis by (simp add: branchIdFor_def orUndefined_def)
    next
      case (Some b)
      then have "editMatches toLowerCase bn b" using find_SomeD by fastforce
      then have "truthy b" by (simp add: editMatches_def)
      with Some show ?thesis by (simp add: branchIdFor_def orUndefined_def get_truthy)
    qed
    show "(\<not> truthy (orUndefined ?found)) = (?found = None)"
    proof (cases ?found)
      case None
      then show ?thesis by (simp add: orUndefined_def)
    next
      case (Some b)
      then have "editMatches toLowerCase bn b" using find_SomeD by fastforce
      then have "truthy b" by (simp add: editMatches_def)
      with Some show ?thesis by (simp add: orUndefined_def)
    qed
  qed
  obtain payload where ep: "editPayload (?found = None) (field profFormData ''id'') rest
      (case ?found of Some b \<Rightarrow> field b ''id'' | None \<Rightarrow> JStr (''branch_'' @ show_nat now))
      (JStr bn) department = Inr payload"
    using od by (simp add: editPayload_def get_isObject Let_def del: ownProps.simps)
  have "editRequest toLowerCase now profFormData d =
      Inr (Some \<lparr>ec_isNewBranch = (?found = None),
                  ec_branchId = (case ?found of Some b \<Rightarrow> field b ''id''
                                 | None \<Rightarrow> JStr (''branch_'' @ show_nat now)),
                  ec_branchName = JStr bn, ec_department = department,
                  ec_rest = rest, ec_id = field profFormData ''id'', ec_payload = payload\<rparr>)"
    unfolding editRequest_def
    apply (simp only: ds thenE_Inr Let_def bn fd td if_False simp_thms)
    apply (simp only: db thenE_Inr fe bi nw ep)
    done
  then show ?thesis by (cases ?found) simp_all
qed

lemma addRequest_AppData:
  assumes wf: "isAppData d" and fo: "isObject profFormData"
    and bn: "field profFormData ''branchName'' = JStr bn"
    and fd: "findDepartment d (field profFormData ''departmentId'') = Inr department"
    and td: "truthy department"
  shows "\<exists>p. addRequest toLowerCase now profFormData d = Inr (Some p)
     \<and> field p ''branch'' =
         (case List.find (nameMatches toLowerCase bn) (branchesOf d department) of
            Some b \<Rightarrow> field b ''id''
          | None \<Rightarrow> JStr (''branch_'' @ show_nat now))"
proof -
  from found_department [OF wf fd td] have dep: "isDepartment department" by simp
  from dep have od: "isObject department" by (simp add: isDepartment_def)
  from fo obtain core where ds:
    "destructure profFormData [''branchName'', ''departmentId''] = Inr core"
    by (cases profFormData) (simp_all add: destructure_def)
  have db: "departmentBranches d department = Inr (branchesOf d department)"
    using wf dep by (rule departmentBranches_AppData)
  have fe: "findE (matchesAdd toLowerCase (JStr bn)) (branchesOf d department)
      = Inr (List.find (nameMatches toLowerCase bn) (branchesOf d department))"
    by (rule findE_total) (simp add: matchesAdd_branch branchesOf_elements [OF wf])
  let ?found = "List.find (nameMatches toLowerCase bn) (branchesOf d department)"
  let ?bid = "case ?found of Some b \<Rightarrow> field b ''id''
           | None \<Rightarrow> JStr (''branch_'' @ show_nat now)"
  have bi: "branchIdFor (orUndefined ?found) now = Inr ?bid"
  proof (cases ?found)
    case None
    then show ?thesis by (simp add: branchIdFor_def orUndefined_def)
  next
    case (Some b)
    then have "nameMatches toLowerCase bn b" using find_SomeD by fastforce
    then have "truthy b"
      by (cases b) (simp_all add: nameMatches_def field_def array_index_def is_digit_def)
    with Some show ?thesis by (simp add: branchIdFor_def orUndefined_def get_truthy)
  qed
  let ?p = "JObj (obj_of (ownProps core @
              [(''branch'', ?bid), (''departmentId'', field department ''id''),
               (''departmentName'', field department ''name'')]))"
  have ap: "addPayload core ?bid department = Inr ?p"
    using od by (simp add: addPayload_def get_isObject del: ownProps.simps)
  have "addRequest toLowerCase now profFormData d = Inr (Some ?p)"
    unfolding addRequest_def
    apply (simp only: ds thenE_Inr Let_def bn fd td if_False simp_thms)
    apply (simp only: db thenE_Inr fe bi ap)
    done
  moreover have "field ?p ''branch'' = ?bid"
  proof -
    from ds fo obtain ck where "core = JObj ck"
      by (cases profFormData) (auto simp: destructure_def)
    then show ?thesis by (simp add: field_spread)
  qed
  ultimately show ?thesis by blast
qed

lemma list_all2_map_self:
  "list_all2 R xs (map g xs) \<longleftrightarrow> (\<forall>x\<in>set xs. R x (g x))"
  by (simp add: list_all2_map2 list_all2_same)

lemma new_branch_object:
  "JObj (obj_of [(''id'', a), (''name'', b), (''departmentId'', c)])
     = JObj [(''id'', a), (''name'', b), (''departmentId'', c)]"
  by (simp add: obj_of_def)

lemma appended_department:
  assumes "isDepartment x"
  shows "field (JObj (obj_of (ownProps x @ [(''branches'', v)]))) f
     = (if f = ''branches'' then v else field x f)"
proof -
  from assms obtain xk where "x = JObj xk" by (cases x) (simp_all add: isDepartment_def)
  then show ?thesis by (simp add: field_JObj map_of_spread orUndefined_def)
qed

text \<open>
  C5, amended. On an aggregate of the shape that \<^verbatim>\<open>AppData\<close> declares, a form that is an
  object with a string as branch name, and a department found for the form, none of whose
  branch identifiers is read from the prototype of the branch map; \<open>toLowerCase\<close> is the
  lower-casing of the platform, whatever it is. Edit takes as the existing
  branch the first branch of the department whose identifier is the given name or whose
  name is the given one up to the case of the letters; with such a branch it sends that
  branch's identifier and, when it returns, the branch map and the departments are as
  before; with none it sends \<^verbatim>\<open>branch_\<close> followed by the time, and when it returns the
  branch map holds one entry more, the new branch under that identifier, and the branch
  list of each department with the identifier of the target has that identifier appended,
  every other field and every other department being as before. Add sends the identifier
  of the first branch whose name is the given one up to the case of the letters, and
  \<^verbatim>\<open>branch_\<close> followed by the time when there is none.
\<close>

theorem branch_resolution:
  assumes wf: "isAppData (data st)" and fo: "isObject profFormData"
    and bn: "field profFormData ''branchName'' = JStr bn"
    and fd: "findDepartment (data st) (field profFormData ''departmentId'') = Inr department"
    and td: "truthy department"
    and ob: "ownBranchKeys (data st) department"
  shows "(\<exists>c. editRequest toLowerCase now profFormData (data st) = Inr (Some c)
      \<and> ec_department c = department
      \<and> (case List.find (editMatches toLowerCase bn) (branchesOf (data st) department) of
            Some b \<Rightarrow> \<not> ec_isNewBranch c \<and> ec_branchId c = field b ''id''
          | None \<Rightarrow> ec_isNewBranch c \<and> ec_branchId c = JStr (''branch_'' @ show_nat now)))
   \<and> (\<forall>st'. handleEditProfessor toLowerCase updateProfessor now later profFormData st
            = Inr st' \<longrightarrow>
         (case List.find (editMatches toLowerCase bn) (branchesOf (data st) department) of
            Some b \<Rightarrow>
              field (data st') ''branches'' = field (data st) ''branches''
              \<and> field (data st') ''departments'' = field (data st) ''departments''
          | None \<Rightarrow>
              (\<forall>k. entry (data st') ''branches'' k =
                 (if k = ''branch_'' @ show_nat now
                  then Some (JObj [(''id'', JStr (''branch_'' @ show_nat now)),
                                   (''name'', JStr bn),
                                   (''departmentId'', field department ''id'')])
                  else entry (data st) ''branches'' k))
              \<and> list_all2
                  (\<lambda>x x'. if field x ''id'' = field department ''id''
                           then field x' ''branches''
                                  = JArr (branch_ids x @ [JStr (''branch_'' @ show_nat now)])
                                \<and> (\<forall>f. f \<noteq> ''branches'' \<longrightarrow> field x' f = field x f)
                           else x' = x)
                  (departments_of (data st)) (departments_of (data st'))))
   \<and> (\<exists>p. addRequest toLowerCase now profFormData (data st) = Inr (Some p)
      \<and> field p ''branch'' =
         (case List.find (nameMatches toLowerCase bn) (branchesOf (data st) department) of
            Some b \<Rightarrow> field b ''id''
          | None \<Rightarrow> JStr (''branch_'' @ show_nat now)))"
proof (intro conjI allI impI)
  from editRequest_AppData [where toLowerCase = toLowerCase and now = now, OF wf fo bn fd td]
  show "\<exists>c. editRequest toLowerCase now profFormData (data st) = Inr (Some c)
      \<and> ec_department c = department
      \<and> (case List.find (editMatches toLowerCase bn) (branchesOf (data st) department) of
            Some b \<Rightarrow> \<not> ec_isNewBranch c \<and> ec_branchId c = field b ''id''
          | None \<Rightarrow> ec_isNewBranch c \<and> ec_branchId c = JStr (''branch_'' @ show_nat now))"
    by blast
next
  from addRequest_AppData [where toLowerCase = toLowerCase and now = now, OF wf fo bn fd td]
  show "\<exists>p. addRequest toLowerCase now profFormData (data st) = Inr (Some p)
      \<and> field p ''branch'' =
         (case List.find (nameMatches toLowerCase bn) (branchesOf (data st) department) of
            Some b \<Rightarrow> field b ''id''
          | None \<Rightarrow> JStr (''branch_'' @ show_nat now))"
    by blast
next
  fix st'
  assume h: "handleEditProfessor toLowerCase updateProfessor now later profFormData st = Inr st'"
  let ?found = "List.find (editMatches toLowerCase bn) (branchesOf (data st) department)"
  let ?key = "''branch_'' @ show_nat now"
  from editRequest_AppData [where toLowerCase = toLowerCase and now = now, OF wf fo bn fd td] obtain c where
    rq: "editRequest toLowerCase now profFormData (data st) = Inr (Some c)"
    and cd: "ec_department c = department" and cb: "ec_branchName c = JStr bn"
    and cf: "case ?found of
            Some b \<Rightarrow> \<not> ec_isNewBranch c \<and> ec_branchId c = field b ''id''
          | None \<Rightarrow> ec_isNewBranch c \<and> ec_branchId c = JStr ?key"
    by blast
  from found_department [OF wf fd td] have dep: "isDepartment department" by simp
  from handleEdit_data [OF wf rq h] obtain u where
    r: "registerBranch (ec_isNewBranch c) (ec_branchId c) (JStr bn) department
            (JObj (obj_of (ownProps (data st)))) = Inr (JObj u)"
    and fb: "field (data st') ''branches'' = field (JObj u) ''branches''"
    and fdp: "field (data st') ''departments'' = field (JObj u) ''departments''"
    unfolding cd cb by blast
  from registerBranch_AppData [OF wf dep, of "ec_isNewBranch c" "ec_branchId c" "JStr bn"]
  obtain u2 where r2: "registerBranch (ec_isNewBranch c) (ec_branchId c) (JStr bn) department
            (JObj (obj_of (ownProps (data st)))) = Inr (JObj u2)"
    and old2: "\<not> ec_isNewBranch c \<longrightarrow>
              field (JObj u2) ''branches'' = field (data st) ''branches''
              \<and> field (JObj u2) ''departments'' = field (data st) ''departments''"
    and new2: "ec_isNewBranch c \<longrightarrow> field (JObj u2) ''branches'' =
           JObj (obj_of (ownProps (field (data st) ''branches'') @
             [(js_String (ec_branchId c),
               JObj (obj_of [(''id'', ec_branchId c), (''name'', JStr bn),
                             (''departmentId'', field department ''id'')]))]))
         \<and> field (JObj u2) ''departments'' =
           JArr (map (\<lambda>x. if field x ''id'' = field department ''id''
                           then JObj (obj_of (ownProps x @
                                  [(''branches'', JArr (branch_ids x @ [ec_branchId c]))]))
                           else x) (departments_of (data st)))"
    by blast
  from r r2 have uu: "u2 = u" by simp
  note old = old2 [unfolded uu, rule_format]
  note new = new2 [unfolded uu, rule_format]
  show "case ?found of
            Some b \<Rightarrow>
              field (data st') ''branches'' = field (data st) ''branches''
              \<and> field (data st') ''departments'' = field (data st) ''departments''
          | None \<Rightarrow>
              (\<forall>k. entry (data st') ''branches'' k =
                 (if k = ?key
                  then Some (JObj [(''id'', JStr ?key), (''name'', JStr bn),
                                   (''departmentId'', field department ''id'')])
                  else entry (data st) ''branches'' k))
              \<and> list_all2
                  (\<lambda>x x'. if field x ''id'' = field department ''id''
                           then field x' ''branches'' = JArr (branch_ids x @ [JStr ?key])
                                \<and> (\<forall>f. f \<noteq> ''branches'' \<longrightarrow> field x' f = field x f)
                           else x' = x)
                  (departments_of (data st)) (departments_of (data st'))"
  proof (cases ?found)
    case (Some b)
    with cf have "\<not> ec_isNewBranch c" by simp
    from old [OF this] fb fdp Some show ?thesis by simp
  next
    case None
    with cf have n: "ec_isNewBranch c" and bi: "ec_branchId c = JStr ?key" by simp_all
    from wf obtain ds ps bk where
      fds: "field (data st) ''departments'' = JArray ds ps" and dd: "list_all isDepartment ds"
      and fbk: "field (data st) ''branches'' = JObj bk"
      by (rule isAppData_fields)
    let ?g = "\<lambda>x. if field x ''id'' = field department ''id''
                   then JObj (obj_of (ownProps x @
                          [(''branches'', JArr (branch_ids x @ [JStr ?key]))]))
                   else x"
    note new' = new [OF n, unfolded bi fbk js_String.simps new_branch_object ownProps.simps]
    have b': "field (data st') ''branches'' =
           JObj (obj_of (AList.clearjunk bk @
             [(?key, JObj [(''id'', JStr ?key), (''name'', JStr bn),
                           (''departmentId'', field department ''id'')])]))"
      unfolding fb by (rule new' [THEN conjunct1])
    have d': "field (data st') ''departments'' = JArr (map ?g (departments_of (data st)))"
      unfolding fdp by (rule new' [THEN conjunct2])
    have e: "\<forall>k. entry (data st') ''branches'' k =
                 (if k = ?key
                  then Some (JObj [(''id'', JStr ?key), (''name'', JStr bn),
                                   (''departmentId'', field department ''id'')])
                  else entry (data st) ''branches'' k)"
      unfolding entry_def b' fbk by (simp add: map_of_spread)
    have dsof: "departments_of (data st) = ds" by (simp add: departments_of_def fds)
    from d' have d'': "field (data st') ''departments'' = JArr (map ?g ds)"
      unfolding dsof .
    have "departments_of (data st') = map ?g ds"
      by (simp only: departments_of_def d'' jv.case)
    moreover have "list_all2
                  (\<lambda>x x'. if field x ''id'' = field department ''id''
                           then field x' ''branches'' = JArr (branch_ids x @ [JStr ?key])
                                \<and> (\<forall>f. f \<noteq> ''branches'' \<longrightarrow> field x' f = field x f)
                           else x' = x)
                  ds (map ?g ds)"
      unfolding list_all2_map_self
    proof
      fix x assume "x \<in> set ds"
      with dd have "isDepartment x" by (simp add: list_all_iff)
      from appended_department [OF this]
      show "if field x ''id'' = field department ''id''
            then field (?g x) ''branches'' = JArr (branch_ids x @ [JStr ?key])
                 \<and> (\<forall>f. f \<noteq> ''branches'' \<longrightarrow> field (?g x) f = field x f)
            else ?g x = x"
        by simp
    qed
    ultimately show ?thesis using None e dsof by simp
  qed
qed


lemma show_nat_1700: "show_nat 1700 = ''1700''"
  by code_simp

lemma edit_returns_example:
  "\<not> isl (handleEditProfessor asciiLower server_echo 1700 1701 form_new_branch example_state)"
  by code_simp

lemma seed_department_example:
  "findDepartment example_data (field form_new_branch ''departmentId'') = Inr (hd seedDepartments)"
  "truthy (hd seedDepartments)"
  "List.find (editMatches asciiLower ''VLSI'') (branchesOf example_data (hd seedDepartments)) = None"
  "List.find (nameMatches asciiLower ''VLSI'') (branchesOf example_data (hd seedDepartments)) = None"
  "departments_of example_data = [hd seedDepartments]"
  "branch_ids (hd seedDepartments) = [JStr ''branch_ece'']"
  by code_simp+

theorem branch_resolution_witness:
  "isAppData (data example_state) \<and> isObject form_new_branch
   \<and> field form_new_branch ''branchName'' = JStr ''VLSI''
   \<and> findDepartment (data example_state) (field form_new_branch ''departmentId'')
       = Inr (hd seedDepartments)
   \<and> truthy (hd seedDepartments)
   \<and> ownBranchKeys (data example_state) (hd seedDepartments)
   \<and> List.find (editMatches asciiLower ''VLSI'') (branchesOf (data example_state) (hd seedDepartments)) = None
   \<and> (\<exists>c. editRequest asciiLower 1700 form_new_branch (data example_state) = Inr (Some c)
          \<and> ec_isNewBranch c \<and> ec_branchId c = JStr ''branch_1700'')
   \<and> (\<exists>st' x'. handleEditProfessor asciiLower server_echo 1700 1701 form_new_branch example_state = Inr st'
          \<and> entry (data st') ''branches'' ''branch_1700''
              = Some (JObj [(''id'', JStr ''branch_1700''), (''name'', JStr ''VLSI''),
                            (''departmentId'', JStr ''dept_ece'')])
          \<and> entry (data st') ''branches'' ''branch_ece''
              = entry (data example_state) ''branches'' ''branch_ece''
          \<and> departments_of (data st') = [x']
          \<and> field x' ''branches'' = JArr [JStr ''branch_ece'', JStr ''branch_1700''])
   \<and> (\<exists>p. addRequest asciiLower 1700 form_new_branch (data example_state) = Inr (Some p)
          \<and> field p ''branch'' = JStr ''branch_1700'')"
proof -
  have d: "data example_state = example_data" by (simp add: example_state_simps)
  have w: "isAppData (data example_state)"
    using isAppData_example_data by (simp add: d)
  have o: "isObject form_new_branch" by (simp add: form_new_branch_def)
  have b: "field form_new_branch ''branchName'' = JStr ''VLSI''"
    by (simp add: form_new_branch_def field_def orUndefined_def)
  have f: "findDepartment (data example_state) (field form_new_branch ''departmentId'')
       = Inr (hd seedDepartments)"
    unfolding d by (rule seed_department_example)
  note t = seed_department_example(2)
  have ob: "ownBranchKeys (data example_state) (hd seedDepartments)"
    unfolding d by (rule ownBranchKeys_example)
  have n: "List.find (editMatches asciiLower ''VLSI'') (branchesOf (data example_state) (hd seedDepartments))
       = None"
    unfolding d by (rule seed_department_example)
  have m: "List.find (nameMatches asciiLower ''VLSI'') (branchesOf (data example_state) (hd seedDepartments))
       = None"
    unfolding d by (rule seed_department_example)
  have i: "field (hd seedDepartments) ''id'' = JStr ''dept_ece''"
    by (simp add: seedDepartments_def field_def orUndefined_def)
  obtain s where s: "handleEditProfessor asciiLower server_echo 1700 1701 form_new_branch example_state = Inr s"
    using edit_returns_example Inr_of_not_isl by metis
  note r = branch_resolution
    [where toLowerCase = asciiLower and updateProfessor = server_echo and later = 1701 and st = example_state
       and profFormData = form_new_branch and now = 1700 and bn = "''VLSI''"
       and department = "hd seedDepartments", OF w o b f t ob,
     unfolded n m option.case show_nat_1700 i]
  from r obtain c where c: "editRequest asciiLower 1700 form_new_branch (data example_state) = Inr (Some c)"
    "ec_isNewBranch c" "ec_branchId c = JStr (''branch_'' @ ''1700'')"
    by blast
  from r obtain p where p: "addRequest asciiLower 1700 form_new_branch (data example_state) = Inr (Some p)"
    "field p ''branch'' = JStr (''branch_'' @ ''1700'')"
    by blast
  from r s have e: "\<forall>k. entry (data s) ''branches'' k =
                 (if k = ''branch_'' @ ''1700''
                  then Some (JObj [(''id'', JStr (''branch_'' @ ''1700'')), (''name'', JStr ''VLSI''),
                                   (''departmentId'', JStr ''dept_ece'')])
                  else entry (data example_state) ''branches'' k)"
    and l: "list_all2
              (\<lambda>x x'. if field x ''id'' = JStr ''dept_ece''
                       then field x' ''branches''
                              = JArr (branch_ids x @ [JStr (''branch_'' @ ''1700'')])
                            \<and> (\<forall>f. f \<noteq> ''branches'' \<longrightarrow> field x' f = field x f)
                       else x' = x)
              (departments_of (data example_state)) (departments_of (data s))"
    by blast+
  from e have e1: "entry (data s) ''branches'' ''branch_1700''
              = Some (JObj [(''id'', JStr ''branch_1700''), (''name'', JStr ''VLSI''),
                            (''departmentId'', JStr ''dept_ece'')])"
    and e2: "entry (data s) ''branches'' ''branch_ece''
              = entry (data example_state) ''branches'' ''branch_ece''"
    by simp_all
  from l obtain x' where x: "departments_of (data s) = [x']"
    and "field x' ''branches'' = JArr (branch_ids (hd seedDepartments) @ [JStr (''branch_'' @ ''1700'')])"
    unfolding d seed_department_example(5) by (auto simp: list_all2_Cons1 i)
  then have x2: "field x' ''branches'' = JArr [JStr ''branch_ece'', JStr ''branch_1700'']"
    by (simp add: seed_department_example(6))
  from c p have "\<exists>c. editRequest asciiLower 1700 form_new_branch (data example_state) = Inr (Some c)
          \<and> ec_isNewBranch c \<and> ec_branchId c = JStr ''branch_1700''"
    and "\<exists>p. addRequest asciiLower 1700 form_new_branch (data example_state) = Inr (Some p)
          \<and> field p ''branch'' = JStr ''branch_1700''"
    by auto
  moreover from s e1 e2 x x2 have
    "\<exists>st' x'. handleEditProfessor asciiLower server_echo 1700 1701 form_new_branch example_state = Inr st'
          \<and> entry (data st') ''branches'' ''branch_1700''
              = Some (JObj [(''id'', JStr ''branch_1700''), (''name'', JStr ''VLSI''),
                            (''departmentId'', JStr ''dept_ece'')])
          \<and> entry (data st') ''branches'' ''branch_ece''
              = entry (data example_state) ''branches'' ''branch_ece''
          \<and> departments_of (data st') = [x']
          \<and> field x' ''branches'' = JArr [JStr ''branch_ece'', JStr ''branch_1700'']"
    by blast
  ultimately show ?thesis using w o b f t ob n by blast
qed

text \<open>
  C5 as stated fails in Edit for a name that is the identifier of a branch of the
  department: no branch has that name, and the branch is reused, none created.
\<close>

theorem edit_reuses_branch_given_by_id:
  "List.find (nameMatches asciiLower ''branch_ece'') (branchesOf example_data (hd seedDepartments)) = None
   \<and> field form_branch_by_id ''branchName'' = JStr ''branch_ece''
   \<and> data_after (handleEditProfessor asciiLower server_echo 1700 1701 form_branch_by_id example_state)
     = Some (JObj [(''departments'', JArr seedDepartments),
           (''branches'', JObj seedBranches),
           (''professors'',
              JObj [(''p1'', JObj [(''id'', JStr ''p1''), (''name'', JStr ''Ada''),
                                   (''branch'', JStr ''branch_ece'')]),
                    (''srv_1'', JObj [(''_id'', JStr ''srv_1''), (''id'', JStr ''srv_1''),
                      (''name'', JStr ''Ada L''), (''branch'', JStr ''branch_ece''),
                      (''departmentId'', JStr ''dept_ece''),
                      (''departmentName'',
                         JStr ''Electronics & Electrical Communication Engineering'')])]),
           (''news'', JArr [])])"
  by code_simp

text \<open>
  Add sends the new identifier to the Remote Store and registers no branch under it: the
  branch map and the branch list of the department are as before.
\<close>

lemma add_registers_no_branch:
  "data_after (handleAddProfessor asciiLower server_echo 1700 form_new_branch example_state)
     = Some (JObj [(''departments'', JArr seedDepartments),
           (''branches'', JObj seedBranches),
           (''professors'',
              JObj [(''p1'', JObj [(''id'', JStr ''p1''), (''name'', JStr ''Ada''),
                                   (''branch'', JStr ''branch_ece'')]),
                    (''srv_1'', JObj [(''id'', JStr ''srv_1''), (''name'', JStr ''Ada L''),
                      (''branch'', JStr ''branch_1700''),
                      (''departmentId'', JStr ''dept_ece''),
                      (''departmentName'',
                         JStr ''Electronics & Electrical Communication Engineering''),
                      (''_id'', JStr ''srv_1'')])]),
           (''news'', JArr [])])"
  by code_simp


section \<open>Properties of the HTTP client\<close>











section \<open>Properties of normalizeUrl\<close>






end
